theory Spec2Isabelle
  imports Complex_Main "HOL-Library.Word" "HOL-Library.AList" "HOL-Library.List_Lexorder"
    "HOL-Library.Char_ord"
begin

section \<open>The runtime configuration generator of the local daemon\<close>

text \<open>
  A shallow embedding of \<^verbatim>\<open>cli/daemon/run/runtime_config2.go\<close>. A Go \<^verbatim>\<open>string\<close> is a
  \<^typ>\<open>string\<close> (a list of bytes), so the conversion \<^verbatim>\<open>[]byte(s)\<close> is the identity and
  \<^verbatim>\<open>sort.Strings\<close> orders by the lexicographic order of the bytes, which is the order of
  \<^typ>\<open>string\<close> here.
\<close>

type_synonym bytes = string

subsection \<open>The application metadata (\<^verbatim>\<open>meta.Data\<close>)\<close>

text \<open>Only the fields that the generator reads are kept.\<close>

record meta_Service =
  Service_Name :: string

record meta_Gateway =
  mGateway_EncoreName :: string

record meta_Subscription =
  Subscription_Name :: string

text \<open>
  The protobuf enumeration \<^verbatim>\<open>meta.PubSubTopic_DeliveryGuarantee\<close>: its two named values, and
  any other number that the wire format can carry.
\<close>

datatype meta_DeliveryGuarantee =
  PubSubTopic_AT_LEAST_ONCE
  | PubSubTopic_EXACTLY_ONCE
  | PubSubTopic_unrecognized int

record meta_PubSubTopic =
  Topic_Name :: string
  Topic_DeliveryGuarantee :: meta_DeliveryGuarantee
  Topic_OrderingKey :: string
  Topic_Subscriptions :: "meta_Subscription list"

record meta_SQLDatabase =
  mSQLDatabase_Name :: string

record meta_CacheCluster =
  mCacheCluster_Name :: string

record meta_Bucket =
  mBucket_Name :: string
  mBucket_Public :: bool

record meta_Package =
  Secrets :: "string list"
  ServiceName :: string

record meta_Data =
  Svcs :: "meta_Service list"
  mGateways :: "meta_Gateway list"
  PubsubTopics :: "meta_PubSubTopic list"
  SqlDatabases :: "meta_SQLDatabase list"
  CacheClusters :: "meta_CacheCluster list"
  Buckets :: "meta_Bucket list"
  Pkgs :: "meta_Package list"

subsection \<open>Errors\<close>

text \<open>
  Every failure of the Go code is a value: \<open>External\<close> is an error that a collaborator or a
  library returned, \<open>Wrap\<close> is \<^verbatim>\<open>errors.Wrap(err, msg)\<close>, \<open>Wrapf\<close> is
  \<^verbatim>\<open>errors.Wrapf(err, format, name)\<close> with its format and its one argument, and \<open>Newf\<close> is
  \<^verbatim>\<open>errors.Newf(format, guarantee)\<close>.
\<close>

datatype error =
  External string
  | Wrap error string
  | Wrapf error string string
  | Newf string meta_DeliveryGuarantee

fun and_then :: "error + 'a \<Rightarrow> ('a \<Rightarrow> error + 'b) \<Rightarrow> error + 'b" where
  "and_then (Inl e) f = Inl e"
| "and_then (Inr x) f = f x"

subsection \<open>The collaborators of the generator\<close>

text \<open>
  \<^verbatim>\<open>appfile.CORS\<close>: the code reads \<^verbatim>\<open>Debug\<close>, \<^verbatim>\<open>AllowHeaders\<close> and \<^verbatim>\<open>ExposeHeaders\<close>. The type is
  declared outside this file; its two lists of allowed origins are the \<^verbatim>\<open>global_cors\<close> keys
  \<^verbatim>\<open>allow_origins_without_credentials\<close> and \<^verbatim>\<open>allow_origins_with_credentials\<close> of the
  application file.
\<close>

record CORS =
  CORS_Debug :: bool
  CORS_AllowHeaders :: "string list"
  CORS_ExposeHeaders :: "string list"
  CORS_AllowOriginsWithoutCredentials :: "string list"
  CORS_AllowOriginsWithCredentials :: "string list"

record appfile_Build =
  WorkerPooling :: bool

record appfile_File =
  LogLevel :: string
  Build :: appfile_Build

text \<open>The interface \<^verbatim>\<open>app\<close>: each method is the result its call returns.\<close>

record App =
  PlatformID :: string
  PlatformOrLocalID :: string
  GlobalCORS :: "error + CORS"
  AppFile :: "error + appfile_File"

record config_SQLServer =
  cSQLServer_Host :: string
  cSQLServer_ServerCACert :: string

record config_PubsubProvider =
  NSQ_Host :: string

record config_SQLDatabase =
  cSQLDatabase_EncoreName :: string
  cSQLDatabase_DatabaseName :: string
  cSQLDatabase_User :: string
  cSQLDatabase_Password :: string
  cSQLDatabase_MinConnections :: "64 word"
  cSQLDatabase_MaxConnections :: "64 word"

record config_RedisServer =
  cRedisServer_Host :: string
  cRedisServer_User :: string
  cRedisServer_Password :: string
  cRedisServer_EnableTLS :: bool
  cRedisServer_ServerCACert :: string

record config_RedisDatabase =
  cRedisDatabase_EncoreName :: string
  cRedisDatabase_Database :: "64 word"
  cRedisDatabase_KeyPrefix :: string
  cRedisDatabase_MinConnections :: "64 word"
  cRedisDatabase_MaxConnections :: "64 word"

record config_BucketProvider =
  GCS_Endpoint :: string

text \<open>The interface \<^verbatim>\<open>infraManager\<close>, with the methods that the code calls.\<close>

record InfraManager =
  SQLServerConfig :: "error + config_SQLServer"
  PubSubProviderConfig :: "error + config_PubsubProvider"
  SQLDatabaseConfig :: "meta_SQLDatabase \<Rightarrow> error + config_SQLDatabase"
  RedisConfig :: "meta_CacheCluster \<Rightarrow> error + config_RedisServer \<times> config_RedisDatabase"
  BucketProviderConfig :: "error + config_BucketProvider \<times> string"

text \<open>
  The libraries and the operating system: \<^verbatim>\<open>xid.New().String()\<close> (its result at the \<open>k\<close>-th
  call), \<^verbatim>\<open>time.Now()\<close>, the value that \<^verbatim>\<open>strconv.ParseFloat\<close> reads from the environment
  variable \<^verbatim>\<open>ENCORE_TRACE_SAMPLING_RATE\<close> (\<open>None\<close> when it returns an error),
  \<^verbatim>\<open>json.Unmarshal\<close> into the struct with the one field \<^verbatim>\<open>connection_string\<close>, and
  \<^verbatim>\<open>pgx.ParseConfig\<close> with the four fields of its result that the code reads. A
  \<^verbatim>\<open>float64\<close> is a number, one of the two infinities or not a number, all of which
  \<^verbatim>\<open>ParseFloat\<close> returns without an error.
\<close>

datatype float64 = Finite real | PosInf | NegInf | NaN

record pgx_ConnConfig =
  pgx_Host :: string
  pgx_User :: string
  pgx_Password :: string
  pgx_Database :: string

record sys =
  xid_New :: "nat \<Rightarrow> string"
  time_Now :: nat
  ParseFloat_TRACE_SAMPLING_RATE :: "float64 option"
  json_Unmarshal :: "string \<Rightarrow> error + string"
  pgx_ParseConfig :: "string \<Rightarrow> error + pgx_ConnConfig"

subsection \<open>The runtime configuration messages (\<^verbatim>\<open>runtimev1\<close>)\<close>

text \<open>
  Each protobuf message is a record of the fields that the code sets. A \<^verbatim>\<open>oneof\<close> is a
  datatype; a pointer that may be \<^verbatim>\<open>nil\<close> is an option.
\<close>

datatype Environment_Type = Environment_TYPE_DEVELOPMENT | Environment_Type_other int

datatype Environment_Cloud = Environment_CLOUD_LOCAL | Environment_Cloud_other int

record Environment =
  Environment_AppId :: string
  Environment_AppSlug :: string
  Environment_EnvId :: string
  Environment_EnvName :: string
  Environment_EnvType :: Environment_Type
  Environment_Cloud :: Environment_Cloud

datatype SecretData = SecretData_Embedded bytes

record rt_EncoreAuthKey =
  rt_EncoreAuthKey_Id :: "32 word"
  rt_EncoreAuthKey_Data :: SecretData

record EncorePlatform =
  PlatformSigningKeys :: "rt_EncoreAuthKey list"

record TracingProvider =
  TracingProvider_Rid :: string
  TraceEndpoint_of :: string
  SamplingRate :: float64

record HostedService =
  HostedService_Name :: string
  LogConfig :: "string option"
  WorkerThreads :: "32 word option"

datatype ServiceAuth = ServiceAuth_EncoreAuth "rt_EncoreAuthKey list"

record GracefulShutdown =
  Total :: int
  ShutdownHooks :: int
  Handlers :: int

text \<open>
  \<^verbatim>\<open>Gateway_CORS.AllowedOriginsWithCredentials\<close> is a \<^verbatim>\<open>oneof\<close>: a list of allowed origins, or
  the flag that allows every origin. The code only ever builds the second.
\<close>

datatype AllowedOriginsWithCredentials =
  Gateway_CORS_AllowedOrigins "string list"
  | Gateway_CORS_UnsafeAllowAllOriginsWithCredentials bool

record Gateway_CORS =
  Debug :: bool
  DisableCredentials :: bool
  ExtraAllowedHeaders :: "string list"
  ExtraExposedHeaders :: "string list"
  AllowedOriginsWithCredentials :: AllowedOriginsWithCredentials
  AllowedOriginsWithoutCredentials :: "string list option"
  AllowPrivateNetworkAccess :: bool

record Gateway =
  Gateway_Rid :: string
  Gateway_EncoreName :: string
  Gateway_BaseUrl :: string
  Gateway_Hostnames :: "string list"
  Gateway_Cors :: Gateway_CORS

datatype DeliveryGuarantee =
  DELIVERY_GUARANTEE_UNSPECIFIED
  | DELIVERY_GUARANTEE_AT_LEAST_ONCE
  | DELIVERY_GUARANTEE_EXACTLY_ONCE

record PubSubTopic =
  PubSubTopic_Rid :: string
  PubSubTopic_EncoreName :: string
  PubSubTopic_CloudName :: string
  PubSubTopic_DeliveryGuarantee :: DeliveryGuarantee
  PubSubTopic_OrderingAttr :: "string option"

record PubSubSubscription =
  PubSubSubscription_Rid :: string
  TopicEncoreName :: string
  SubscriptionEncoreName :: string
  TopicCloudName :: string
  SubscriptionCloudName :: string
  PushOnly :: bool

record PubSubCluster =
  PubSubCluster_Rid :: string
  Nsq_Hosts :: "string list"
  PubSubCluster_Topics :: "PubSubTopic list"
  PubSubCluster_Subscriptions :: "PubSubSubscription list"

datatype ServerKind = SERVER_KIND_PRIMARY

record TLSConfig =
  ServerCaCert :: "string option"
  DisableCaValidation :: bool

record SQLServer =
  SQLServer_Rid :: string
  SQLServer_Kind :: ServerKind
  SQLServer_Host :: string
  SQLServer_TlsConfig :: "TLSConfig option"

record SQLRole =
  SQLRole_Rid :: string
  SQLRole_Username :: string
  SQLRole_Password :: SecretData
  SQLRole_ClientCertRid :: "string option"

record SQLConnectionPool =
  IsReadonly :: bool
  RoleRid :: string
  MinConnections :: "32 word"
  MaxConnections :: "32 word"

record SQLDatabase =
  SQLDatabase_Rid :: string
  SQLDatabase_EncoreName :: string
  SQLDatabase_CloudName :: string
  SQLDatabase_ConnPools :: "SQLConnectionPool list"

record SQLCluster =
  SQLCluster_Rid :: string
  SQLCluster_Servers :: "SQLServer list"
  SQLCluster_Databases :: "SQLDatabase list"

datatype RedisRole_Auth =
  RedisRole_Acl string SecretData
  | RedisRole_AuthString SecretData

record RedisRole =
  RedisRole_Rid :: string
  RedisRole_ClientCertRid :: "string option"
  RedisRole_Auth :: "RedisRole_Auth option"

record RedisServer =
  RedisServer_Rid :: string
  RedisServer_Host :: string
  RedisServer_Kind :: ServerKind
  RedisServer_TlsConfig :: "TLSConfig option"

record RedisConnectionPool =
  Redis_IsReadonly :: bool
  Redis_RoleRid :: string
  Redis_MinConnections :: "32 word"
  Redis_MaxConnections :: "32 word"

record RedisDatabase =
  RedisDatabase_Rid :: string
  RedisDatabase_EncoreName :: string
  DatabaseIdx :: "32 word"
  KeyPrefix :: "string option"
  RedisDatabase_ConnPools :: "RedisConnectionPool list"

record RedisCluster =
  RedisCluster_Rid :: string
  RedisCluster_Servers :: "RedisServer list"
  RedisCluster_Databases :: "RedisDatabase list"

record LocalSignOptions =
  LocalSign_BaseUrl :: string
  LocalSign_AccessId :: string
  LocalSign_PrivateKey :: string

record Bucket =
  Bucket_Rid :: string
  Bucket_EncoreName :: string
  Bucket_CloudName :: string
  PublicBaseUrl :: "string option"

record BucketCluster =
  BucketCluster_Rid :: string
  Gcs_Endpoint :: "string option"
  Gcs_Anonymous :: bool
  Gcs_LocalSign :: LocalSignOptions
  BucketCluster_Buckets :: "Bucket list"

record AppSecret =
  AppSecret_Rid :: string
  AppSecret_EncoreName :: string
  AppSecret_Data :: SecretData

subsection \<open>The generator\<close>

record GatewayConfig =
  BaseURL :: string
  Hostnames :: "string list"

record EncoreAuthKey =
  KeyID :: "32 word"
  Data :: bytes

text \<open>
  The fields of \<^verbatim>\<open>RuntimeConfigGenerator\<close> that its caller sets. \<^verbatim>\<open>DefinedSecrets\<close> is a Go
  map that the code both looks up and ranges over: it is an association list, read with
  \<^const>\<open>map_of\<close>, whose order stands for the order in which \<^verbatim>\<open>range\<close> happens to visit it.
  The two maps that are only looked up are partial functions.
\<close>

record RuntimeConfigGenerator =
  md :: meta_Data
  app :: App
  infraManager :: InfraManager
  AppID :: "string option"
  EnvID :: "string option"
  EnvName :: "string option"
  EnvType :: "Environment_Type option"
  EnvCloud :: "Environment_Cloud option"
  TraceEndpoint :: "string option"
  DeployID :: "string option"
  Gateways :: "string \<rightharpoonup> GatewayConfig"
  AuthKey :: EncoreAuthKey
  IncludeMetaEnv :: bool
  DefinedSecrets :: "(string \<times> string) list"
  SvcConfigs :: "string \<rightharpoonup> string"

subsection \<open>The configuration builder (\<^verbatim>\<open>rtconfgen.Builder\<close>)\<close>

text \<open>
  Modelled from the spec: the builder of package \<^verbatim>\<open>rtconfgen\<close> is not among the sources. It
  is the keyed registry of the design: every kind of resource is a list in the order of
  creation, an add looks the resource up by its Rid and creates it only when no resource
  of that Rid is there, and a nested add goes to the owner with the given Rid.
\<close>

record Infra =
  Infra_gateways :: "Gateway list"
  Infra_pubsubClusters :: "PubSubCluster list"
  Infra_sqlClusters :: "SQLCluster list"
  Infra_sqlRoles :: "SQLRole list"
  Infra_redisClusters :: "RedisCluster list"
  Infra_redisRoles :: "RedisRole list"
  Infra_bucketClusters :: "BucketCluster list"
  Infra_appSecrets :: "AppSecret list"

record Builder =
  Builder_DeployID :: "string option"
  Builder_DeployedAt :: "nat option"
  Builder_Env :: "Environment option"
  Builder_EncorePlatform :: "EncorePlatform option"
  Builder_TracingProvider :: "TracingProvider option"
  Builder_ServiceConfigs :: "HostedService list"
  Builder_AuthMethods :: "ServiceAuth list"
  Builder_DefaultGracefulShutdown :: "GracefulShutdown option"
  Builder_Infra :: Infra

text \<open>Modelled from the spec: \<^verbatim>\<open>rtconfgen.NewBuilder\<close>, the empty builder.\<close>

definition NewBuilder :: Builder where
  "NewBuilder =
     \<lparr>Builder_DeployID = None, Builder_DeployedAt = None, Builder_Env = None,
      Builder_EncorePlatform = None, Builder_TracingProvider = None,
      Builder_ServiceConfigs = [], Builder_AuthMethods = [],
      Builder_DefaultGracefulShutdown = None,
      Builder_Infra =
        \<lparr>Infra_gateways = [], Infra_pubsubClusters = [], Infra_sqlClusters = [],
         Infra_sqlRoles = [], Infra_redisClusters = [], Infra_redisRoles = [],
         Infra_bucketClusters = [], Infra_appSecrets = []\<rparr>\<rparr>"

text \<open>Modelled from the spec: get-or-create, keyed by the Rid that \<open>rid\<close> reads.\<close>

definition getOrCreate :: "('a \<Rightarrow> string) \<Rightarrow> 'a \<Rightarrow> 'a list \<Rightarrow> 'a list" where
  "getOrCreate rid x xs = (if rid x \<in> set (map rid xs) then xs else xs @ [x])"

text \<open>Modelled from the spec: an operation on the owner whose Rid is \<open>key\<close>.\<close>

definition update_where :: "('a \<Rightarrow> string) \<Rightarrow> string \<Rightarrow> ('a \<Rightarrow> 'a) \<Rightarrow> 'a list \<Rightarrow> 'a list" where
  "update_where rid key f xs = map (\<lambda>x. if rid x = key then f x else x) xs"

text \<open>Modelled from the spec: \<^verbatim>\<open>Builder.ServiceConfig\<close>, keyed by the service name.\<close>

definition Builder_ServiceConfig :: "HostedService \<Rightarrow> Builder \<Rightarrow> Builder" where
  "Builder_ServiceConfig cfg b =
     b\<lparr>Builder_ServiceConfigs := getOrCreate HostedService_Name cfg (Builder_ServiceConfigs b)\<rparr>"

text \<open>Modelled from the spec: \<^verbatim>\<open>Infra.Gateway\<close>.\<close>

definition Infra_Gateway :: "Gateway \<Rightarrow> Infra \<Rightarrow> Infra" where
  "Infra_Gateway gw i = i\<lparr>Infra_gateways := getOrCreate Gateway_Rid gw (Infra_gateways i)\<rparr>"

text \<open>Modelled from the spec: \<^verbatim>\<open>Infra.PubSubCluster\<close>.\<close>

definition Infra_PubSubCluster :: "PubSubCluster \<Rightarrow> Infra \<Rightarrow> Infra" where
  "Infra_PubSubCluster c i =
     i\<lparr>Infra_pubsubClusters := getOrCreate PubSubCluster_Rid c (Infra_pubsubClusters i)\<rparr>"

text \<open>Modelled from the spec: \<^verbatim>\<open>PubSubCluster.PubSubTopic\<close> on the cluster of Rid \<open>crid\<close>.\<close>

definition PubSubCluster_PubSubTopic :: "string \<Rightarrow> PubSubTopic \<Rightarrow> Infra \<Rightarrow> Infra" where
  "PubSubCluster_PubSubTopic crid t i =
     i\<lparr>Infra_pubsubClusters := update_where PubSubCluster_Rid crid
          (\<lambda>c. c\<lparr>PubSubCluster_Topics := getOrCreate PubSubTopic_Rid t (PubSubCluster_Topics c)\<rparr>)
          (Infra_pubsubClusters i)\<rparr>"

text \<open>Modelled from the spec: \<^verbatim>\<open>PubSubCluster.PubSubSubscription\<close>.\<close>

definition PubSubCluster_PubSubSubscription :: "string \<Rightarrow> PubSubSubscription \<Rightarrow> Infra \<Rightarrow> Infra" where
  "PubSubCluster_PubSubSubscription crid sub i =
     i\<lparr>Infra_pubsubClusters := update_where PubSubCluster_Rid crid
          (\<lambda>c. c\<lparr>PubSubCluster_Subscriptions :=
                   getOrCreate PubSubSubscription_Rid sub (PubSubCluster_Subscriptions c)\<rparr>)
          (Infra_pubsubClusters i)\<rparr>"

text \<open>Modelled from the spec: \<^verbatim>\<open>Infra.SQLCluster\<close>.\<close>

definition Infra_SQLCluster :: "SQLCluster \<Rightarrow> Infra \<Rightarrow> Infra" where
  "Infra_SQLCluster c i =
     i\<lparr>Infra_sqlClusters := getOrCreate SQLCluster_Rid c (Infra_sqlClusters i)\<rparr>"

text \<open>Modelled from the spec: \<^verbatim>\<open>SQLCluster.SQLServer\<close> on the cluster of Rid \<open>crid\<close>.\<close>

definition SQLCluster_SQLServer :: "string \<Rightarrow> SQLServer \<Rightarrow> Infra \<Rightarrow> Infra" where
  "SQLCluster_SQLServer crid srv i =
     i\<lparr>Infra_sqlClusters := update_where SQLCluster_Rid crid
          (\<lambda>c. c\<lparr>SQLCluster_Servers := getOrCreate SQLServer_Rid srv (SQLCluster_Servers c)\<rparr>)
          (Infra_sqlClusters i)\<rparr>"

text \<open>Modelled from the spec: \<^verbatim>\<open>Infra.SQLRole\<close>.\<close>

definition Infra_SQLRole :: "SQLRole \<Rightarrow> Infra \<Rightarrow> Infra" where
  "Infra_SQLRole r i = i\<lparr>Infra_sqlRoles := getOrCreate SQLRole_Rid r (Infra_sqlRoles i)\<rparr>"

text \<open>Modelled from the spec: \<^verbatim>\<open>SQLCluster.SQLDatabase\<close> on the cluster of Rid \<open>crid\<close>.\<close>

definition SQLCluster_SQLDatabase :: "string \<Rightarrow> SQLDatabase \<Rightarrow> Infra \<Rightarrow> Infra" where
  "SQLCluster_SQLDatabase crid db i =
     i\<lparr>Infra_sqlClusters := update_where SQLCluster_Rid crid
          (\<lambda>c. c\<lparr>SQLCluster_Databases :=
                   getOrCreate SQLDatabase_Rid db (SQLCluster_Databases c)\<rparr>)
          (Infra_sqlClusters i)\<rparr>"

text \<open>
  Modelled from the spec: \<^verbatim>\<open>AddConnectionPool\<close> on the database of Rid \<open>drid\<close> of the cluster of
  Rid \<open>crid\<close>, the handle that \<^verbatim>\<open>SQLCluster.SQLDatabase\<close> returned.
\<close>

definition SQLDatabase_AddConnectionPool ::
    "string \<Rightarrow> string \<Rightarrow> SQLConnectionPool \<Rightarrow> Infra \<Rightarrow> Infra" where
  "SQLDatabase_AddConnectionPool crid drid pool i =
     i\<lparr>Infra_sqlClusters := update_where SQLCluster_Rid crid
          (\<lambda>c. c\<lparr>SQLCluster_Databases := update_where SQLDatabase_Rid drid
                   (\<lambda>d. d\<lparr>SQLDatabase_ConnPools := SQLDatabase_ConnPools d @ [pool]\<rparr>)
                   (SQLCluster_Databases c)\<rparr>)
          (Infra_sqlClusters i)\<rparr>"

text \<open>Modelled from the spec: \<^verbatim>\<open>Infra.RedisCluster\<close>.\<close>

definition Infra_RedisCluster :: "RedisCluster \<Rightarrow> Infra \<Rightarrow> Infra" where
  "Infra_RedisCluster c i =
     i\<lparr>Infra_redisClusters := getOrCreate RedisCluster_Rid c (Infra_redisClusters i)\<rparr>"

text \<open>
  Modelled from the spec: \<^verbatim>\<open>Infra.RedisRoleFn\<close>, which creates the role only when no role of
  the Rid is there.
\<close>

definition Infra_RedisRoleFn :: "string \<Rightarrow> RedisRole \<Rightarrow> Infra \<Rightarrow> Infra" where
  "Infra_RedisRoleFn rid r i =
     (if rid \<in> set (map RedisRole_Rid (Infra_redisRoles i)) then i
      else i\<lparr>Infra_redisRoles := Infra_redisRoles i @ [r]\<rparr>)"

text \<open>Modelled from the spec: \<^verbatim>\<open>RedisCluster.RedisServer\<close> on the cluster of Rid \<open>crid\<close>.\<close>

definition RedisCluster_RedisServer :: "string \<Rightarrow> RedisServer \<Rightarrow> Infra \<Rightarrow> Infra" where
  "RedisCluster_RedisServer crid srv i =
     i\<lparr>Infra_redisClusters := update_where RedisCluster_Rid crid
          (\<lambda>c. c\<lparr>RedisCluster_Servers := getOrCreate RedisServer_Rid srv (RedisCluster_Servers c)\<rparr>)
          (Infra_redisClusters i)\<rparr>"

text \<open>Modelled from the spec: \<^verbatim>\<open>RedisCluster.RedisDatabase\<close> on the cluster of Rid \<open>crid\<close>.\<close>

definition RedisCluster_RedisDatabase :: "string \<Rightarrow> RedisDatabase \<Rightarrow> Infra \<Rightarrow> Infra" where
  "RedisCluster_RedisDatabase crid db i =
     i\<lparr>Infra_redisClusters := update_where RedisCluster_Rid crid
          (\<lambda>c. c\<lparr>RedisCluster_Databases :=
                   getOrCreate RedisDatabase_Rid db (RedisCluster_Databases c)\<rparr>)
          (Infra_redisClusters i)\<rparr>"

text \<open>Modelled from the spec: \<^verbatim>\<open>AddConnectionPool\<close> on a database of a cache cluster.\<close>

definition RedisDatabase_AddConnectionPool ::
    "string \<Rightarrow> string \<Rightarrow> RedisConnectionPool \<Rightarrow> Infra \<Rightarrow> Infra" where
  "RedisDatabase_AddConnectionPool crid drid pool i =
     i\<lparr>Infra_redisClusters := update_where RedisCluster_Rid crid
          (\<lambda>c. c\<lparr>RedisCluster_Databases := update_where RedisDatabase_Rid drid
                   (\<lambda>d. d\<lparr>RedisDatabase_ConnPools := RedisDatabase_ConnPools d @ [pool]\<rparr>)
                   (RedisCluster_Databases c)\<rparr>)
          (Infra_redisClusters i)\<rparr>"

text \<open>Modelled from the spec: \<^verbatim>\<open>Infra.BucketCluster\<close>.\<close>

definition Infra_BucketCluster :: "BucketCluster \<Rightarrow> Infra \<Rightarrow> Infra" where
  "Infra_BucketCluster c i =
     i\<lparr>Infra_bucketClusters := getOrCreate BucketCluster_Rid c (Infra_bucketClusters i)\<rparr>"

text \<open>Modelled from the spec: \<^verbatim>\<open>BucketCluster.Bucket\<close> on the cluster of Rid \<open>crid\<close>.\<close>

definition BucketCluster_Bucket :: "string \<Rightarrow> Bucket \<Rightarrow> Infra \<Rightarrow> Infra" where
  "BucketCluster_Bucket crid bkt i =
     i\<lparr>Infra_bucketClusters := update_where BucketCluster_Rid crid
          (\<lambda>c. c\<lparr>BucketCluster_Buckets := getOrCreate Bucket_Rid bkt (BucketCluster_Buckets c)\<rparr>)
          (Infra_bucketClusters i)\<rparr>"

text \<open>Modelled from the spec: \<^verbatim>\<open>Infra.AppSecret\<close>.\<close>

definition Infra_AppSecret :: "AppSecret \<Rightarrow> Infra \<Rightarrow> Infra" where
  "Infra_AppSecret sec i =
     i\<lparr>Infra_appSecrets := getOrCreate AppSecret_Rid sec (Infra_appSecrets i)\<rparr>"

subsection \<open>Secret scoping\<close>

text \<open>
  \<^verbatim>\<open>secretsUsedByServices\<close>: the result \<^verbatim>\<open>map[string]bool\<close> only ever holds \<^verbatim>\<open>true\<close>, so it is
  a set of names. The first loop builds \<^verbatim>\<open>svcNameSet\<close>, the second walks the packages.
\<close>

fun svcNameSet_loop :: "string list \<Rightarrow> string set \<Rightarrow> string set" where
  "svcNameSet_loop [] svcNameSet = svcNameSet"
| "svcNameSet_loop (name # names) svcNameSet = svcNameSet_loop names (insert name svcNameSet)"

fun secretNames_add :: "string list \<Rightarrow> string set \<Rightarrow> string set" where
  "secretNames_add [] secretNames = secretNames"
| "secretNames_add (secret # secrets) secretNames =
     secretNames_add secrets (insert secret secretNames)"

fun secretNames_loop :: "string set \<Rightarrow> meta_Package list \<Rightarrow> string set \<Rightarrow> string set" where
  "secretNames_loop svcNameSet [] secretNames = secretNames"
| "secretNames_loop svcNameSet (pkg # pkgs) secretNames =
     (if length (Secrets pkg) > 0 \<and> (ServiceName pkg = [] \<or> ServiceName pkg \<in> svcNameSet)
      then secretNames_loop svcNameSet pkgs (secretNames_add (Secrets pkg) secretNames)
      else secretNames_loop svcNameSet pkgs secretNames)"

definition secretsUsedByServices :: "meta_Data \<Rightarrow> string list \<Rightarrow> string set" where
  "secretsUsedByServices m svcNames =
     secretNames_loop (svcNameSet_loop svcNames {}) (Pkgs m) {}"

subsection \<open>Missing secrets\<close>

text \<open>
  \<^verbatim>\<open>MissingSecrets\<close>: the nested loops append every undefined name, \<^verbatim>\<open>sort.Strings\<close> sorts
  the list and \<^verbatim>\<open>slices.Compact\<close> drops each element equal to its predecessor.
\<close>

fun missing_names :: "(string \<rightharpoonup> string) \<Rightarrow> string list \<Rightarrow> string list \<Rightarrow> string list" where
  "missing_names defined [] missing = missing"
| "missing_names defined (name # names) missing =
     (if defined name = None then missing_names defined names (missing @ [name])
      else missing_names defined names missing)"

fun missing_pkgs :: "(string \<rightharpoonup> string) \<Rightarrow> meta_Package list \<Rightarrow> string list \<Rightarrow> string list" where
  "missing_pkgs defined [] missing = missing"
| "missing_pkgs defined (pkg # pkgs) missing =
     missing_pkgs defined pkgs (missing_names defined (Secrets pkg) missing)"

definition MissingSecrets :: "RuntimeConfigGenerator \<Rightarrow> string list" where
  "MissingSecrets g =
     remdups_adj (sort (missing_pkgs (map_of (DefinedSecrets g)) (Pkgs (md g)) []))"

text \<open>Defining a list of names: each is stored in the map with the value the caller gives it.\<close>

fun define_secrets :: "(string \<Rightarrow> string) \<Rightarrow> string list \<Rightarrow> (string \<times> string) list
    \<Rightarrow> (string \<times> string) list" where
  "define_secrets val [] ds = ds"
| "define_secrets val (name # names) ds =
     define_secrets val names (AList.update name (val name) ds)"

text \<open>
  The metadata of the scoping scenario: service \<^verbatim>\<open>A\<close> uses secret \<^verbatim>\<open>S1\<close>, service \<^verbatim>\<open>B\<close> uses
  none, and a package that belongs to no service uses \<^verbatim>\<open>S2\<close>.
\<close>

definition scenario_md :: meta_Data where
  "scenario_md =
     \<lparr>Svcs = [\<lparr>Service_Name = ''A''\<rparr>, \<lparr>Service_Name = ''B''\<rparr>], mGateways = [],
      PubsubTopics = [], SqlDatabases = [], CacheClusters = [], Buckets = [],
      Pkgs = [\<lparr>Secrets = [''S1''], ServiceName = ''A''\<rparr>,
              \<lparr>Secrets = [], ServiceName = ''B''\<rparr>,
              \<lparr>Secrets = [''S2''], ServiceName = []\<rparr>]\<rparr>"

subsection \<open>Graph initialization\<close>

text \<open>
  What the generator mutates: \<^verbatim>\<open>g.conf\<close>, \<^verbatim>\<open>g.authKeys\<close>, whether \<^verbatim>\<open>g.initOnce\<close> has run
  without error, and how many calls of \<^verbatim>\<open>xid.New\<close> and of \<^verbatim>\<open>net.Listen\<close> the process has made.
\<close>

record state =
  conf :: Builder
  authKeys :: "rt_EncoreAuthKey list"
  initOnce :: bool
  xids :: nat
  listens :: nat

definition newRid :: "sys \<Rightarrow> state \<Rightarrow> string \<times> state" where
  "newRid s st = (''res_'' @ xid_New s (xids st), st\<lparr>xids := Suc (xids st)\<rparr>)"

definition toSecret :: "bytes \<Rightarrow> SecretData" where
  "toSecret b = SecretData_Embedded b"

definition ptrOrNil :: "string \<Rightarrow> string option" where
  "ptrOrNil val = (if val = [] then None else Some val)"

definition with_conf :: "(Builder \<Rightarrow> Builder) \<Rightarrow> state \<Rightarrow> state" where
  "with_conf f st = st\<lparr>conf := f (conf st)\<rparr>"

definition with_infra :: "(Infra \<Rightarrow> Infra) \<Rightarrow> state \<Rightarrow> state" where
  "with_infra f st = with_conf (\<lambda>b. b\<lparr>Builder_Infra := f (Builder_Infra b)\<rparr>) st"

definition infra :: "state \<Rightarrow> Infra" where
  "infra st = Builder_Infra (conf st)"

definition Second :: int where
  "Second = 1000000000"

text \<open>Lines 98 to 127: the new builder, the deployment, the environment and the auth keys.\<close>

definition init_env :: "sys \<Rightarrow> RuntimeConfigGenerator \<Rightarrow> state \<Rightarrow> state" where
  "init_env s g st =
     (let st = st\<lparr>conf := NewBuilder\<rparr>;
          st = (case DeployID g of
                  Some deployID \<Rightarrow> with_conf (\<lambda>b. b\<lparr>Builder_DeployID := Some deployID\<rparr>) st
                | None \<Rightarrow> st);
          st = with_conf (\<lambda>b. b\<lparr>Builder_DeployedAt := Some (time_Now s)\<rparr>) st;
          st = with_conf (\<lambda>b. b\<lparr>Builder_Env := Some
                 \<lparr>Environment_AppId =
                    (case AppID g of Some a \<Rightarrow> a | None \<Rightarrow> PlatformOrLocalID (app g)),
                  Environment_AppSlug = PlatformID (app g),
                  Environment_EnvId = (case EnvID g of Some e \<Rightarrow> e | None \<Rightarrow> ''local''),
                  Environment_EnvName = (case EnvName g of Some e \<Rightarrow> e | None \<Rightarrow> ''local''),
                  Environment_EnvType =
                    (case EnvType g of Some t \<Rightarrow> t | None \<Rightarrow> Environment_TYPE_DEVELOPMENT),
                  Environment_Cloud =
                    (case EnvCloud g of Some c \<Rightarrow> c | None \<Rightarrow> Environment_CLOUD_LOCAL)\<rparr>\<rparr>) st;
          ak = AuthKey g;
          st = st\<lparr>authKeys :=
                 [\<lparr>rt_EncoreAuthKey_Id = KeyID ak, rt_EncoreAuthKey_Data = toSecret (Data ak)\<rparr>]\<rparr>
      in with_conf (\<lambda>b. b\<lparr>Builder_EncorePlatform :=
                             Some \<lparr>PlatformSigningKeys = authKeys st\<rparr>\<rparr>) st)"

text \<open>
  Lines 129 to 143: the tracing provider, when a trace endpoint is configured. The built-in
  \<^verbatim>\<open>min\<close> and \<^verbatim>\<open>max\<close> return not-a-number when an argument is not a number.
\<close>

definition init_tracing :: "sys \<Rightarrow> RuntimeConfigGenerator \<Rightarrow> state \<Rightarrow> state" where
  "init_tracing s g st =
     (case TraceEndpoint g of
        None \<Rightarrow> st
      | Some traceEndpoint \<Rightarrow>
          (let sampleRate =
                 (case ParseFloat_TRACE_SAMPLING_RATE s of
                    Some (Finite val) \<Rightarrow> Finite (min (max val 0) 1)
                  | Some PosInf \<Rightarrow> Finite 1
                  | Some NegInf \<Rightarrow> Finite 0
                  | Some NaN \<Rightarrow> NaN
                  | None \<Rightarrow> Finite 1)
           in case newRid s st of
                (rid, st) \<Rightarrow>
                  with_conf (\<lambda>b. b\<lparr>Builder_TracingProvider := Some
                    \<lparr>TracingProvider_Rid = rid, TraceEndpoint_of = traceEndpoint,
                     SamplingRate = sampleRate\<rparr>\<rparr>) st))"

text \<open>Lines 149 to 160: one hosted-service configuration for each service.\<close>

fun init_services_loop :: "appfile_File \<Rightarrow> meta_Service list \<Rightarrow> state \<Rightarrow> state" where
  "init_services_loop appFile [] st = st"
| "init_services_loop appFile (svc # svcs) st =
     init_services_loop appFile svcs
       (with_conf (Builder_ServiceConfig
          \<lparr>HostedService_Name = Service_Name svc,
           LogConfig = ptrOrNil (LogLevel appFile),
           WorkerThreads = (if WorkerPooling (Build appFile) then Some 0 else None)\<rparr>) st)"

text \<open>Lines 162 to 176: the default auth methods and the graceful shutdown.\<close>

definition init_defaults :: "state \<Rightarrow> state" where
  "init_defaults st =
     (let st = with_conf (\<lambda>b. b\<lparr>Builder_AuthMethods :=
                 [ServiceAuth_EncoreAuth (authKeys st)]\<rparr>) st
      in with_conf (\<lambda>b. b\<lparr>Builder_DefaultGracefulShutdown := Some
            \<lparr>Total = 10 * Second, ShutdownHooks = 4 * Second, Handlers = 2 * Second\<rparr>\<rparr>) st)"

text \<open>Lines 178 to 206: one gateway for each declared gateway.\<close>

definition GatewayConfig_of :: "RuntimeConfigGenerator \<Rightarrow> string \<Rightarrow> GatewayConfig" where
  "GatewayConfig_of g name =
     (case Gateways g name of Some c \<Rightarrow> c | None \<Rightarrow> \<lparr>BaseURL = [], Hostnames = []\<rparr>)"

definition gateway_cors :: "CORS \<Rightarrow> Gateway_CORS" where
  "gateway_cors cors =
     \<lparr>Debug = CORS_Debug cors,
      DisableCredentials = False,
      ExtraAllowedHeaders = CORS_AllowHeaders cors,
      ExtraExposedHeaders = CORS_ExposeHeaders cors,
      AllowedOriginsWithCredentials = Gateway_CORS_UnsafeAllowAllOriginsWithCredentials True,
      AllowedOriginsWithoutCredentials = Some [''*''],
      AllowPrivateNetworkAccess = True\<rparr>"

fun init_gateways_loop ::
    "sys \<Rightarrow> RuntimeConfigGenerator \<Rightarrow> meta_Gateway list \<Rightarrow> state \<Rightarrow> error + state" where
  "init_gateways_loop s g [] st = Inr st"
| "init_gateways_loop s g (gw # gws) st =
     (case GlobalCORS (app g) of
        Inl err \<Rightarrow> Inl (Wrap err ''failed to generate global CORS config'')
      | Inr cors \<Rightarrow>
          (case newRid s st of
             (rid, st) \<Rightarrow>
               init_gateways_loop s g gws
                 (with_infra (Infra_Gateway
                    \<lparr>Gateway_Rid = rid,
                     Gateway_EncoreName = mGateway_EncoreName gw,
                     Gateway_BaseUrl = BaseURL (GatewayConfig_of g (mGateway_EncoreName gw)),
                     Gateway_Hostnames = Hostnames (GatewayConfig_of g (mGateway_EncoreName gw)),
                     Gateway_Cors = gateway_cors cors\<rparr>) st)))"

text \<open>Lines 208 to 255: the pub/sub cluster with its topics and their subscriptions.\<close>

fun deliveryGuarantee_switch :: "meta_DeliveryGuarantee \<Rightarrow> error + DeliveryGuarantee" where
  "deliveryGuarantee_switch PubSubTopic_AT_LEAST_ONCE = Inr DELIVERY_GUARANTEE_AT_LEAST_ONCE"
| "deliveryGuarantee_switch PubSubTopic_EXACTLY_ONCE = Inr DELIVERY_GUARANTEE_EXACTLY_ONCE"
| "deliveryGuarantee_switch other = Inl (Newf ''unknown delivery guarantee %q'' other)"

fun init_subscriptions_loop ::
    "sys \<Rightarrow> string \<Rightarrow> meta_PubSubTopic \<Rightarrow> meta_Subscription list \<Rightarrow> state \<Rightarrow> state" where
  "init_subscriptions_loop s crid topic [] st = st"
| "init_subscriptions_loop s crid topic (sub # subs) st =
     (case newRid s st of
        (rid, st) \<Rightarrow>
          init_subscriptions_loop s crid topic subs
            (with_infra (PubSubCluster_PubSubSubscription crid
               \<lparr>PubSubSubscription_Rid = rid,
                TopicEncoreName = Topic_Name topic,
                SubscriptionEncoreName = Subscription_Name sub,
                TopicCloudName = Topic_Name topic,
                SubscriptionCloudName = Subscription_Name sub,
                PushOnly = False\<rparr>) st))"

fun init_topics_loop :: "sys \<Rightarrow> string \<Rightarrow> meta_PubSubTopic list \<Rightarrow> state \<Rightarrow> error + state" where
  "init_topics_loop s crid [] st = Inr st"
| "init_topics_loop s crid (topic # topics) st =
     (case newRid s st of
        (topicRid, st) \<Rightarrow>
          (case deliveryGuarantee_switch (Topic_DeliveryGuarantee topic) of
             Inl err \<Rightarrow> Inl err
           | Inr deliveryGuarantee \<Rightarrow>
               init_topics_loop s crid topics
                 (init_subscriptions_loop s crid topic (Topic_Subscriptions topic)
                    (with_infra (PubSubCluster_PubSubTopic crid
                       \<lparr>PubSubTopic_Rid = topicRid,
                        PubSubTopic_EncoreName = Topic_Name topic,
                        PubSubTopic_CloudName = Topic_Name topic,
                        PubSubTopic_DeliveryGuarantee = deliveryGuarantee,
                        PubSubTopic_OrderingAttr = ptrOrNil (Topic_OrderingKey topic)\<rparr>) st))))"

definition init_pubsub :: "sys \<Rightarrow> RuntimeConfigGenerator \<Rightarrow> state \<Rightarrow> error + state" where
  "init_pubsub s g st =
     (if length (PubsubTopics (md g)) > 0 then
        (case PubSubProviderConfig (infraManager g) of
           Inl err \<Rightarrow> Inl (Wrap err ''failed to generate pubsub provider config'')
         | Inr pubsubConfig \<Rightarrow>
             (case newRid s st of
                (crid, st) \<Rightarrow>
                  init_topics_loop s crid (PubsubTopics (md g))
                    (with_infra (Infra_PubSubCluster
                       \<lparr>PubSubCluster_Rid = crid, Nsq_Hosts = [NSQ_Host pubsubConfig],
                        PubSubCluster_Topics = [], PubSubCluster_Subscriptions = []\<rparr>) st)))
      else Inr st)"

text \<open>Lines 257 to 352: the SQL cluster, and for each database its role and its pool.\<close>

definition role_rid :: "string \<Rightarrow> string \<Rightarrow> string" where
  "role_rid clusterRid user = ''role:'' @ clusterRid @ '':'' @ user"

definition init_external_database ::
    "sys \<Rightarrow> meta_SQLDatabase \<Rightarrow> string \<Rightarrow> state \<Rightarrow> error + state" where
  "init_external_database s db externalDB st =
     (case json_Unmarshal s externalDB of
        Inl err \<Rightarrow>
          Inl (Wrapf err ''failed to unmarshal external DB config for %q'' (mSQLDatabase_Name db))
      | Inr connectionString \<Rightarrow>
          (case pgx_ParseConfig s connectionString of
             Inl err \<Rightarrow>
               Inl (Wrapf err ''failed to parse external DB connection string for %q''
                      (mSQLDatabase_Name db))
           | Inr pCfg \<Rightarrow>
               (case newRid s st of
                  (crid, st) \<Rightarrow>
                    (let st = with_infra (Infra_SQLCluster
                                \<lparr>SQLCluster_Rid = crid, SQLCluster_Servers = [],
                                 SQLCluster_Databases = []\<rparr>) st
                     in case newRid s st of
                          (srid, st) \<Rightarrow>
                            (let st = with_infra (SQLCluster_SQLServer crid
                                        \<lparr>SQLServer_Rid = srid,
                                         SQLServer_Kind = SERVER_KIND_PRIMARY,
                                         SQLServer_Host = pgx_Host pCfg,
                                         SQLServer_TlsConfig = Some
                                           \<lparr>ServerCaCert = None,
                                            DisableCaValidation = True\<rparr>\<rparr>) st;
                                 roleRid = role_rid crid (pgx_User pCfg);
                                 st = with_infra (Infra_SQLRole
                                        \<lparr>SQLRole_Rid = roleRid,
                                         SQLRole_Username = pgx_User pCfg,
                                         SQLRole_Password = toSecret (pgx_Password pCfg),
                                         SQLRole_ClientCertRid = None\<rparr>) st
                             in case newRid s st of
                                  (drid, st) \<Rightarrow>
                                    Inr (with_infra (SQLDatabase_AddConnectionPool crid drid
                                           \<lparr>IsReadonly = False, RoleRid = roleRid,
                                            MinConnections = 0, MaxConnections = 0\<rparr>)
                                         (with_infra (SQLCluster_SQLDatabase crid
                                            \<lparr>SQLDatabase_Rid = drid,
                                             SQLDatabase_EncoreName = mSQLDatabase_Name db,
                                             SQLDatabase_CloudName = pgx_Database pCfg,
                                             SQLDatabase_ConnPools = []\<rparr>) st)))))))"

definition init_managed_database ::
    "sys \<Rightarrow> RuntimeConfigGenerator \<Rightarrow> string \<Rightarrow> meta_SQLDatabase \<Rightarrow> state \<Rightarrow> error + state" where
  "init_managed_database s g crid db st =
     (case SQLDatabaseConfig (infraManager g) db of
        Inl err \<Rightarrow> Inl (Wrap err ''failed to generate SQL database config'')
      | Inr dbConfig \<Rightarrow>
          (let roleRid = role_rid crid (cSQLDatabase_User dbConfig);
               st = with_infra (Infra_SQLRole
                      \<lparr>SQLRole_Rid = roleRid,
                       SQLRole_Username = cSQLDatabase_User dbConfig,
                       SQLRole_Password = toSecret (cSQLDatabase_Password dbConfig),
                       SQLRole_ClientCertRid = None\<rparr>) st
           in case newRid s st of
                (drid, st) \<Rightarrow>
                  Inr (with_infra (SQLDatabase_AddConnectionPool crid drid
                         \<lparr>IsReadonly = False, RoleRid = roleRid,
                          MinConnections = ucast (cSQLDatabase_MinConnections dbConfig),
                          MaxConnections = ucast (cSQLDatabase_MaxConnections dbConfig)\<rparr>)
                       (with_infra (SQLCluster_SQLDatabase crid
                          \<lparr>SQLDatabase_Rid = drid,
                           SQLDatabase_EncoreName = cSQLDatabase_EncoreName dbConfig,
                           SQLDatabase_CloudName = cSQLDatabase_DatabaseName dbConfig,
                           SQLDatabase_ConnPools = []\<rparr>) st))))"

definition init_database ::
    "sys \<Rightarrow> RuntimeConfigGenerator \<Rightarrow> string \<Rightarrow> meta_SQLDatabase \<Rightarrow> state \<Rightarrow> error + state" where
  "init_database s g crid db st =
     (case map_of (DefinedSecrets g) (''sqldb::'' @ mSQLDatabase_Name db) of
        Some externalDB \<Rightarrow> init_external_database s db externalDB st
      | None \<Rightarrow> init_managed_database s g crid db st)"

fun init_databases_loop ::
    "sys \<Rightarrow> RuntimeConfigGenerator \<Rightarrow> string \<Rightarrow> meta_SQLDatabase list \<Rightarrow> state
      \<Rightarrow> error + state" where
  "init_databases_loop s g crid [] st = Inr st"
| "init_databases_loop s g crid (db # dbs) st =
     (case init_database s g crid db st of
        Inl err \<Rightarrow> Inl err
      | Inr st \<Rightarrow> init_databases_loop s g crid dbs st)"

definition init_sql :: "sys \<Rightarrow> RuntimeConfigGenerator \<Rightarrow> state \<Rightarrow> error + state" where
  "init_sql s g st =
     (if length (SqlDatabases (md g)) > 0 then
        (case SQLServerConfig (infraManager g) of
           Inl err \<Rightarrow> Inl (Wrap err ''failed to generate SQL server config'')
         | Inr srvConfig \<Rightarrow>
             (case newRid s st of
                (crid, st) \<Rightarrow>
                  (let st = with_infra (Infra_SQLCluster
                              \<lparr>SQLCluster_Rid = crid, SQLCluster_Servers = [],
                               SQLCluster_Databases = []\<rparr>) st;
                       tlsConfig =
                         (if cSQLServer_ServerCACert srvConfig \<noteq> []
                          then Some \<lparr>ServerCaCert = Some (cSQLServer_ServerCACert srvConfig),
                                     DisableCaValidation = False\<rparr>
                          else None)
                   in case newRid s st of
                        (srid, st) \<Rightarrow>
                          init_databases_loop s g crid (SqlDatabases (md g))
                            (with_infra (SQLCluster_SQLServer crid
                               \<lparr>SQLServer_Rid = srid,
                                SQLServer_Kind = SERVER_KIND_PRIMARY,
                                SQLServer_Host = cSQLServer_Host srvConfig,
                                SQLServer_TlsConfig = tlsConfig\<rparr>) st))))
      else Inr st)"

text \<open>Lines 354 to 413: one cache cluster, role, server and database for each declared cluster.\<close>

definition redis_role :: "string \<Rightarrow> config_RedisServer \<Rightarrow> RedisRole" where
  "redis_role roleRid srvConfig =
     \<lparr>RedisRole_Rid = roleRid,
      RedisRole_ClientCertRid = None,
      RedisRole_Auth =
        (if cRedisServer_User srvConfig \<noteq> [] \<and> cRedisServer_Password srvConfig \<noteq> []
         then Some (RedisRole_Acl (cRedisServer_User srvConfig)
                      (toSecret (cRedisServer_Password srvConfig)))
         else if cRedisServer_Password srvConfig \<noteq> []
         then Some (RedisRole_AuthString (toSecret (cRedisServer_Password srvConfig)))
         else None)\<rparr>"

definition init_cache_cluster ::
    "sys \<Rightarrow> RuntimeConfigGenerator \<Rightarrow> meta_CacheCluster \<Rightarrow> state \<Rightarrow> error + state" where
  "init_cache_cluster s g cl st =
     (case RedisConfig (infraManager g) cl of
        Inl err \<Rightarrow> Inl (Wrap err ''failed to generate Redis cluster config'')
      | Inr (srvConfig, dbConfig) \<Rightarrow>
          (case newRid s st of
             (crid, st) \<Rightarrow>
               (let st = with_infra (Infra_RedisCluster
                           \<lparr>RedisCluster_Rid = crid, RedisCluster_Servers = [],
                            RedisCluster_Databases = []\<rparr>) st;
                    roleRid = role_rid crid (cRedisServer_User srvConfig);
                    st = with_infra (Infra_RedisRoleFn roleRid (redis_role roleRid srvConfig)) st;
                    tlsConfig =
                      (if cRedisServer_EnableTLS srvConfig
                          \<or> cRedisServer_ServerCACert srvConfig \<noteq> []
                       then Some \<lparr>ServerCaCert = ptrOrNil (cRedisServer_ServerCACert srvConfig),
                                  DisableCaValidation = False\<rparr>
                       else None)
                in case newRid s st of
                     (srid, st) \<Rightarrow>
                       (let st = with_infra (RedisCluster_RedisServer crid
                                   \<lparr>RedisServer_Rid = srid,
                                    RedisServer_Host = cRedisServer_Host srvConfig,
                                    RedisServer_Kind = SERVER_KIND_PRIMARY,
                                    RedisServer_TlsConfig = tlsConfig\<rparr>) st
                        in case newRid s st of
                             (drid, st) \<Rightarrow>
                               Inr (with_infra (RedisDatabase_AddConnectionPool crid drid
                                      \<lparr>Redis_IsReadonly = False, Redis_RoleRid = roleRid,
                                       Redis_MinConnections =
                                         ucast (cRedisDatabase_MinConnections dbConfig),
                                       Redis_MaxConnections =
                                         ucast (cRedisDatabase_MaxConnections dbConfig)\<rparr>)
                                    (with_infra (RedisCluster_RedisDatabase crid
                                       \<lparr>RedisDatabase_Rid = drid,
                                        RedisDatabase_EncoreName =
                                          cRedisDatabase_EncoreName dbConfig,
                                        DatabaseIdx = ucast (cRedisDatabase_Database dbConfig),
                                        KeyPrefix = ptrOrNil (cRedisDatabase_KeyPrefix dbConfig),
                                        RedisDatabase_ConnPools = []\<rparr>) st))))))"

fun init_redis_loop ::
    "sys \<Rightarrow> RuntimeConfigGenerator \<Rightarrow> meta_CacheCluster list \<Rightarrow> state \<Rightarrow> error + state" where
  "init_redis_loop s g [] st = Inr st"
| "init_redis_loop s g (cl # cls) st =
     (case init_cache_cluster s g cl st of
        Inl err \<Rightarrow> Inl err
      | Inr st \<Rightarrow> init_redis_loop s g cls st)"

definition init_redis :: "sys \<Rightarrow> RuntimeConfigGenerator \<Rightarrow> state \<Rightarrow> error + state" where
  "init_redis s g st =
     (if length (CacheClusters (md g)) > 0 then init_redis_loop s g (CacheClusters (md g)) st
      else Inr st)"

text \<open>
  The constant \<^verbatim>\<open>dummyPrivateKeyReversed\<close> and \<^verbatim>\<open>reverseString\<close>. The function reverses the
  runes of its argument; it is given here on strings of ASCII characters only, as the
  constant is, the one string that the code applies it to: there every rune is one byte.
\<close>

definition dummyPrivateKeyReversed :: string where
  "dummyPrivateKeyReversed =
     ''-----YEK ETAVIRP DNE-----\<newline>''
     @ ''=AOz3eEM5xAe/71Tfx3sQNkW\<newline>''
     @ ''4FXBCChkppSrCoQnR6pBeP31wu0S0UTTNDhNmSYcerdSFbRhyZOzNRnhF9o1h5D5\<newline>''
     @ ''+gKkhRZkC33z5+0p8aWwOVWJY8MDycHwvEYvtwcXLNZBHI8L8++mhp0uFz5c5sNM\<newline>''
     @ ''pPRyurcUY36iDzx7hAJcAGoAvXJwVzTmzXBZtvFPs6Alc5gHti2W1l2bz2mwOV77\<newline>''
     @ ''BA9xAW4R6EHVTnqaoXvxvocW5Z9I0ecJzx0NPfkXBriW1lNclAnkoRAYqziasa6C\<newline>''
     @ ''WIxePQ2VRFbnLu7XR1M/xqg00GHFV0fTlNPo95lC6tl0PAdoupOX1lwjH3rQnTkB\<newline>''
     @ ''Y4BgBKQQJ8F0PPTSMAvyK1bcHP2Iob8UFxyHuPOm11aHYwM4VZvmHm8jX/8vz4eb\<newline>''
     @ ''6kbNbEkWzfJbbEen/EJLR1XtzvTdjs9bQnJvhQMZmPGzQalqHcVuilQX+PFV4ezM\<newline>''
     @ ''A23w1HCIq6vZqXLO8rXhe8S5hImwVSAKq6TK5dlYPOTIBp66lCQgBKwjkcQcX7tq\<newline>''
     @ ''mr44FuVB7hqBMfnCB0kKcs1SuYgmfUQE41JGInsqjdpaFOwzQi4Jcx7TK44p9vn2\<newline>''
     @ ''ik6i/hN7JSVA8kMImWIxtL18uVC/Rg0RpM2vcjd+pfgUDifZ1FVYCiL3WlEzDBlZ\<newline>''
     @ ''bSmYdd57T70mEEiuV8QmGiIRrk6kZAMP4CQgBKQ4mIYJX2RJQ1j0V+iXwY/bg+N5\<newline>''
     @ ''DPEWLB0w6ReZapNy4DSEMD1zm6IWUuo3rGfCsSKUD0xFR/YkauO5Q+GI2gKvmj5V\<newline>''
     @ ''MRiysBL/8PCBwKiFKo1MFjCUfbV/ks49/OJYSOi9WIJiXEg5Tm56BDTH6I8rNdU1\<newline>''
     @ ''lGIimbKIuzEBWUHsyDQgBKQQ8O/PDCI/SJSPYjkxw1fpX022hUvVW9pvtmd6v0vX\<newline>''
     @ ''M5kMBkT60IwTWhF0DoAx4Uyn4rlPiJy5TUwjC0po/aCRV+ug5C+wIRTCtVCpqRyz\<newline>''
     @ ''GeB4U/3WXHmSulzK5Dw4ADfbWSP0dAbNNOaFI4y6u+acEl5MFt3GN/jieITLsZNK\<newline>''
     @ ''X18B7zHj7LR2f5k3xiJJ/7uNFl8SCcnVquvEI1qslUSTLEPCNoiy5iX/VVTmVNwv\<newline>''
     @ ''dUi92s5oFMyJOFW5joggeeQ55BN6EsjQTnj/XetnpPe5wf5vvptHg5HOcUjJPmIJ\<newline>''
     @ ''vsGpMXoyCh3mzdQPMUJM9Ha8DKlACadqTjdid9ZsAAYLAEggCEAABMgAvulUiO2B\<newline>''
     @ ''FkdtezbN/f5vpPbr4knO22xylfkUp5Uw0W/HxtntXXobF42guEEiie49zki5fPHK\<newline>''
     @ ''vAMC7bOERRLV4v35Dd9QV/KFe0FxqEfm8bFDM6FoA4c0qnkDaKbMhdvxxs0wVFRm\<newline>''
     @ ''BukfBCLOt+W/XyFhZvUKkxgbcOjXV7HRFQGI+GZnrf00qbCRNOCdlYLoYX1kf3pQ\<newline>''
     @ ''eNY6o9ZCJxIDO+dUATCoP3tmP4hvonrjGfpek99D4Ye3+iDwg0AxDW+bt9qoRFew\<newline>''
     @ ''VdOuGmooPaDDxn95q5IghRhrvrEaHpkN/EZiNEAJWQkZa9wkxGye5T9hMZRBjUkt\<newline>''
     @ ''wGPTyf02fuGquCQABIoAAEgAjSggwcKBCSAAFEQAB0w9GikhqkgBNADABIQvEIIM\<newline>''
     @ ''-----YEK ETAVIRP NIGEB-----''"

definition reverseString :: "string \<Rightarrow> string" where
  "reverseString str = rev str"

text \<open>Lines 415 to 451: the bucket cluster and its buckets.\<close>

fun init_buckets_loop :: "sys \<Rightarrow> string \<Rightarrow> string \<Rightarrow> meta_Bucket list \<Rightarrow> state \<Rightarrow> state" where
  "init_buckets_loop s crid publicBaseURL [] st = st"
| "init_buckets_loop s crid publicBaseURL (bkt # bkts) st =
     (case newRid s st of
        (bktRid, st) \<Rightarrow>
          init_buckets_loop s crid publicBaseURL bkts
            (with_infra (BucketCluster_Bucket crid
               \<lparr>Bucket_Rid = bktRid,
                Bucket_EncoreName = mBucket_Name bkt,
                Bucket_CloudName = mBucket_Name bkt,
                PublicBaseUrl =
                  (if mBucket_Public bkt then Some (publicBaseURL @ ''/'' @ mBucket_Name bkt)
                   else None)\<rparr>) st))"

definition init_buckets :: "sys \<Rightarrow> RuntimeConfigGenerator \<Rightarrow> state \<Rightarrow> error + state" where
  "init_buckets s g st =
     (if length (Buckets (md g)) > 0 then
        (case BucketProviderConfig (infraManager g) of
           Inl err \<Rightarrow> Inl (Wrap err ''failed to generate bucket provider config'')
         | Inr (bktProviderConfig, publicBaseURL) \<Rightarrow>
             (case newRid s st of
                (crid, st) \<Rightarrow>
                  Inr (init_buckets_loop s crid publicBaseURL (Buckets (md g))
                         (with_infra (Infra_BucketCluster
                            \<lparr>BucketCluster_Rid = crid,
                             Gcs_Endpoint = Some (GCS_Endpoint bktProviderConfig),
                             Gcs_Anonymous = True,
                             Gcs_LocalSign =
                               \<lparr>LocalSign_BaseUrl = publicBaseURL,
                                LocalSign_AccessId = ''dummy-sa@encore.local'',
                                LocalSign_PrivateKey =
                                  reverseString dummyPrivateKeyReversed\<rparr>,
                             BucketCluster_Buckets = []\<rparr>) st))))
      else Inr st)"

text \<open>Lines 453 to 459: one app secret for each defined secret.\<close>

fun init_secrets_loop :: "sys \<Rightarrow> (string \<times> string) list \<Rightarrow> state \<Rightarrow> state" where
  "init_secrets_loop s [] st = st"
| "init_secrets_loop s ((secretName, secretVal) # secrets) st =
     (case newRid s st of
        (rid, st) \<Rightarrow>
          init_secrets_loop s secrets
            (with_infra (Infra_AppSecret
               \<lparr>AppSecret_Rid = rid, AppSecret_EncoreName = secretName,
                AppSecret_Data = toSecret secretVal\<rparr>) st))"

text \<open>
  The function that \<^verbatim>\<open>initialize\<close> hands to \<^verbatim>\<open>initOnce.Do\<close>: the stages in the order of the
  code, each error returned at once.
\<close>

definition initialize_body :: "sys \<Rightarrow> RuntimeConfigGenerator \<Rightarrow> state \<Rightarrow> error + state" where
  "initialize_body s g st =
     (let st = init_tracing s g (init_env s g st)
      in case AppFile (app g) of
           Inl err \<Rightarrow> Inl (Wrap err ''failed to get app's build settings'')
         | Inr appFile \<Rightarrow>
             and_then
               (init_gateways_loop s g (mGateways (md g))
                  (init_defaults (init_services_loop appFile (Svcs (md g)) st)))
               (\<lambda>st. and_then (init_pubsub s g st)
               (\<lambda>st. and_then (init_sql s g st)
               (\<lambda>st. and_then (init_redis s g st)
               (\<lambda>st. and_then (init_buckets s g st)
               (\<lambda>st. Inr (init_secrets_loop s (DefinedSecrets g) st)))))))"

text \<open>
  \<^verbatim>\<open>initialize\<close>: \<^verbatim>\<open>syncutil.Once\<close> runs the function unless an earlier run returned no error,
  and remembers a run that returned none.
\<close>

definition initialize :: "sys \<Rightarrow> RuntimeConfigGenerator \<Rightarrow> state \<Rightarrow> error + state" where
  "initialize s g st =
     (if initOnce st then Inr st
      else case initialize_body s g st of
             Inl err \<Rightarrow> Inl err
           | Inr st \<Rightarrow> Inr (st\<lparr>initOnce := True\<rparr>))"

subsection \<open>Process configurations\<close>

record AddrPort =
  AddrPort_ip :: string
  AddrPort_port :: "16 word"

record 'rc ProcConfig =
  Runtime :: "'rc option"
  ListenAddr :: AddrPort
  ExtraEnv :: "string list"

record ServiceDiscovery_Location =
  BaseUrl :: string
  AuthMethods :: "ServiceAuth list"

text \<open>
  Modelled from the spec: the deployment builder of package \<^verbatim>\<open>rtconfgen\<close> is not among the
  sources. A deployment is the request that the chain of calls
  \<^verbatim>\<open>Deployment(rid).ServiceDiscovery(sd).HostsServices(..).HostsGateways(..).ReduceWithMeta(md)\<close>
  describes: its Rid, the full graph, the discovery map, the hosted services and gateways,
  and the metadata to reduce with, if any.
\<close>

record Deployment =
  Deployment_Rid :: string
  Deployment_conf :: Builder
  Deployment_sd :: "string \<rightharpoonup> ServiceDiscovery_Location"
  HostsServices :: "string list"
  HostsGateways :: "string list"
  ReduceWithMeta :: "meta_Data option"

text \<open>
  What the process functions call outside this file: \<^verbatim>\<open>net.Listen\<close> on \<^verbatim>\<open>127.0.0.1:0\<close> (the
  address of its \<open>k\<close>-th call) and \<^verbatim>\<open>AddrPort.String\<close>, \<^verbatim>\<open>proxy.RegisterService\<close>, the
  reduction \<^verbatim>\<open>BuildRuntimeConfig\<close> of a deployment to a value of \<^verbatim>\<open>runtimev1.RuntimeConfig\<close>
  (the type \<open>'rc\<close>), \<^verbatim>\<open>encodeSecretsEnv\<close> of this package, \<^verbatim>\<open>strings.ToUpper\<close>, the two base64
  encodings, the gzip writer, \<^verbatim>\<open>proto.Marshal\<close> of a runtime configuration and of the
  metadata, \<^verbatim>\<open>rtconfgen.ToLegacy\<close> with its map of secret environment variables (\<open>None\<close> is
  \<^verbatim>\<open>nil\<close>) to the legacy configuration (the type \<open>'lg\<close>), \<^verbatim>\<open>json.Marshal\<close> of that, and
  \<^verbatim>\<open>env.EncoreRuntimeLib\<close>.
\<close>

record ('rc, 'lg) deps =
  net_Listen :: "nat \<Rightarrow> error + AddrPort"
  AddrPort_String :: "AddrPort \<Rightarrow> string"
  RegisterService :: "string \<Rightarrow> AddrPort \<Rightarrow> string"
  BuildRuntimeConfig :: "Deployment \<Rightarrow> error + 'rc"
  encodeSecretsEnv :: "(string \<rightharpoonup> string) \<Rightarrow> string"
  strings_ToUpper :: "string \<Rightarrow> string"
  base64_RawURLEncoding :: "bytes \<Rightarrow> string"
  base64_StdEncoding :: "bytes \<Rightarrow> string"
  gzip_Write :: "bytes \<Rightarrow> bytes"
  proto_Marshal :: "'rc \<Rightarrow> error + bytes"
  proto_Marshal_meta :: "meta_Data \<Rightarrow> error + bytes"
  ToLegacy :: "'rc \<Rightarrow> (string \<rightharpoonup> bytes) option \<Rightarrow> error + 'lg"
  json_Marshal :: "'lg \<Rightarrow> error + bytes"
  EncoreRuntimeLib :: string

definition runtimeCfgEnvVar :: string where
  "runtimeCfgEnvVar = ''ENCORE_RUNTIME_CONFIG''"

definition appSecretsEnvVar :: string where
  "appSecretsEnvVar = ''ENCORE_APP_SECRETS''"

definition serviceCfgEnvPrefix :: string where
  "serviceCfgEnvPrefix = ''ENCORE_CFG_''"

definition listenEnvVar :: string where
  "listenEnvVar = ''ENCORE_LISTEN_ADDR''"

definition metaEnvVar :: string where
  "metaEnvVar = ''ENCORE_APP_META''"

definition freeLocalhostAddress :: "('rc, 'lg) deps \<Rightarrow> state \<Rightarrow> (error + AddrPort) \<times> state" where
  "freeLocalhostAddress d st = (net_Listen d (listens st), st\<lparr>listens := Suc (listens st)\<rparr>)"

definition gzipBytes :: "('rc, 'lg) deps \<Rightarrow> bytes \<Rightarrow> bytes" where
  "gzipBytes d data = gzip_Write d data"

text \<open>
  \<^verbatim>\<open>encodeSecrets\<close>: the map \<^verbatim>\<open>vals\<close> has the given names as its keys; a name without a defined
  value gets the empty string, the zero value of the lookup.
\<close>

definition encodeSecrets ::
    "('rc, 'lg) deps \<Rightarrow> RuntimeConfigGenerator \<Rightarrow> string set \<Rightarrow> string" where
  "encodeSecrets d g secretNames =
     encodeSecretsEnv d
       (\<lambda>name. if name \<in> secretNames
                then Some (case map_of (DefinedSecrets g) name of Some v \<Rightarrow> v | None \<Rightarrow> [])
                else None)"

fun encodeConfigs_loop ::
    "('rc, 'lg) deps \<Rightarrow> RuntimeConfigGenerator \<Rightarrow> string list \<Rightarrow> string list \<Rightarrow> string list" where
  "encodeConfigs_loop d g [] envs = envs"
| "encodeConfigs_loop d g (svcName # svcNames) envs =
     (case SvcConfigs g svcName of
        None \<Rightarrow> encodeConfigs_loop d g svcNames envs
      | Some cfgStr \<Rightarrow>
          encodeConfigs_loop d g svcNames
            (envs @ [serviceCfgEnvPrefix @ strings_ToUpper d svcName @ ''=''
                       @ base64_RawURLEncoding d cfgStr]))"

definition encodeConfigs ::
    "('rc, 'lg) deps \<Rightarrow> RuntimeConfigGenerator \<Rightarrow> string list \<Rightarrow> string list" where
  "encodeConfigs d g svcNames = encodeConfigs_loop d g svcNames []"

definition encore_auth :: "state \<Rightarrow> ServiceAuth list" where
  "encore_auth st = [ServiceAuth_EncoreAuth (authKeys st)]"

text \<open>\<^verbatim>\<open>ProcPerService\<close>, lines 486 to 504: a listen address and a location for each service.\<close>

fun listen_loop ::
    "('rc, 'lg) deps \<Rightarrow> meta_Service list \<Rightarrow> (string \<rightharpoonup> AddrPort)
      \<Rightarrow> (string \<rightharpoonup> ServiceDiscovery_Location) \<Rightarrow> state
      \<Rightarrow> error + (string \<rightharpoonup> AddrPort) \<times> (string \<rightharpoonup> ServiceDiscovery_Location) \<times> state" where
  "listen_loop d [] svcListenAddr sd st = Inr (svcListenAddr, sd, st)"
| "listen_loop d (svc # svcs) svcListenAddr sd st =
     (case freeLocalhostAddress d st of
        (Inl err, st) \<Rightarrow> Inl (Wrap err ''failed to find free localhost address'')
      | (Inr listenAddr, st) \<Rightarrow>
          listen_loop d svcs
            (svcListenAddr(Service_Name svc \<mapsto> listenAddr))
            (sd(Service_Name svc \<mapsto>
                 \<lparr>BaseUrl = RegisterService d (Service_Name svc) listenAddr,
                  AuthMethods = encore_auth st\<rparr>))
            st)"

definition AddrPort_zero :: AddrPort where
  "AddrPort_zero = \<lparr>AddrPort_ip = [], AddrPort_port = 0\<rparr>"

text \<open>Lines 507 to 528: the process of each service.\<close>

fun services_loop ::
    "sys \<Rightarrow> ('rc, 'lg) deps \<Rightarrow> RuntimeConfigGenerator \<Rightarrow> (string \<rightharpoonup> AddrPort)
      \<Rightarrow> (string \<rightharpoonup> ServiceDiscovery_Location) \<Rightarrow> meta_Service list
      \<Rightarrow> (string \<rightharpoonup> 'rc ProcConfig) \<Rightarrow> state
      \<Rightarrow> error + (string \<rightharpoonup> 'rc ProcConfig) \<times> state" where
  "services_loop s d g svcListenAddr sd [] services st = Inr (services, st)"
| "services_loop s d g svcListenAddr sd (svc # svcs) services st =
     (case newRid s st of
        (rid, st) \<Rightarrow>
          (case BuildRuntimeConfig d
                  \<lparr>Deployment_Rid = rid, Deployment_conf = conf st, Deployment_sd = sd,
                   HostsServices = [Service_Name svc], HostsGateways = [],
                   ReduceWithMeta = Some (md g)\<rparr> of
             Inl err \<Rightarrow> Inl (Wrap err ''failed to generate runtime config'')
           | Inr rc \<Rightarrow>
               (let usedSecrets = secretsUsedByServices (md g) [Service_Name svc];
                    listenAddr = (case svcListenAddr (Service_Name svc) of
                                    Some a \<Rightarrow> a | None \<Rightarrow> AddrPort_zero);
                    configEnvs = encodeConfigs d g [Service_Name svc]
                in services_loop s d g svcListenAddr sd svcs
                     (services(Service_Name svc \<mapsto>
                        \<lparr>Runtime = Some rc, ListenAddr = listenAddr,
                         ExtraEnv = [appSecretsEnvVar @ ''='' @ encodeSecrets d g usedSecrets]
                                    @ configEnvs\<rparr>))
                     st)))"

text \<open>Lines 531 to 545: the process of each gateway.\<close>

fun gateways_loop ::
    "sys \<Rightarrow> ('rc, 'lg) deps \<Rightarrow> RuntimeConfigGenerator
      \<Rightarrow> (string \<rightharpoonup> ServiceDiscovery_Location) \<Rightarrow> meta_Gateway list
      \<Rightarrow> (string \<rightharpoonup> 'rc ProcConfig) \<Rightarrow> state
      \<Rightarrow> error + (string \<rightharpoonup> 'rc ProcConfig) \<times> state" where
  "gateways_loop s d g sd [] gateways st = Inr (gateways, st)"
| "gateways_loop s d g sd (gw # gws) gateways st =
     (case newRid s st of
        (rid, st) \<Rightarrow>
          (case BuildRuntimeConfig d
                  \<lparr>Deployment_Rid = rid, Deployment_conf = conf st, Deployment_sd = sd,
                   HostsServices = [], HostsGateways = [mGateway_EncoreName gw],
                   ReduceWithMeta = Some (md g)\<rparr> of
             Inl err \<Rightarrow> Inl (Wrap err ''failed to generate runtime config'')
           | Inr rc \<Rightarrow>
               (case freeLocalhostAddress d st of
                  (Inl err, st) \<Rightarrow> Inl (Wrap err ''failed to find free localhost address'')
                | (Inr listenAddr, st) \<Rightarrow>
                    gateways_loop s d g sd gws
                      (gateways(mGateway_EncoreName gw \<mapsto>
                         \<lparr>Runtime = Some rc, ListenAddr = listenAddr, ExtraEnv = []\<rparr>))
                      st)))"

definition ProcPerService ::
    "sys \<Rightarrow> ('rc, 'lg) deps \<Rightarrow> RuntimeConfigGenerator \<Rightarrow> state
      \<Rightarrow> error + (string \<rightharpoonup> 'rc ProcConfig) \<times> (string \<rightharpoonup> 'rc ProcConfig) \<times> state" where
  "ProcPerService s d g st =
     (case initialize s g st of
        Inl err \<Rightarrow> Inl err
      | Inr st \<Rightarrow>
          (case listen_loop d (Svcs (md g)) Map.empty Map.empty st of
             Inl err \<Rightarrow> Inl err
           | Inr (svcListenAddr, sd, st) \<Rightarrow>
               (case services_loop s d g svcListenAddr sd (Svcs (md g)) Map.empty st of
                  Inl err \<Rightarrow> Inl err
                | Inr (services, st) \<Rightarrow>
                    (case gateways_loop s d g sd (mGateways (md g)) Map.empty st of
                       Inl err \<Rightarrow> Inl err
                     | Inr (gateways, st) \<Rightarrow> Inr (services, gateways, st)))))"

text \<open>\<^verbatim>\<open>AllInOneProc\<close>: one deployment that hosts every gateway and every service.\<close>

definition AllInOneProc ::
    "sys \<Rightarrow> ('rc, 'lg) deps \<Rightarrow> RuntimeConfigGenerator \<Rightarrow> state
      \<Rightarrow> error + 'rc ProcConfig \<times> state" where
  "AllInOneProc s d g st =
     (case initialize s g st of
        Inl err \<Rightarrow> Inl err
      | Inr st \<Rightarrow>
          (case newRid s st of
             (rid, st) \<Rightarrow>
               (case BuildRuntimeConfig d
                       \<lparr>Deployment_Rid = rid, Deployment_conf = conf st,
                        Deployment_sd = Map.empty,
                        HostsServices = map Service_Name (Svcs (md g)),
                        HostsGateways = map mGateway_EncoreName (mGateways (md g)),
                        ReduceWithMeta = Some (md g)\<rparr> of
                  Inl err \<Rightarrow> Inl (Wrap err ''failed to generate runtime config'')
                | Inr rc \<Rightarrow>
                    (case freeLocalhostAddress d st of
                       (Inl err, st) \<Rightarrow> Inl (Wrap err ''failed to find free localhost address'')
                     | (Inr listenAddr, st) \<Rightarrow>
                         (let configEnvs = encodeConfigs d g (map Service_Name (Svcs (md g)))
                          in Inr (\<lparr>Runtime = Some rc, ListenAddr = listenAddr,
                                   ExtraEnv =
                                     [appSecretsEnvVar @ ''=''
                                        @ encodeSecretsEnv d (map_of (DefinedSecrets g))]
                                     @ configEnvs\<rparr>, st))))))"

text \<open>\<^verbatim>\<open>ProcEnvs\<close>: the environment of a process, in the current or in the legacy encoding.\<close>

definition runtime_config_string ::
    "('rc, 'lg) deps \<Rightarrow> 'rc \<Rightarrow> bool \<Rightarrow> error + string" where
  "runtime_config_string d rt useRuntimeConfigV2 =
     (if useRuntimeConfigV2 then
        (case proto_Marshal d rt of
           Inl err \<Rightarrow> Inl (Wrap err ''failed to marshal runtime config'')
         | Inr runtimeCfgBytes \<Rightarrow>
             Inr (''gzip:'' @ base64_StdEncoding d (gzipBytes d runtimeCfgBytes)))
      else
        (case ToLegacy d rt None of
           Inl err \<Rightarrow> Inl (Wrap err ''failed to generate runtime config'')
         | Inr runtimeCfg \<Rightarrow>
             (case json_Marshal d runtimeCfg of
                Inl err \<Rightarrow> Inl (Wrap err ''failed to marshal runtime config'')
              | Inr runtimeCfgBytes \<Rightarrow> Inr (base64_RawURLEncoding d runtimeCfgBytes))))"

definition ProcEnvs ::
    "('rc, 'lg) deps \<Rightarrow> RuntimeConfigGenerator \<Rightarrow> 'rc ProcConfig \<Rightarrow> bool \<Rightarrow> error + string list" where
  "ProcEnvs d g proc useRuntimeConfigV2 =
     (let env = [listenEnvVar @ ''='' @ AddrPort_String d (ListenAddr proc)] @ ExtraEnv proc
      in and_then
           (case Runtime proc of
              None \<Rightarrow> Inr env
            | Some rt \<Rightarrow>
                (case runtime_config_string d rt useRuntimeConfigV2 of
                   Inl err \<Rightarrow> Inl err
                 | Inr runtimeCfgStr \<Rightarrow> Inr (env @ [runtimeCfgEnvVar @ ''='' @ runtimeCfgStr])))
           (\<lambda>env. and_then
              (if IncludeMetaEnv g then
                 (case proto_Marshal_meta d (md g) of
                    Inl err \<Rightarrow> Inl (Wrap err ''failed to marshal metadata'')
                  | Inr metaBytes \<Rightarrow>
                      Inr (env @ [metaEnvVar @ ''='' @ ''gzip:''
                                    @ base64_StdEncoding d (gzipBytes d metaBytes)]))
               else Inr env)
           (\<lambda>env. if EncoreRuntimeLib d \<noteq> []
                   then Inr (env @ [''ENCORE_RUNTIME_LIB='' @ EncoreRuntimeLib d])
                   else Inr env)))"

subsection \<open>The steps of the initialization as functions of the graph\<close>

text \<open>
  What one database of the SQL stage and one cluster of the cache stage do to the graph,
  given the Rids that the step draws: the same builder calls as in
  \<^const>\<open>init_external_database\<close>, \<^const>\<open>init_managed_database\<close> and \<^const>\<open>init_cache_cluster\<close>, in
  the same order. The proofs relate the stateful steps to these.
\<close>

definition external_infra ::
    "string \<Rightarrow> string \<Rightarrow> string \<Rightarrow> meta_SQLDatabase \<Rightarrow> pgx_ConnConfig \<Rightarrow> Infra \<Rightarrow> Infra" where
  "external_infra crid srid drid db pCfg i =
     SQLDatabase_AddConnectionPool crid drid
       \<lparr>IsReadonly = False, RoleRid = role_rid crid (pgx_User pCfg),
        MinConnections = 0, MaxConnections = 0\<rparr>
       (SQLCluster_SQLDatabase crid
          \<lparr>SQLDatabase_Rid = drid, SQLDatabase_EncoreName = mSQLDatabase_Name db,
           SQLDatabase_CloudName = pgx_Database pCfg, SQLDatabase_ConnPools = []\<rparr>
          (Infra_SQLRole
             \<lparr>SQLRole_Rid = role_rid crid (pgx_User pCfg), SQLRole_Username = pgx_User pCfg,
              SQLRole_Password = toSecret (pgx_Password pCfg), SQLRole_ClientCertRid = None\<rparr>
             (SQLCluster_SQLServer crid
                \<lparr>SQLServer_Rid = srid, SQLServer_Kind = SERVER_KIND_PRIMARY,
                 SQLServer_Host = pgx_Host pCfg,
                 SQLServer_TlsConfig = Some \<lparr>ServerCaCert = None, DisableCaValidation = True\<rparr>\<rparr>
                (Infra_SQLCluster
                   \<lparr>SQLCluster_Rid = crid, SQLCluster_Servers = [],
                    SQLCluster_Databases = []\<rparr> i))))"

definition managed_infra :: "string \<Rightarrow> string \<Rightarrow> config_SQLDatabase \<Rightarrow> Infra \<Rightarrow> Infra" where
  "managed_infra crid drid dbConfig i =
     SQLDatabase_AddConnectionPool crid drid
       \<lparr>IsReadonly = False, RoleRid = role_rid crid (cSQLDatabase_User dbConfig),
        MinConnections = ucast (cSQLDatabase_MinConnections dbConfig),
        MaxConnections = ucast (cSQLDatabase_MaxConnections dbConfig)\<rparr>
       (SQLCluster_SQLDatabase crid
          \<lparr>SQLDatabase_Rid = drid,
           SQLDatabase_EncoreName = cSQLDatabase_EncoreName dbConfig,
           SQLDatabase_CloudName = cSQLDatabase_DatabaseName dbConfig,
           SQLDatabase_ConnPools = []\<rparr>
          (Infra_SQLRole
             \<lparr>SQLRole_Rid = role_rid crid (cSQLDatabase_User dbConfig),
              SQLRole_Username = cSQLDatabase_User dbConfig,
              SQLRole_Password = toSecret (cSQLDatabase_Password dbConfig),
              SQLRole_ClientCertRid = None\<rparr> i))"

definition cache_infra ::
    "string \<Rightarrow> string \<Rightarrow> string \<Rightarrow> config_RedisServer \<Rightarrow> config_RedisDatabase \<Rightarrow> Infra
      \<Rightarrow> Infra" where
  "cache_infra crid srid drid srvConfig dbConfig i =
     RedisDatabase_AddConnectionPool crid drid
       \<lparr>Redis_IsReadonly = False,
        Redis_RoleRid = role_rid crid (cRedisServer_User srvConfig),
        Redis_MinConnections = ucast (cRedisDatabase_MinConnections dbConfig),
        Redis_MaxConnections = ucast (cRedisDatabase_MaxConnections dbConfig)\<rparr>
       (RedisCluster_RedisDatabase crid
          \<lparr>RedisDatabase_Rid = drid,
           RedisDatabase_EncoreName = cRedisDatabase_EncoreName dbConfig,
           DatabaseIdx = ucast (cRedisDatabase_Database dbConfig),
           KeyPrefix = ptrOrNil (cRedisDatabase_KeyPrefix dbConfig),
           RedisDatabase_ConnPools = []\<rparr>
          (RedisCluster_RedisServer crid
             \<lparr>RedisServer_Rid = srid, RedisServer_Host = cRedisServer_Host srvConfig,
              RedisServer_Kind = SERVER_KIND_PRIMARY,
              RedisServer_TlsConfig =
                (if cRedisServer_EnableTLS srvConfig \<or> cRedisServer_ServerCACert srvConfig \<noteq> []
                 then Some \<lparr>ServerCaCert = ptrOrNil (cRedisServer_ServerCACert srvConfig),
                            DisableCaValidation = False\<rparr>
                 else None)\<rparr>
             (Infra_RedisRoleFn (role_rid crid (cRedisServer_User srvConfig))
                (redis_role (role_rid crid (cRedisServer_User srvConfig)) srvConfig)
                (Infra_RedisCluster
                   \<lparr>RedisCluster_Rid = crid, RedisCluster_Servers = [],
                    RedisCluster_Databases = []\<rparr> i))))"

definition rid_at :: "sys \<Rightarrow> nat \<Rightarrow> string" where
  "rid_at s k = ''res_'' @ xid_New s k"

text \<open>
  The cluster of an external database, as lines 293 to 322 build it from the three Rids
  that they draw: one primary server, one database and one pool.
\<close>

definition external_cluster ::
    "string \<Rightarrow> string \<Rightarrow> string \<Rightarrow> meta_SQLDatabase \<Rightarrow> pgx_ConnConfig \<Rightarrow> SQLCluster" where
  "external_cluster crid srid drid db pCfg =
     \<lparr>SQLCluster_Rid = crid,
      SQLCluster_Servers =
        [\<lparr>SQLServer_Rid = srid, SQLServer_Kind = SERVER_KIND_PRIMARY,
          SQLServer_Host = pgx_Host pCfg,
          SQLServer_TlsConfig = Some \<lparr>ServerCaCert = None, DisableCaValidation = True\<rparr>\<rparr>],
      SQLCluster_Databases =
        [\<lparr>SQLDatabase_Rid = drid, SQLDatabase_EncoreName = mSQLDatabase_Name db,
          SQLDatabase_CloudName = pgx_Database pCfg,
          SQLDatabase_ConnPools =
            [\<lparr>IsReadonly = False, RoleRid = role_rid crid (pgx_User pCfg),
              MinConnections = 0, MaxConnections = 0\<rparr>]\<rparr>]\<rparr>"

text \<open>The database of the managed cluster, as lines 330 to 347 build it.\<close>

definition managed_database :: "string \<Rightarrow> string \<Rightarrow> config_SQLDatabase \<Rightarrow> SQLDatabase" where
  "managed_database crid drid dbConfig =
     \<lparr>SQLDatabase_Rid = drid,
      SQLDatabase_EncoreName = cSQLDatabase_EncoreName dbConfig,
      SQLDatabase_CloudName = cSQLDatabase_DatabaseName dbConfig,
      SQLDatabase_ConnPools =
        [\<lparr>IsReadonly = False, RoleRid = role_rid crid (cSQLDatabase_User dbConfig),
          MinConnections = ucast (cSQLDatabase_MinConnections dbConfig),
          MaxConnections = ucast (cSQLDatabase_MaxConnections dbConfig)\<rparr>]\<rparr>"


text \<open>The lookup \<^verbatim>\<open>g.DefinedSecrets["sqldb::"+db.Name]\<close> of line 282.\<close>

definition sqldb_secret :: "RuntimeConfigGenerator \<Rightarrow> meta_SQLDatabase \<Rightarrow> string option" where
  "sqldb_secret g db = map_of (DefinedSecrets g) (''sqldb::'' @ mSQLDatabase_Name db)"

subsection \<open>Views of the graph\<close>

text \<open>
  The Rids of the SQL clusters, and the pairs of a cluster Rid and the role Rid of one of
  the connection pools of its databases; the same for the cache clusters. The invariants
  of the two stages are stated on these.
\<close>

definition sql_cluster_rids :: "Infra \<Rightarrow> string set" where
  "sql_cluster_rids i = SQLCluster_Rid ` set (Infra_sqlClusters i)"

definition sql_pool_rids :: "SQLDatabase list \<Rightarrow> string set" where
  "sql_pool_rids ds = (\<Union>d \<in> set ds. RoleRid ` set (SQLDatabase_ConnPools d))"

definition sql_pool_refs :: "Infra \<Rightarrow> (string \<times> string) set" where
  "sql_pool_refs i =
     (\<Union>c \<in> set (Infra_sqlClusters i).
        {SQLCluster_Rid c} \<times> sql_pool_rids (SQLCluster_Databases c))"

definition sql_roles_inv :: "Infra \<Rightarrow> bool" where
  "sql_roles_inv i \<longleftrightarrow>
     distinct (map SQLRole_Rid (Infra_sqlRoles i))
     \<and> (\<forall>crid \<in> sql_cluster_rids i. length crid = 24)
     \<and> (\<forall>r \<in> set (Infra_sqlRoles i).
           \<exists>crid \<in> sql_cluster_rids i. SQLRole_Rid r = role_rid crid (SQLRole_Username r))
     \<and> (\<forall>crid rr. (crid, rr) \<in> sql_pool_refs i \<longrightarrow>
           crid \<in> sql_cluster_rids i
           \<and> (\<exists>r \<in> set (Infra_sqlRoles i).
                 SQLRole_Rid r = rr \<and> rr = role_rid crid (SQLRole_Username r)))"







subsection \<open>The decoding path of the current encoding\<close>

text \<open>
  The reader of the current encoding, in the words of the claim: strip the prefix \<^verbatim>\<open>gzip:\<close>,
  decode the base64, decompress, deserialize. The three decoders are the inverses that the
  libraries provide.
\<close>

definition decode_current ::
    "(string \<Rightarrow> error + bytes) \<Rightarrow> (bytes \<Rightarrow> error + bytes) \<Rightarrow> (bytes \<Rightarrow> error + 'rc)
      \<Rightarrow> string \<Rightarrow> error + 'rc" where
  "decode_current base64_decode gunzip unmarshal str =
     (if take 5 str = ''gzip:''
      then and_then (base64_decode (drop 5 str)) (\<lambda>z. and_then (gunzip z) unmarshal)
      else Inl (External ''no gzip prefix''))"

subsection \<open>A concrete application\<close>

text \<open>
  An application on which the functions are run: services \<^verbatim>\<open>A\<close> and \<^verbatim>\<open>B\<close> with the packages of
  the scoping scenario, one gateway, one topic with a subscription, the database \<^verbatim>\<open>ext\<close> with an
  external connection string, the managed databases \<^verbatim>\<open>a\<close> and \<^verbatim>\<open>b\<close> of one user, and one cache
  cluster. The identifiers are twenty characters long and differ for the first twenty calls.
  The decoder and the parser are given on the inputs of the runs below: the secret of
  \<^verbatim>\<open>ext\<close>, a JSON object whose connection string parses; a JSON object whose connection
  string has the port \<^verbatim>\<open>abc\<close>, which the parser refuses; and \<^verbatim>\<open>{\<close>, which is not JSON.
\<close>

definition demo_xid :: "nat \<Rightarrow> string" where
  "demo_xid k = replicate k CHR ''1'' @ replicate (20 - k) CHR ''0''"

definition demo_blob :: string where
  \<open>demo_blob = ''{"connection_string": "postgres://u:p@host/db"}''\<close>

definition demo_blob_port :: string where
  \<open>demo_blob_port = ''{"connection_string": "postgres://u:p@host:abc/db"}''\<close>

definition demo_sys :: sys where
  "demo_sys =
     \<lparr>xid_New = demo_xid, time_Now = 0, ParseFloat_TRACE_SAMPLING_RATE = None,
      json_Unmarshal =
        (\<lambda>blob. if blob = demo_blob then Inr ''postgres://u:p@host/db''
                else if blob = demo_blob_port then Inr ''postgres://u:p@host:abc/db''
                else Inl (External ''unexpected end of JSON input'')),
      pgx_ParseConfig = (\<lambda>cs. if cs = ''postgres://u:p@host/db''
                               then Inr \<lparr>pgx_Host = ''host'', pgx_User = ''u'',
                                         pgx_Password = ''p'', pgx_Database = ''db''\<rparr>
                               else Inl (External ''invalid port''))\<rparr>"

definition demo_cors :: CORS where
  "demo_cors =
     \<lparr>CORS_Debug = False, CORS_AllowHeaders = [''X-Trace''], CORS_ExposeHeaders = [],
      CORS_AllowOriginsWithoutCredentials = [],
      CORS_AllowOriginsWithCredentials = [''https://app.example.com'']\<rparr>"

definition demo_app :: App where
  "demo_app =
     \<lparr>PlatformID = ''demo'', PlatformOrLocalID = ''demo'', GlobalCORS = Inr demo_cors,
      AppFile = Inr \<lparr>LogLevel = [], Build = \<lparr>WorkerPooling = False\<rparr>\<rparr>\<rparr>"

definition demo_im :: InfraManager where
  "demo_im =
     \<lparr>SQLServerConfig = Inr \<lparr>cSQLServer_Host = ''localhost:5432'', cSQLServer_ServerCACert = []\<rparr>,
      PubSubProviderConfig = Inr \<lparr>NSQ_Host = ''localhost:4150''\<rparr>,
      SQLDatabaseConfig =
        (\<lambda>db. Inr \<lparr>cSQLDatabase_EncoreName = mSQLDatabase_Name db,
                    cSQLDatabase_DatabaseName = mSQLDatabase_Name db,
                    cSQLDatabase_User = ''encore'', cSQLDatabase_Password = ''pw'',
                    cSQLDatabase_MinConnections = 0, cSQLDatabase_MaxConnections = 0\<rparr>),
      RedisConfig =
        (\<lambda>cl. Inr (\<lparr>cRedisServer_Host = ''localhost:6379'', cRedisServer_User = ''cache'',
                     cRedisServer_Password = ''pw'', cRedisServer_EnableTLS = False,
                     cRedisServer_ServerCACert = []\<rparr>,
                    \<lparr>cRedisDatabase_EncoreName = mCacheCluster_Name cl,
                     cRedisDatabase_Database = 0, cRedisDatabase_KeyPrefix = [],
                     cRedisDatabase_MinConnections = 0, cRedisDatabase_MaxConnections = 0\<rparr>)),
      BucketProviderConfig = Inl (External ''no bucket provider'')\<rparr>"

definition demo_topic :: "meta_DeliveryGuarantee \<Rightarrow> meta_PubSubTopic" where
  "demo_topic guarantee =
     \<lparr>Topic_Name = ''t'', Topic_DeliveryGuarantee = guarantee, Topic_OrderingKey = [],
      Topic_Subscriptions = [\<lparr>Subscription_Name = ''s''\<rparr>]\<rparr>"

definition demo_md :: "meta_DeliveryGuarantee \<Rightarrow> meta_Data" where
  "demo_md guarantee =
     scenario_md
       \<lparr>mGateways := [\<lparr>mGateway_EncoreName = ''api''\<rparr>],
        PubsubTopics := [demo_topic guarantee],
        SqlDatabases := [\<lparr>mSQLDatabase_Name = ''ext''\<rparr>, \<lparr>mSQLDatabase_Name = ''a''\<rparr>,
                         \<lparr>mSQLDatabase_Name = ''b''\<rparr>],
        CacheClusters := [\<lparr>mCacheCluster_Name = ''c''\<rparr>]\<rparr>"

definition demo_gen :: "meta_DeliveryGuarantee \<Rightarrow> RuntimeConfigGenerator" where
  "demo_gen guarantee =
     \<lparr>md = demo_md guarantee, app = demo_app, infraManager = demo_im, AppID = None,
      EnvID = None, EnvName = None, EnvType = None, EnvCloud = None, TraceEndpoint = None,
      DeployID = None, Gateways = Map.empty, AuthKey = \<lparr>KeyID = 1, Data = ''k''\<rparr>,
      IncludeMetaEnv = False,
      DefinedSecrets = [(''S1'', ''v1''), (''S2'', ''v2''), (''X'', ''v3''),
                        (''sqldb::ext'', demo_blob)],
      SvcConfigs = Map.empty\<rparr>"

definition demo_state :: state where
  "demo_state = \<lparr>conf = NewBuilder, authKeys = [], initOnce = False, xids = 0, listens = 0\<rparr>"

text \<open>
  Stand-ins for the libraries: the runtime configuration of a deployment is its Rid, the
  secrets are written as \<^verbatim>\<open>name=value;\<close> for the four names that the concrete application
  defines, and the codecs are invertible functions on strings.
\<close>

definition demo_encodeSecretsEnv :: "(string \<rightharpoonup> string) \<Rightarrow> string" where
  "demo_encodeSecretsEnv vals =
     concat (map (\<lambda>name. case vals name of Some v \<Rightarrow> name @ ''='' @ v @ '';'' | None \<Rightarrow> [])
               [''S1'', ''S2'', ''X'', ''sqldb::ext''])"

definition demo_deps :: "(string, string) deps" where
  "demo_deps =
     \<lparr>net_Listen = (\<lambda>k. Inr \<lparr>AddrPort_ip = ''127.0.0.1'', AddrPort_port = of_nat (4000 + k)\<rparr>),
      AddrPort_String = (\<lambda>a. AddrPort_ip a),
      RegisterService = (\<lambda>name a. ''http://'' @ name),
      BuildRuntimeConfig = (\<lambda>dep. Inr (Deployment_Rid dep)),
      encodeSecretsEnv = demo_encodeSecretsEnv,
      strings_ToUpper = (\<lambda>str. str),
      base64_RawURLEncoding = (\<lambda>b. b),
      base64_StdEncoding = (\<lambda>b. b @ ''==''),
      gzip_Write = rev,
      proto_Marshal = (\<lambda>rt. Inr (''pb'' @ rt)),
      proto_Marshal_meta = (\<lambda>m. Inr ''meta''),
      ToLegacy = (\<lambda>rt secretEnvs. Inr rt),
      json_Marshal = (\<lambda>lg. Inr lg),
      EncoreRuntimeLib = []\<rparr>"

definition demo_base64_decode :: "string \<Rightarrow> error + bytes" where
  "demo_base64_decode str = Inr (take (length str - 2) str)"

definition demo_gunzip :: "bytes \<Rightarrow> error + bytes" where
  "demo_gunzip z = Inr (rev z)"

definition demo_unmarshal :: "bytes \<Rightarrow> error + string" where
  "demo_unmarshal b = (if take 2 b = ''pb'' then Inr (drop 2 b) else Inl (External ''no message''))"

section \<open>Properties of secret scoping\<close>

lemma svcNameSet_loop_eq: "svcNameSet_loop names s = set names \<union> s"
  by (induction names arbitrary: s) auto

lemma secretNames_add_eq: "secretNames_add secrets s = set secrets \<union> s"
  by (induction secrets arbitrary: s) auto

lemma secretNames_loop_eq:
  "secretNames_loop svcs pkgs s =
     s \<union> {n. \<exists>p. p \<in> set pkgs \<and> (ServiceName p = [] \<or> ServiceName p \<in> svcs) \<and> n \<in> set (Secrets p)}"
proof (induction pkgs arbitrary: s)
  case Nil
  show ?case by simp
next
  case (Cons pkg pkgs)
  show ?case
  proof (cases "ServiceName pkg = [] \<or> ServiceName pkg \<in> svcs")
    case True
    then show ?thesis
      by (cases "Secrets pkg") (auto simp: Cons.IH secretNames_add_eq)
  next
    case False
    then show ?thesis
      by (auto simp: Cons.IH)
  qed
qed

lemma secretsUsedByServices_eq:
  "secretsUsedByServices m svcNames =
     {n. \<exists>p. p \<in> set (Pkgs m) \<and> (ServiceName p = [] \<or> ServiceName p \<in> set svcNames)
        \<and> n \<in> set (Secrets p)}"
  by (simp add: secretsUsedByServices_def secretNames_loop_eq svcNameSet_loop_eq)

text \<open>
  Claim C2. For every list of requested service names and every package list,
  \<^const>\<open>secretsUsedByServices\<close> returns exactly the union of the secrets of the packages that
  belong to no service (their service name is empty) or whose service is requested. In the
  scenario, scoping \<^verbatim>\<open>A\<close> gives \<^verbatim>\<open>S1\<close> and \<^verbatim>\<open>S2\<close>, and scoping \<^verbatim>\<open>B\<close> gives \<^verbatim>\<open>S2\<close> alone.
\<close>

theorem secretsUsedByServices_union:
  "secretsUsedByServices m svcNames =
     (\<Union>p \<in> {p \<in> set (Pkgs m). ServiceName p = [] \<or> ServiceName p \<in> set svcNames}.
        set (Secrets p))
   \<and> secretsUsedByServices scenario_md [''A''] = {''S1'', ''S2''}
   \<and> secretsUsedByServices scenario_md [''B''] = {''S2''}"
proof (intro conjI)
  show "secretsUsedByServices m svcNames =
     (\<Union>p \<in> {p \<in> set (Pkgs m). ServiceName p = [] \<or> ServiceName p \<in> set svcNames}.
        set (Secrets p))"
    unfolding secretsUsedByServices_eq by blast
  show "secretsUsedByServices scenario_md [''A''] = {''S1'', ''S2''}"
    by (auto simp: secretsUsedByServices_def scenario_md_def)
  show "secretsUsedByServices scenario_md [''B''] = {''S2''}"
    by (auto simp: secretsUsedByServices_def scenario_md_def)
qed

text \<open>
  Claim C8. Secret scoping is monotonic: when every service name of \<open>S\<close> is among those of
  \<open>T\<close>, every secret name that scoping \<open>S\<close> returns is returned by scoping \<open>T\<close>.
\<close>

theorem secretsUsedByServices_mono:
  assumes "set S \<subseteq> set T"
  shows "secretsUsedByServices m S \<subseteq> secretsUsedByServices m T"
  using assms unfolding secretsUsedByServices_eq by blast

theorem secretsUsedByServices_mono_witness:
  "set [''A''] \<subseteq> set [''A'', ''B'']
   \<and> secretsUsedByServices scenario_md [''A'']
       \<subseteq> secretsUsedByServices scenario_md [''A'', ''B'']
   \<and> secretsUsedByServices scenario_md [''A''] = {''S1'', ''S2''}"
proof -
  have h: "set [''A''] \<subseteq> set [''A'', ''B'']" by simp
  have v: "secretsUsedByServices scenario_md [''A''] = {''S1'', ''S2''}"
    by (auto simp: secretsUsedByServices_def scenario_md_def)
  show ?thesis
    using h v secretsUsedByServices_mono [OF h, of scenario_md] by simp
qed

section \<open>Properties of the missing secrets\<close>

lemma distinct_remdups_adj_sorted:
  "sorted (xs :: 'a::linorder list) \<Longrightarrow> distinct (remdups_adj xs)"
  by (induction xs rule: remdups_adj.induct) auto

lemma missing_names_eq:
  "missing_names d names acc = acc @ filter (\<lambda>n. d n = None) names"
  by (induction names arbitrary: acc) auto

lemma missing_pkgs_eq:
  "missing_pkgs d pkgs acc =
     acc @ concat (map (\<lambda>p. filter (\<lambda>n. d n = None) (Secrets p)) pkgs)"
  by (induction pkgs arbitrary: acc) (auto simp: missing_names_eq)

lemma set_MissingSecrets:
  "set (MissingSecrets g) =
     {n. \<exists>p. p \<in> set (Pkgs (md g)) \<and> n \<in> set (Secrets p) \<and> map_of (DefinedSecrets g) n = None}"
  by (auto simp: MissingSecrets_def missing_pkgs_eq)

lemma dom_define_secrets:
  "dom (map_of (define_secrets val names ds)) = set names \<union> dom (map_of ds)"
  by (induction names arbitrary: ds) (auto simp: update_conv')

text \<open>
  Claim C9. For every package list and every map of defined secrets, \<^const>\<open>MissingSecrets\<close>
  returns a sorted list without duplicates that holds exactly the secret names some package
  declares and the map does not define; once every name of that list is defined (with any
  values), \<^const>\<open>MissingSecrets\<close> returns the empty list.
\<close>

theorem MissingSecrets_sorted_distinct_exact:
  "sorted (MissingSecrets g) \<and> distinct (MissingSecrets g)
   \<and> set (MissingSecrets g) =
       {n. \<exists>p. p \<in> set (Pkgs (md g)) \<and> n \<in> set (Secrets p)
          \<and> map_of (DefinedSecrets g) n = None}
   \<and> MissingSecrets
        (g\<lparr>DefinedSecrets := define_secrets val (MissingSecrets g) (DefinedSecrets g)\<rparr>) = []"
proof (intro conjI)
  show "sorted (MissingSecrets g)"
    by (simp add: MissingSecrets_def)
  then show "distinct (MissingSecrets g)"
    unfolding MissingSecrets_def by (simp add: distinct_remdups_adj_sorted)
  show "set (MissingSecrets g) =
       {n. \<exists>p. p \<in> set (Pkgs (md g)) \<and> n \<in> set (Secrets p)
          \<and> map_of (DefinedSecrets g) n = None}"
    by (rule set_MissingSecrets)
  let ?g = "g\<lparr>DefinedSecrets := define_secrets val (MissingSecrets g) (DefinedSecrets g)\<rparr>"
  have "set (MissingSecrets ?g) = {}"
  proof (rule equals0I)
    fix n
    assume "n \<in> set (MissingSecrets ?g)"
    then obtain p where p: "p \<in> set (Pkgs (md g))" "n \<in> set (Secrets p)"
      and undefined: "n \<notin> dom (map_of (DefinedSecrets ?g))"
      unfolding set_MissingSecrets by (auto simp: domIff)
    from undefined have "n \<notin> set (MissingSecrets g)" "map_of (DefinedSecrets g) n = None"
      by (auto simp: dom_define_secrets domIff)
    with p show False
      unfolding set_MissingSecrets by blast
  qed
  then show "MissingSecrets ?g = []"
    by simp
qed

section \<open>Evaluation on the concrete application\<close>

lemmas init_unfold =
  initialize_def initialize_body_def init_env_def init_tracing_def init_defaults_def
  init_pubsub_def init_sql_def init_redis_def init_buckets_def init_database_def
  init_external_database_def init_managed_database_def init_cache_cluster_def newRid_def
  with_infra_def with_conf_def Let_def role_rid_def

lemmas demo_unfold =
  demo_sys_def demo_app_def demo_im_def demo_gen_def demo_md_def demo_topic_def scenario_md_def
  demo_state_def demo_xid_def demo_blob_def demo_blob_port_def demo_cors_def

lemmas demo_deps_unfold =
  demo_deps_def freeLocalhostAddress_def encodeConfigs_def appSecretsEnvVar_def
  demo_encodeSecretsEnv_def encodeSecrets_def secretsUsedByServices_def encore_auth_def

lemma demo_all_in_one:
  "map_sum id (\<lambda>(pc, st). ExtraEnv pc)
     (AllInOneProc demo_sys demo_deps (demo_gen PubSubTopic_AT_LEAST_ONCE) demo_state)
   = Inr [''ENCORE_APP_SECRETS=S1=v1;S2=v2;X=v3;sqldb::ext='' @ demo_blob @ '';'']"
  by (simp add: AllInOneProc_def init_unfold demo_unfold demo_deps_unfold)

lemma demo_per_service:
  "map_sum id (\<lambda>(services, gateways, st).
       (map_option ExtraEnv (services ''A''), map_option ExtraEnv (services ''B''),
        map_option ExtraEnv (gateways ''api'')))
     (ProcPerService demo_sys demo_deps (demo_gen PubSubTopic_AT_LEAST_ONCE) demo_state)
   = Inr (Some [''ENCORE_APP_SECRETS=S1=v1;S2=v2;''], Some [''ENCORE_APP_SECRETS=S2=v2;''],
          Some [])"
  by (simp add: ProcPerService_def init_unfold demo_unfold demo_deps_unfold)

section \<open>Secrets of the process configurations\<close>

lemma services_loop_env:
  assumes "services_loop s d g la sd svcs services st = Inr (services', st')"
    and "(\<exists>pc. services n = Some pc
            \<and> ExtraEnv pc =
                (appSecretsEnvVar @ ''='' @ encodeSecrets d g (secretsUsedByServices (md g) [n]))
                # encodeConfigs d g [n])
         \<or> n \<in> Service_Name ` set svcs"
  shows "\<exists>pc. services' n = Some pc
            \<and> ExtraEnv pc =
                (appSecretsEnvVar @ ''='' @ encodeSecrets d g (secretsUsedByServices (md g) [n]))
                # encodeConfigs d g [n]"
  using assms
proof (induction svcs arbitrary: services st)
  case Nil
  then show ?case by simp
next
  case (Cons svc svcs)
  obtain rid st1 where nr: "newRid s st = (rid, st1)"
    by (cases "newRid s st")
  let ?pc = "\<lambda>rc. \<lparr>Runtime = Some rc,
      ListenAddr = (case la (Service_Name svc) of Some a \<Rightarrow> a | None \<Rightarrow> AddrPort_zero),
      ExtraEnv = [appSecretsEnvVar @ ''=''
                    @ encodeSecrets d g (secretsUsedByServices (md g) [Service_Name svc])]
                 @ encodeConfigs d g [Service_Name svc]\<rparr>"
  from Cons.prems(1) nr obtain rc where
    rest: "services_loop s d g la sd svcs (services(Service_Name svc \<mapsto> ?pc rc)) st1
             = Inr (services', st')"
    by (auto simp: Let_def split: sum.splits)
  show ?case
    by (rule Cons.IH [OF rest]) (use Cons.prems(2) in auto)
qed

lemma gateways_loop_env:
  assumes "gateways_loop s d g sd gws gateways st = Inr (gateways', st')"
    and "(\<exists>pc. gateways n = Some pc \<and> ExtraEnv pc = []) \<or> n \<in> mGateway_EncoreName ` set gws"
  shows "\<exists>pc. gateways' n = Some pc \<and> ExtraEnv pc = []"
  using assms
proof (induction gws arbitrary: gateways st)
  case Nil
  then show ?case by simp
next
  case (Cons gw gws)
  obtain rid st1 where nr: "newRid s st = (rid, st1)"
    by (cases "newRid s st")
  obtain r st2 where fl: "freeLocalhostAddress d st1 = (r, st2)"
    by (cases "freeLocalhostAddress d st1")
  from Cons.prems(1) nr fl obtain rc a where
    rest: "gateways_loop s d g sd gws
             (gateways(mGateway_EncoreName gw \<mapsto>
                \<lparr>Runtime = Some rc, ListenAddr = a, ExtraEnv = []\<rparr>)) st2
           = Inr (gateways', st')"
    by (auto split: sum.splits)
  show ?case
    by (rule Cons.IH [OF rest]) (use Cons.prems(2) in auto)
qed

text \<open>
  Claim C10. When \<^const>\<open>AllInOneProc\<close> returns a process configuration, its first extra
  variable is the app-secrets variable holding the whole map of defined secrets, whatever
  the packages declare, followed by the service configurations. When \<^const>\<open>ProcPerService\<close>
  returns, the process of every service has as its app-secrets variable the map of exactly
  the names that some package declares which belongs to no service or to that service (an
  undefined name with the empty value), and the process of every gateway has no extra
  variable at all.
\<close>

theorem procs_app_secrets:
  "(AllInOneProc s d g st = Inr (pc, st') \<longrightarrow>
      ExtraEnv pc =
        (''ENCORE_APP_SECRETS='' @ encodeSecretsEnv d (map_of (DefinedSecrets g)))
        # encodeConfigs d g (map Service_Name (Svcs (md g))))
   \<and> (ProcPerService s d g st = Inr (services, gateways, st'') \<longrightarrow>
        (\<forall>svc \<in> set (Svcs (md g)). \<exists>pc. services (Service_Name svc) = Some pc
            \<and> ExtraEnv pc =
                (''ENCORE_APP_SECRETS='' @ encodeSecretsEnv d
                   (\<lambda>n. if \<exists>p \<in> set (Pkgs (md g)).
                              (ServiceName p = [] \<or> ServiceName p = Service_Name svc)
                              \<and> n \<in> set (Secrets p)
                        then Some (case map_of (DefinedSecrets g) n of
                                     Some v \<Rightarrow> v | None \<Rightarrow> [])
                        else None))
                # encodeConfigs d g [Service_Name svc])
        \<and> (\<forall>gw \<in> set (mGateways (md g)). \<exists>pc. gateways (mGateway_EncoreName gw) = Some pc
            \<and> ExtraEnv pc = []))"
proof (intro conjI impI ballI)
  assume "AllInOneProc s d g st = Inr (pc, st')"
  then show "ExtraEnv pc =
        (''ENCORE_APP_SECRETS='' @ encodeSecretsEnv d (map_of (DefinedSecrets g)))
        # encodeConfigs d g (map Service_Name (Svcs (md g)))"
    by (auto simp: AllInOneProc_def appSecretsEnvVar_def Let_def split: sum.splits prod.splits)
next
  fix svc
  assume pps: "ProcPerService s d g st = Inr (services, gateways, st'')"
    and svc: "svc \<in> set (Svcs (md g))"
  from pps obtain la sd st1 st2 where
    "services_loop s d g la sd (Svcs (md g)) Map.empty st1 = Inr (services, st2)"
    by (auto simp: ProcPerService_def split: sum.splits prod.splits)
  from services_loop_env [OF this, of "Service_Name svc"] svc
  obtain pc' where pc': "services (Service_Name svc) = Some pc'"
    "ExtraEnv pc' =
       (appSecretsEnvVar @ ''=''
          @ encodeSecrets d g (secretsUsedByServices (md g) [Service_Name svc]))
       # encodeConfigs d g [Service_Name svc]"
    by auto
  have "secretsUsedByServices (md g) [Service_Name svc]
      = {n. \<exists>p \<in> set (Pkgs (md g)).
              (ServiceName p = [] \<or> ServiceName p = Service_Name svc) \<and> n \<in> set (Secrets p)}"
    by (auto simp: secretsUsedByServices_eq)
  with pc' show "\<exists>pc. services (Service_Name svc) = Some pc
            \<and> ExtraEnv pc =
                (''ENCORE_APP_SECRETS='' @ encodeSecretsEnv d
                   (\<lambda>n. if \<exists>p \<in> set (Pkgs (md g)).
                              (ServiceName p = [] \<or> ServiceName p = Service_Name svc)
                              \<and> n \<in> set (Secrets p)
                        then Some (case map_of (DefinedSecrets g) n of
                                     Some v \<Rightarrow> v | None \<Rightarrow> [])
                        else None))
                # encodeConfigs d g [Service_Name svc]"
    by (simp add: appSecretsEnvVar_def encodeSecrets_def)
next
  fix gw
  assume pps: "ProcPerService s d g st = Inr (services, gateways, st'')"
    and gw: "gw \<in> set (mGateways (md g))"
  from pps obtain sd st2 where
    "gateways_loop s d g sd (mGateways (md g)) Map.empty st2 = Inr (gateways, st'')"
    by (auto simp: ProcPerService_def split: sum.splits prod.splits)
  from gateways_loop_env [OF this, of "mGateway_EncoreName gw"] gw
  show "\<exists>pc. gateways (mGateway_EncoreName gw) = Some pc \<and> ExtraEnv pc = []"
    by auto
qed

theorem procs_app_secrets_witness:
  "map_sum id (\<lambda>(pc, st). ExtraEnv pc)
     (AllInOneProc demo_sys demo_deps (demo_gen PubSubTopic_AT_LEAST_ONCE) demo_state)
   = Inr [''ENCORE_APP_SECRETS=S1=v1;S2=v2;X=v3;sqldb::ext='' @ demo_blob @ '';'']
   \<and> map_sum id (\<lambda>(services, gateways, st).
        (map_option ExtraEnv (services ''A''), map_option ExtraEnv (services ''B''),
         map_option ExtraEnv (gateways ''api'')))
      (ProcPerService demo_sys demo_deps (demo_gen PubSubTopic_AT_LEAST_ONCE) demo_state)
     = Inr (Some [''ENCORE_APP_SECRETS=S1=v1;S2=v2;''], Some [''ENCORE_APP_SECRETS=S2=v2;''],
            Some [])"
proof -
  let ?g = "demo_gen PubSubTopic_AT_LEAST_ONCE"
  obtain pc st' where one: "AllInOneProc demo_sys demo_deps ?g demo_state = Inr (pc, st')"
    using demo_all_in_one
    by (cases "AllInOneProc demo_sys demo_deps ?g demo_state") auto
  obtain services gateways st''
    where per: "ProcPerService demo_sys demo_deps ?g demo_state = Inr (services, gateways, st'')"
    using demo_per_service
    by (cases "ProcPerService demo_sys demo_deps ?g demo_state") auto
  note inst = procs_app_secrets [of demo_sys demo_deps ?g demo_state pc st' services gateways st'']
  from inst one
  have env_one: "ExtraEnv pc
      = [''ENCORE_APP_SECRETS=S1=v1;S2=v2;X=v3;sqldb::ext='' @ demo_blob @ '';'']"
    by (simp add: demo_unfold demo_deps_unfold)
  have svcA: "\<lparr>Service_Name = ''A''\<rparr> \<in> set (Svcs (md ?g))"
    and svcB: "\<lparr>Service_Name = ''B''\<rparr> \<in> set (Svcs (md ?g))"
    and gwApi: "\<lparr>mGateway_EncoreName = ''api''\<rparr> \<in> set (mGateways (md ?g))"
    by (simp_all add: demo_unfold)
  from inst per svcA obtain pcA where
    "services ''A'' = Some pcA"
    "ExtraEnv pcA =
       (''ENCORE_APP_SECRETS='' @ encodeSecretsEnv demo_deps
          (\<lambda>n. if \<exists>p \<in> set (Pkgs (md ?g)).
                     (ServiceName p = [] \<or> ServiceName p = ''A'') \<and> n \<in> set (Secrets p)
               then Some (case map_of (DefinedSecrets ?g) n of Some v \<Rightarrow> v | None \<Rightarrow> [])
               else None))
       # encodeConfigs demo_deps ?g [''A'']"
    by fastforce
  then have env_A: "map_option ExtraEnv (services ''A'') = Some [''ENCORE_APP_SECRETS=S1=v1;S2=v2;'']"
    by (simp add: demo_unfold demo_deps_unfold)
  from inst per svcB obtain pcB where
    "services ''B'' = Some pcB"
    "ExtraEnv pcB =
       (''ENCORE_APP_SECRETS='' @ encodeSecretsEnv demo_deps
          (\<lambda>n. if \<exists>p \<in> set (Pkgs (md ?g)).
                     (ServiceName p = [] \<or> ServiceName p = ''B'') \<and> n \<in> set (Secrets p)
               then Some (case map_of (DefinedSecrets ?g) n of Some v \<Rightarrow> v | None \<Rightarrow> [])
               else None))
       # encodeConfigs demo_deps ?g [''B'']"
    by fastforce
  then have env_B: "map_option ExtraEnv (services ''B'') = Some [''ENCORE_APP_SECRETS=S2=v2;'']"
    by (simp add: demo_unfold demo_deps_unfold)
  from inst per gwApi obtain pcG where "gateways ''api'' = Some pcG" "ExtraEnv pcG = []"
    by fastforce
  then have env_G: "map_option ExtraEnv (gateways ''api'') = Some []"
    by simp
  from one per env_one env_A env_B env_G show ?thesis
    by simp
qed


section \<open>The current encoding\<close>

text \<open>
  Claim C7. With the current encoding, the value that \<^const>\<open>ProcEnvs\<close> puts in the runtime
  configuration variable is \<^verbatim>\<open>gzip:\<close> followed by the standard base64 encoding of the
  compressed serialization of the runtime configuration, and it is produced whenever the
  serialization succeeds. Reading it back along \<^const>\<open>decode_current\<close>, with decoders that
  invert the three encoders of the libraries, gives the runtime configuration again.
\<close>

theorem current_encoding_roundtrip:
  assumes b64: "\<And>b. base64_decode (base64_StdEncoding d b) = Inr b"
    and gz: "\<And>b. gunzip (gzip_Write d b) = Inr b"
    and pb: "\<And>x b. proto_Marshal d x = Inr b \<Longrightarrow> unmarshal b = Inr x"
  shows "(\<forall>b. proto_Marshal d rt = Inr b \<longrightarrow>
            runtime_config_string d rt True
              = Inr (''gzip:'' @ base64_StdEncoding d (gzip_Write d b))
            \<and> decode_current base64_decode gunzip unmarshal
                (''gzip:'' @ base64_StdEncoding d (gzip_Write d b)) = Inr rt)
         \<and> (\<forall>proc env. Runtime proc = Some rt \<and> ProcEnvs d g proc True = Inr env \<longrightarrow>
              (\<exists>b. proto_Marshal d rt = Inr b
                 \<and> env ! Suc (length (ExtraEnv proc))
                     = ''ENCORE_RUNTIME_CONFIG='' @ ''gzip:''
                         @ base64_StdEncoding d (gzip_Write d b)
                 \<and> decode_current base64_decode gunzip unmarshal
                     (drop 22 (env ! Suc (length (ExtraEnv proc)))) = Inr rt))"
proof (intro conjI allI impI)
  fix b
  assume m: "proto_Marshal d rt = Inr b"
  then show "runtime_config_string d rt True
      = Inr (''gzip:'' @ base64_StdEncoding d (gzip_Write d b))"
    by (simp add: runtime_config_string_def gzipBytes_def)
  from m show "decode_current base64_decode gunzip unmarshal
      (''gzip:'' @ base64_StdEncoding d (gzip_Write d b)) = Inr rt"
    by (simp add: decode_current_def b64 gz pb)
next
  fix proc :: "'a ProcConfig" and env
  assume a: "Runtime proc = Some rt \<and> ProcEnvs d g proc True = Inr env"
  then obtain b where m: "proto_Marshal d rt = Inr b"
    by (cases "proto_Marshal d rt")
       (auto simp: ProcEnvs_def runtime_config_string_def Let_def)
  let ?v = "''gzip:'' @ base64_StdEncoding d (gzip_Write d b)"
  let ?env1 = "(listenEnvVar @ ''='' @ AddrPort_String d (ListenAddr proc)) # ExtraEnv proc"
  from a m obtain rest where env: "env = ?env1 @ (runtimeCfgEnvVar @ ''='' @ ?v) # rest"
    by (auto simp: ProcEnvs_def runtime_config_string_def gzipBytes_def Let_def
        split: sum.splits if_splits)
  have nth: "env ! Suc (length (ExtraEnv proc)) = runtimeCfgEnvVar @ ''='' @ ?v"
    unfolding env by (simp add: nth_append)
  have dec: "decode_current base64_decode gunzip unmarshal ?v = Inr rt"
    using m by (simp add: decode_current_def b64 gz pb)
  show "\<exists>b. proto_Marshal d rt = Inr b
      \<and> env ! Suc (length (ExtraEnv proc))
          = ''ENCORE_RUNTIME_CONFIG='' @ ''gzip:'' @ base64_StdEncoding d (gzip_Write d b)
      \<and> decode_current base64_decode gunzip unmarshal
          (drop 22 (env ! Suc (length (ExtraEnv proc)))) = Inr rt"
    using m nth dec by (auto simp: runtimeCfgEnvVar_def)
qed

theorem current_encoding_roundtrip_witness:
  "ProcEnvs demo_deps (demo_gen PubSubTopic_AT_LEAST_ONCE)
     \<lparr>Runtime = Some ''rc'', ListenAddr = AddrPort_zero, ExtraEnv = []\<rparr> True
     = Inr [''ENCORE_LISTEN_ADDR='', ''ENCORE_RUNTIME_CONFIG=gzip:crbp=='']
   \<and> decode_current demo_base64_decode demo_gunzip demo_unmarshal ''gzip:crbp=='' = Inr ''rc''"
proof -
  let ?g = "demo_gen PubSubTopic_AT_LEAST_ONCE"
  let ?proc = "\<lparr>Runtime = Some ''rc'', ListenAddr = AddrPort_zero, ExtraEnv = []\<rparr>"
  have b64: "\<And>b. demo_base64_decode (base64_StdEncoding demo_deps b) = Inr b"
    by (simp add: demo_base64_decode_def demo_deps_def)
  have gz: "\<And>b. demo_gunzip (gzip_Write demo_deps b) = Inr b"
    by (simp add: demo_gunzip_def demo_deps_def)
  have pb: "\<And>x b. proto_Marshal demo_deps x = Inr b \<Longrightarrow> demo_unmarshal b = Inr x"
    by (auto simp: demo_unmarshal_def demo_deps_def)
  have env: "ProcEnvs demo_deps ?g ?proc True
      = Inr [''ENCORE_LISTEN_ADDR='', ''ENCORE_RUNTIME_CONFIG=gzip:crbp=='']"
    by (simp add: ProcEnvs_def runtime_config_string_def gzipBytes_def demo_deps_def
        demo_gen_def AddrPort_zero_def listenEnvVar_def runtimeCfgEnvVar_def)
  have m: "proto_Marshal demo_deps ''rc'' = Inr ''pbrc''"
    by (simp add: demo_deps_def)
  from current_encoding_roundtrip [of demo_base64_decode demo_deps demo_gunzip demo_unmarshal
      "''rc''" ?g, OF b64 gz pb] m
  have "decode_current demo_base64_decode demo_gunzip demo_unmarshal
      (''gzip:'' @ base64_StdEncoding demo_deps (gzip_Write demo_deps ''pbrc'')) = Inr ''rc''"
    by blast
  then have "decode_current demo_base64_decode demo_gunzip demo_unmarshal ''gzip:crbp==''
      = Inr ''rc''"
    by (simp add: demo_deps_def)
  with env show ?thesis by simp
qed


section \<open>The stages of the initialization\<close>

lemma and_then_Inr_iff: "and_then x f = Inr y \<longleftrightarrow> (\<exists>z. x = Inr z \<and> f z = Inr y)"
  by (cases x) auto

lemma infra_with_infra [simp]: "infra (with_infra f st) = f (infra st)"
  by (simp add: infra_def with_infra_def with_conf_def)

lemma xids_with_infra [simp]: "xids (with_infra f st) = xids st"
  by (simp add: with_infra_def with_conf_def)

lemma newRid_eq: "newRid s st = (''res_'' @ xid_New s (xids st), st\<lparr>xids := Suc (xids st)\<rparr>)"
  by (simp add: newRid_def)

lemma infra_xids_update [simp]: "infra (st\<lparr>xids := n\<rparr>) = infra st"
  by (simp add: infra_def)

lemma infra_init_pre:
  "infra (init_defaults (init_services_loop appFile svcs (init_tracing s g (init_env s g st))))
     = Builder_Infra NewBuilder"
proof -
  have svc: "infra (init_services_loop appFile svcs st0) = infra st0" for st0
    by (induction svcs arbitrary: st0)
       (simp_all add: infra_def with_conf_def Builder_ServiceConfig_def)
  have env: "infra (init_env s g st) = Builder_Infra NewBuilder"
    by (simp add: init_env_def infra_def with_conf_def Let_def split: option.splits)
  have tr: "infra (init_tracing s g st0) = infra st0" for st0
    by (simp add: init_tracing_def infra_def with_conf_def newRid_def Let_def
        split: option.splits)
  have dflt: "infra (init_defaults st0) = infra st0" for st0
    by (simp add: init_defaults_def infra_def with_conf_def Let_def)
  show ?thesis
    by (simp add: dflt svc tr env)
qed

lemma initialize_body_stages:
  assumes "initialize_body s g st = Inr st'"
  obtains appFile st0 st1 st2 st3 st4 st5 where
    "AppFile (app g) = Inr appFile"
    "infra st0 = Builder_Infra NewBuilder"
    "init_gateways_loop s g (mGateways (md g)) st0 = Inr st1"
    "init_pubsub s g st1 = Inr st2"
    "init_sql s g st2 = Inr st3"
    "init_redis s g st3 = Inr st4"
    "init_buckets s g st4 = Inr st5"
    "st' = init_secrets_loop s (DefinedSecrets g) st5"
proof -
  from assms obtain appFile where af: "AppFile (app g) = Inr appFile"
    by (cases "AppFile (app g)") (auto simp: initialize_body_def Let_def)
  let ?st0 = "init_defaults (init_services_loop appFile (Svcs (md g))
                (init_tracing s g (init_env s g st)))"
  from assms af obtain st1 st2 st3 st4 st5 where
    "init_gateways_loop s g (mGateways (md g)) ?st0 = Inr st1"
    "init_pubsub s g st1 = Inr st2" "init_sql s g st2 = Inr st3"
    "init_redis s g st3 = Inr st4" "init_buckets s g st4 = Inr st5"
    "st' = init_secrets_loop s (DefinedSecrets g) st5"
    by (auto simp: initialize_body_def Let_def and_then_Inr_iff)
  with af infra_init_pre [of appFile "Svcs (md g)" s g st] that show thesis
    by blast
qed

subsection \<open>What each stage leaves alone\<close>

lemma init_gateways_loop_frame:
  "init_gateways_loop s g gws st = Inr st' \<Longrightarrow>
   xids st \<le> xids st'
   \<and> (infra st')\<lparr>Infra_gateways := []\<rparr> = (infra st)\<lparr>Infra_gateways := []\<rparr>"
proof (induction gws arbitrary: st)
  case Nil
  then show ?case by auto
next
  case (Cons gw gws)
  from Cons.prems obtain cors where cors: "GlobalCORS (app g) = Inr cors"
    by (cases "GlobalCORS (app g)") auto
  from Cons.prems cors have "init_gateways_loop s g gws
      (with_infra (Infra_Gateway
         \<lparr>Gateway_Rid = ''res_'' @ xid_New s (xids st),
          Gateway_EncoreName = mGateway_EncoreName gw,
          Gateway_BaseUrl = BaseURL (GatewayConfig_of g (mGateway_EncoreName gw)),
          Gateway_Hostnames = Hostnames (GatewayConfig_of g (mGateway_EncoreName gw)),
          Gateway_Cors = gateway_cors cors\<rparr>) (st\<lparr>xids := Suc (xids st)\<rparr>)) = Inr st'"
    by (simp add: newRid_eq)
  from Cons.IH [OF this] show ?case
    by (simp add: Infra_Gateway_def)
qed

lemma init_subscriptions_loop_frame:
  "xids st \<le> xids (init_subscriptions_loop s crid topic subs st)
   \<and> (infra (init_subscriptions_loop s crid topic subs st))\<lparr>Infra_pubsubClusters := []\<rparr>
       = (infra st)\<lparr>Infra_pubsubClusters := []\<rparr>"
proof (induction subs arbitrary: st)
  case Nil
  then show ?case by auto
next
  case (Cons sub subs)
  let ?st1 = "with_infra (PubSubCluster_PubSubSubscription crid
       \<lparr>PubSubSubscription_Rid = ''res_'' @ xid_New s (xids st),
        TopicEncoreName = Topic_Name topic,
        SubscriptionEncoreName = Subscription_Name sub,
        TopicCloudName = Topic_Name topic,
        SubscriptionCloudName = Subscription_Name sub,
        PushOnly = False\<rparr>) (st\<lparr>xids := Suc (xids st)\<rparr>)"
  from Cons.IH [of ?st1] show ?case
    by (simp add: newRid_eq PubSubCluster_PubSubSubscription_def)
qed

lemma init_topics_loop_frame:
  "init_topics_loop s crid topics st = Inr st' \<Longrightarrow>
   xids st \<le> xids st'
   \<and> (infra st')\<lparr>Infra_pubsubClusters := []\<rparr> = (infra st)\<lparr>Infra_pubsubClusters := []\<rparr>"
proof (induction topics arbitrary: st)
  case Nil
  then show ?case by auto
next
  case (Cons topic topics)
  from Cons.prems obtain dg where dg: "deliveryGuarantee_switch (Topic_DeliveryGuarantee topic) = Inr dg"
    by (cases "deliveryGuarantee_switch (Topic_DeliveryGuarantee topic)") (auto simp: newRid_eq)
  let ?st1 = "with_infra (PubSubCluster_PubSubTopic crid
       \<lparr>PubSubTopic_Rid = ''res_'' @ xid_New s (xids st),
        PubSubTopic_EncoreName = Topic_Name topic,
        PubSubTopic_CloudName = Topic_Name topic,
        PubSubTopic_DeliveryGuarantee = dg,
        PubSubTopic_OrderingAttr = ptrOrNil (Topic_OrderingKey topic)\<rparr>)
       (st\<lparr>xids := Suc (xids st)\<rparr>)"
  let ?st2 = "init_subscriptions_loop s crid topic (Topic_Subscriptions topic) ?st1"
  from Cons.prems dg have rest: "init_topics_loop s crid topics ?st2 = Inr st'"
    by (simp add: newRid_eq)
  from Cons.IH [OF rest] init_subscriptions_loop_frame [of ?st1 s crid topic "Topic_Subscriptions topic"]
  show ?case
    by (simp add: PubSubCluster_PubSubTopic_def)
qed

lemma init_pubsub_frame:
  assumes "init_pubsub s g st = Inr st'"
  shows "xids st \<le> xids st'
   \<and> (infra st')\<lparr>Infra_pubsubClusters := []\<rparr> = (infra st)\<lparr>Infra_pubsubClusters := []\<rparr>"
proof (cases "PubsubTopics (md g) = []")
  case True
  with assms show ?thesis by (auto simp: init_pubsub_def)
next
  case False
  with assms obtain pc where pc: "PubSubProviderConfig (infraManager g) = Inr pc"
    by (cases "PubSubProviderConfig (infraManager g)") (auto simp: init_pubsub_def)
  from assms False pc have "init_topics_loop s (''res_'' @ xid_New s (xids st)) (PubsubTopics (md g))
      (with_infra (Infra_PubSubCluster
         \<lparr>PubSubCluster_Rid = ''res_'' @ xid_New s (xids st), Nsq_Hosts = [NSQ_Host pc],
          PubSubCluster_Topics = [], PubSubCluster_Subscriptions = []\<rparr>)
         (st\<lparr>xids := Suc (xids st)\<rparr>)) = Inr st'"
    by (simp add: init_pubsub_def newRid_eq)
  from init_topics_loop_frame [OF this] show ?thesis
    by (simp add: Infra_PubSubCluster_def)
qed


lemma init_external_database_Inr:
  assumes "init_external_database s db externalDB st = Inr st'"
  obtains cs pCfg where
    "json_Unmarshal s externalDB = Inr cs" "pgx_ParseConfig s cs = Inr pCfg"
    "xids st' = xids st + 3"
    "infra st' = external_infra (rid_at s (xids st)) (rid_at s (Suc (xids st)))
                   (rid_at s (Suc (Suc (xids st)))) db pCfg (infra st)"
proof -
  from assms obtain cs where cs: "json_Unmarshal s externalDB = Inr cs"
    by (cases "json_Unmarshal s externalDB") (auto simp: init_external_database_def)
  from assms cs obtain pCfg where pc: "pgx_ParseConfig s cs = Inr pCfg"
    by (cases "pgx_ParseConfig s cs") (auto simp: init_external_database_def)
  from assms cs pc have
    "xids st' = xids st + 3"
    "infra st' = external_infra (rid_at s (xids st)) (rid_at s (Suc (xids st)))
                   (rid_at s (Suc (Suc (xids st)))) db pCfg (infra st)"
    by (auto simp: init_external_database_def newRid_eq Let_def external_infra_def rid_at_def)
  with cs pc that show thesis by blast
qed

lemma init_managed_database_Inr:
  assumes "init_managed_database s g crid db st = Inr st'"
  obtains dbConfig where
    "SQLDatabaseConfig (infraManager g) db = Inr dbConfig"
    "xids st' = xids st + 1"
    "infra st' = managed_infra crid (rid_at s (xids st)) dbConfig (infra st)"
proof -
  from assms obtain dbConfig where c: "SQLDatabaseConfig (infraManager g) db = Inr dbConfig"
    by (cases "SQLDatabaseConfig (infraManager g) db") (auto simp: init_managed_database_def)
  from assms c have
    "xids st' = xids st + 1"
    "infra st' = managed_infra crid (rid_at s (xids st)) dbConfig (infra st)"
    by (auto simp: init_managed_database_def newRid_eq Let_def managed_infra_def rid_at_def)
  with c that show thesis by blast
qed

lemma init_cache_cluster_Inr:
  assumes "init_cache_cluster s g cl st = Inr st'"
  obtains srvConfig dbConfig where
    "RedisConfig (infraManager g) cl = Inr (srvConfig, dbConfig)"
    "xids st' = xids st + 3"
    "infra st' = cache_infra (rid_at s (xids st)) (rid_at s (Suc (xids st)))
                   (rid_at s (Suc (Suc (xids st)))) srvConfig dbConfig (infra st)"
proof -
  from assms obtain srvConfig dbConfig
    where c: "RedisConfig (infraManager g) cl = Inr (srvConfig, dbConfig)"
    by (cases "RedisConfig (infraManager g) cl") (auto simp: init_cache_cluster_def)
  from assms c have
    "xids st' = xids st + 3"
    "infra st' = cache_infra (rid_at s (xids st)) (rid_at s (Suc (xids st)))
                   (rid_at s (Suc (Suc (xids st)))) srvConfig dbConfig (infra st)"
    by (auto simp: init_cache_cluster_def newRid_eq Let_def cache_infra_def rid_at_def)
  with c that show thesis by blast
qed

lemma external_infra_frame:
  "(external_infra crid srid drid db pCfg i)\<lparr>Infra_sqlClusters := [], Infra_sqlRoles := []\<rparr>
     = i\<lparr>Infra_sqlClusters := [], Infra_sqlRoles := []\<rparr>"
  by (simp add: external_infra_def SQLDatabase_AddConnectionPool_def SQLCluster_SQLDatabase_def
      Infra_SQLRole_def SQLCluster_SQLServer_def Infra_SQLCluster_def)

lemma managed_infra_frame:
  "(managed_infra crid drid dbConfig i)\<lparr>Infra_sqlClusters := [], Infra_sqlRoles := []\<rparr>
     = i\<lparr>Infra_sqlClusters := [], Infra_sqlRoles := []\<rparr>"
  by (simp add: managed_infra_def SQLDatabase_AddConnectionPool_def SQLCluster_SQLDatabase_def
      Infra_SQLRole_def)

lemma cache_infra_frame:
  "(cache_infra crid srid drid srvConfig dbConfig i)
      \<lparr>Infra_redisClusters := [], Infra_redisRoles := []\<rparr>
     = i\<lparr>Infra_redisClusters := [], Infra_redisRoles := []\<rparr>"
  by (simp add: cache_infra_def RedisDatabase_AddConnectionPool_def RedisCluster_RedisDatabase_def
      Infra_RedisRoleFn_def RedisCluster_RedisServer_def Infra_RedisCluster_def)

lemma init_database_frame:
  assumes "init_database s g crid db st = Inr st'"
  shows "xids st \<le> xids st'
    \<and> (infra st')\<lparr>Infra_sqlClusters := [], Infra_sqlRoles := []\<rparr>
        = (infra st)\<lparr>Infra_sqlClusters := [], Infra_sqlRoles := []\<rparr>"
proof (cases "map_of (DefinedSecrets g) (''sqldb::'' @ mSQLDatabase_Name db)")
  case None
  with assms have "init_managed_database s g crid db st = Inr st'"
    by (simp add: init_database_def)
  then show ?thesis
    by (elim init_managed_database_Inr) (simp add: managed_infra_frame)
next
  case (Some externalDB)
  with assms have "init_external_database s db externalDB st = Inr st'"
    by (simp add: init_database_def)
  then show ?thesis
    by (elim init_external_database_Inr) (simp add: external_infra_frame)
qed

lemma init_databases_loop_frame:
  "init_databases_loop s g crid dbs st = Inr st' \<Longrightarrow>
   xids st \<le> xids st'
    \<and> (infra st')\<lparr>Infra_sqlClusters := [], Infra_sqlRoles := []\<rparr>
        = (infra st)\<lparr>Infra_sqlClusters := [], Infra_sqlRoles := []\<rparr>"
proof (induction dbs arbitrary: st)
  case Nil
  then show ?case by auto
next
  case (Cons db dbs)
  from Cons.prems obtain st1 where
    step: "init_database s g crid db st = Inr st1"
    and rest: "init_databases_loop s g crid dbs st1 = Inr st'"
    by (cases "init_database s g crid db st") auto
  from init_database_frame [OF step] Cons.IH [OF rest] show ?case
    by simp
qed

lemma init_sql_Inr:
  assumes "init_sql s g st = Inr st'" and "SqlDatabases (md g) \<noteq> []"
  obtains srvConfig where
    "SQLServerConfig (infraManager g) = Inr srvConfig"
    "init_databases_loop s g (rid_at s (xids st)) (SqlDatabases (md g))
       (with_infra (SQLCluster_SQLServer (rid_at s (xids st))
          \<lparr>SQLServer_Rid = rid_at s (Suc (xids st)),
           SQLServer_Kind = SERVER_KIND_PRIMARY,
           SQLServer_Host = cSQLServer_Host srvConfig,
           SQLServer_TlsConfig =
             (if cSQLServer_ServerCACert srvConfig \<noteq> []
              then Some \<lparr>ServerCaCert = Some (cSQLServer_ServerCACert srvConfig),
                         DisableCaValidation = False\<rparr>
              else None)\<rparr>)
        (with_infra (Infra_SQLCluster
           \<lparr>SQLCluster_Rid = rid_at s (xids st), SQLCluster_Servers = [],
            SQLCluster_Databases = []\<rparr>) (st\<lparr>xids := Suc (Suc (xids st))\<rparr>))) = Inr st'"
proof -
  from assms obtain srvConfig where c: "SQLServerConfig (infraManager g) = Inr srvConfig"
    by (cases "SQLServerConfig (infraManager g)") (auto simp: init_sql_def)
  from assms c that [OF c] show thesis
    by (simp add: init_sql_def newRid_eq Let_def rid_at_def with_infra_def with_conf_def)
qed

lemma init_sql_frame:
  assumes "init_sql s g st = Inr st'"
  shows "xids st \<le> xids st'
    \<and> (infra st')\<lparr>Infra_sqlClusters := [], Infra_sqlRoles := []\<rparr>
        = (infra st)\<lparr>Infra_sqlClusters := [], Infra_sqlRoles := []\<rparr>"
proof (cases "SqlDatabases (md g) = []")
  case True
  with assms show ?thesis by (auto simp: init_sql_def)
next
  case False
  from assms False show ?thesis
  proof (rule init_sql_Inr)
    fix srvConfig
    assume "init_databases_loop s g (rid_at s (xids st)) (SqlDatabases (md g))
       (with_infra (SQLCluster_SQLServer (rid_at s (xids st))
          \<lparr>SQLServer_Rid = rid_at s (Suc (xids st)),
           SQLServer_Kind = SERVER_KIND_PRIMARY,
           SQLServer_Host = cSQLServer_Host srvConfig,
           SQLServer_TlsConfig =
             (if cSQLServer_ServerCACert srvConfig \<noteq> []
              then Some \<lparr>ServerCaCert = Some (cSQLServer_ServerCACert srvConfig),
                         DisableCaValidation = False\<rparr>
              else None)\<rparr>)
        (with_infra (Infra_SQLCluster
           \<lparr>SQLCluster_Rid = rid_at s (xids st), SQLCluster_Servers = [],
            SQLCluster_Databases = []\<rparr>) (st\<lparr>xids := Suc (Suc (xids st))\<rparr>))) = Inr st'"
    from init_databases_loop_frame [OF this] show ?thesis
      by (simp add: SQLCluster_SQLServer_def Infra_SQLCluster_def)
  qed
qed

lemma init_redis_loop_frame:
  "init_redis_loop s g cls st = Inr st' \<Longrightarrow>
   xids st \<le> xids st'
    \<and> (infra st')\<lparr>Infra_redisClusters := [], Infra_redisRoles := []\<rparr>
        = (infra st)\<lparr>Infra_redisClusters := [], Infra_redisRoles := []\<rparr>"
proof (induction cls arbitrary: st)
  case Nil
  then show ?case by auto
next
  case (Cons cl cls)
  from Cons.prems obtain st1 where
    step: "init_cache_cluster s g cl st = Inr st1"
    and rest: "init_redis_loop s g cls st1 = Inr st'"
    by (cases "init_cache_cluster s g cl st") auto
  from step Cons.IH [OF rest] show ?case
    by (elim init_cache_cluster_Inr) (simp add: cache_infra_frame)
qed

lemma init_redis_frame:
  "init_redis s g st = Inr st' \<Longrightarrow>
   xids st \<le> xids st'
    \<and> (infra st')\<lparr>Infra_redisClusters := [], Infra_redisRoles := []\<rparr>
        = (infra st)\<lparr>Infra_redisClusters := [], Infra_redisRoles := []\<rparr>"
  using init_redis_loop_frame [of s g "CacheClusters (md g)" st st']
  by (auto simp: init_redis_def split: if_splits)

lemma init_buckets_loop_frame:
  "xids st \<le> xids (init_buckets_loop s crid url bkts st)
   \<and> (infra (init_buckets_loop s crid url bkts st))\<lparr>Infra_bucketClusters := []\<rparr>
       = (infra st)\<lparr>Infra_bucketClusters := []\<rparr>"
proof (induction bkts arbitrary: st)
  case Nil
  then show ?case by auto
next
  case (Cons bkt bkts)
  let ?st1 = "with_infra (BucketCluster_Bucket crid
       \<lparr>Bucket_Rid = ''res_'' @ xid_New s (xids st),
        Bucket_EncoreName = mBucket_Name bkt,
        Bucket_CloudName = mBucket_Name bkt,
        PublicBaseUrl = (if mBucket_Public bkt then Some (url @ ''/'' @ mBucket_Name bkt)
                         else None)\<rparr>) (st\<lparr>xids := Suc (xids st)\<rparr>)"
  from Cons.IH [of ?st1] show ?case
    by (simp add: newRid_eq BucketCluster_Bucket_def)
qed

lemma init_buckets_frame:
  assumes "init_buckets s g st = Inr st'"
  shows "xids st \<le> xids st'
   \<and> (infra st')\<lparr>Infra_bucketClusters := []\<rparr> = (infra st)\<lparr>Infra_bucketClusters := []\<rparr>"
proof (cases "Buckets (md g) = []")
  case True
  with assms show ?thesis by (auto simp: init_buckets_def)
next
  case False
  with assms obtain cfg url where c: "BucketProviderConfig (infraManager g) = Inr (cfg, url)"
    by (cases "BucketProviderConfig (infraManager g)") (auto simp: init_buckets_def)
  let ?st1 = "with_infra (Infra_BucketCluster
       \<lparr>BucketCluster_Rid = ''res_'' @ xid_New s (xids st),
        Gcs_Endpoint = Some (GCS_Endpoint cfg), Gcs_Anonymous = True,
        Gcs_LocalSign =
          \<lparr>LocalSign_BaseUrl = url, LocalSign_AccessId = ''dummy-sa@encore.local'',
           LocalSign_PrivateKey = reverseString dummyPrivateKeyReversed\<rparr>,
        BucketCluster_Buckets = []\<rparr>) (st\<lparr>xids := Suc (xids st)\<rparr>)"
  from assms False c have
    "st' = init_buckets_loop s (''res_'' @ xid_New s (xids st)) url (Buckets (md g)) ?st1"
    by (simp add: init_buckets_def newRid_eq)
  with init_buckets_loop_frame [of ?st1 s "''res_'' @ xid_New s (xids st)" url "Buckets (md g)"]
  show ?thesis
    by (simp add: Infra_BucketCluster_def)
qed

lemma init_secrets_loop_frame:
  "xids st \<le> xids (init_secrets_loop s secrets st)
   \<and> (infra (init_secrets_loop s secrets st))\<lparr>Infra_appSecrets := []\<rparr>
       = (infra st)\<lparr>Infra_appSecrets := []\<rparr>"
proof (induction secrets arbitrary: st)
  case Nil
  then show ?case by auto
next
  case (Cons sec secrets)
  obtain name val where sec: "sec = (name, val)" by (cases sec)
  let ?st1 = "with_infra (Infra_AppSecret
       \<lparr>AppSecret_Rid = ''res_'' @ xid_New s (xids st), AppSecret_EncoreName = name,
        AppSecret_Data = toSecret val\<rparr>) (st\<lparr>xids := Suc (xids st)\<rparr>)"
  from Cons.IH [of ?st1] show ?case
    by (simp add: sec newRid_eq Infra_AppSecret_def)
qed

lemma initialize_body_fields:
  assumes "initialize_body s g st = Inr st'"
  obtains st0 st1 st2 st3 st4 where
    "init_gateways_loop s g (mGateways (md g)) st0 = Inr st1"
    "init_pubsub s g st1 = Inr st2"
    "init_sql s g st2 = Inr st3"
    "init_redis s g st3 = Inr st4"
    "Infra_gateways (infra st0) = []"
    "Infra_pubsubClusters (infra st1) = []"
    "Infra_sqlClusters (infra st2) = []" "Infra_sqlRoles (infra st2) = []"
    "Infra_redisClusters (infra st3) = []" "Infra_redisRoles (infra st3) = []"
    "Infra_gateways (infra st') = Infra_gateways (infra st1)"
    "Infra_pubsubClusters (infra st') = Infra_pubsubClusters (infra st2)"
    "Infra_sqlClusters (infra st') = Infra_sqlClusters (infra st3)"
    "Infra_sqlRoles (infra st') = Infra_sqlRoles (infra st3)"
    "Infra_redisClusters (infra st') = Infra_redisClusters (infra st4)"
    "Infra_redisRoles (infra st') = Infra_redisRoles (infra st4)"
    "xids st1 \<le> xids st'" "xids st2 \<le> xids st'" "xids st3 \<le> xids st'" "xids st4 \<le> xids st'"
proof -
  from assms obtain appFile st0 st1 st2 st3 st4 st5 where
    i0: "infra st0 = Builder_Infra NewBuilder"
    and gw: "init_gateways_loop s g (mGateways (md g)) st0 = Inr st1"
    and ps: "init_pubsub s g st1 = Inr st2"
    and sq: "init_sql s g st2 = Inr st3"
    and rd: "init_redis s g st3 = Inr st4"
    and bk: "init_buckets s g st4 = Inr st5"
    and sc: "st' = init_secrets_loop s (DefinedSecrets g) st5"
    by (rule initialize_body_stages)
  note f1 = init_gateways_loop_frame [OF gw, THEN conjunct2]
  note f2 = init_pubsub_frame [OF ps, THEN conjunct2]
  note f3 = init_sql_frame [OF sq, THEN conjunct2]
  note f4 = init_redis_frame [OF rd, THEN conjunct2]
  note f5 = init_buckets_frame [OF bk, THEN conjunct2]
  note f6 = init_secrets_loop_frame [of st5 s "DefinedSecrets g", THEN conjunct2, folded sc]
  have e0: "Infra_gateways (infra st0) = []" "Infra_pubsubClusters (infra st0) = []"
    "Infra_sqlClusters (infra st0) = []" "Infra_sqlRoles (infra st0) = []"
    "Infra_redisClusters (infra st0) = []" "Infra_redisRoles (infra st0) = []"
    by (simp_all add: i0 NewBuilder_def)
  have g1: "Infra_pubsubClusters (infra st1) = Infra_pubsubClusters (infra st0)"
    "Infra_sqlClusters (infra st1) = Infra_sqlClusters (infra st0)"
    "Infra_sqlRoles (infra st1) = Infra_sqlRoles (infra st0)"
    "Infra_redisClusters (infra st1) = Infra_redisClusters (infra st0)"
    "Infra_redisRoles (infra st1) = Infra_redisRoles (infra st0)"
    using f1 [THEN arg_cong, of Infra_pubsubClusters] f1 [THEN arg_cong, of Infra_sqlClusters]
      f1 [THEN arg_cong, of Infra_sqlRoles] f1 [THEN arg_cong, of Infra_redisClusters]
      f1 [THEN arg_cong, of Infra_redisRoles]
    by simp_all
  have g2: "Infra_gateways (infra st2) = Infra_gateways (infra st1)"
    "Infra_sqlClusters (infra st2) = Infra_sqlClusters (infra st1)"
    "Infra_sqlRoles (infra st2) = Infra_sqlRoles (infra st1)"
    "Infra_redisClusters (infra st2) = Infra_redisClusters (infra st1)"
    "Infra_redisRoles (infra st2) = Infra_redisRoles (infra st1)"
    using f2 [THEN arg_cong, of Infra_gateways] f2 [THEN arg_cong, of Infra_sqlClusters]
      f2 [THEN arg_cong, of Infra_sqlRoles] f2 [THEN arg_cong, of Infra_redisClusters]
      f2 [THEN arg_cong, of Infra_redisRoles]
    by simp_all
  have g3: "Infra_gateways (infra st3) = Infra_gateways (infra st2)"
    "Infra_pubsubClusters (infra st3) = Infra_pubsubClusters (infra st2)"
    "Infra_redisClusters (infra st3) = Infra_redisClusters (infra st2)"
    "Infra_redisRoles (infra st3) = Infra_redisRoles (infra st2)"
    using f3 [THEN arg_cong, of Infra_gateways] f3 [THEN arg_cong, of Infra_pubsubClusters]
      f3 [THEN arg_cong, of Infra_redisClusters] f3 [THEN arg_cong, of Infra_redisRoles]
    by simp_all
  have g4: "Infra_gateways (infra st4) = Infra_gateways (infra st3)"
    "Infra_pubsubClusters (infra st4) = Infra_pubsubClusters (infra st3)"
    "Infra_sqlClusters (infra st4) = Infra_sqlClusters (infra st3)"
    "Infra_sqlRoles (infra st4) = Infra_sqlRoles (infra st3)"
    using f4 [THEN arg_cong, of Infra_gateways] f4 [THEN arg_cong, of Infra_pubsubClusters]
      f4 [THEN arg_cong, of Infra_sqlClusters] f4 [THEN arg_cong, of Infra_sqlRoles]
    by simp_all
  have g5: "Infra_gateways (infra st5) = Infra_gateways (infra st4)"
    "Infra_pubsubClusters (infra st5) = Infra_pubsubClusters (infra st4)"
    "Infra_sqlClusters (infra st5) = Infra_sqlClusters (infra st4)"
    "Infra_sqlRoles (infra st5) = Infra_sqlRoles (infra st4)"
    "Infra_redisClusters (infra st5) = Infra_redisClusters (infra st4)"
    "Infra_redisRoles (infra st5) = Infra_redisRoles (infra st4)"
    using f5 [THEN arg_cong, of Infra_gateways] f5 [THEN arg_cong, of Infra_pubsubClusters]
      f5 [THEN arg_cong, of Infra_sqlClusters] f5 [THEN arg_cong, of Infra_sqlRoles]
      f5 [THEN arg_cong, of Infra_redisClusters] f5 [THEN arg_cong, of Infra_redisRoles]
    by simp_all
  have g6: "Infra_gateways (infra st') = Infra_gateways (infra st5)"
    "Infra_pubsubClusters (infra st') = Infra_pubsubClusters (infra st5)"
    "Infra_sqlClusters (infra st') = Infra_sqlClusters (infra st5)"
    "Infra_sqlRoles (infra st') = Infra_sqlRoles (infra st5)"
    "Infra_redisClusters (infra st') = Infra_redisClusters (infra st5)"
    "Infra_redisRoles (infra st') = Infra_redisRoles (infra st5)"
    using f6 [THEN arg_cong, of Infra_gateways] f6 [THEN arg_cong, of Infra_pubsubClusters]
      f6 [THEN arg_cong, of Infra_sqlClusters] f6 [THEN arg_cong, of Infra_sqlRoles]
      f6 [THEN arg_cong, of Infra_redisClusters] f6 [THEN arg_cong, of Infra_redisRoles]
    by simp_all
  have x: "xids st1 \<le> xids st2" "xids st2 \<le> xids st3" "xids st3 \<le> xids st4"
    "xids st4 \<le> xids st5" "xids st5 \<le> xids st'"
    using init_pubsub_frame [OF ps] init_sql_frame [OF sq] init_redis_frame [OF rd]
      init_buckets_frame [OF bk] init_secrets_loop_frame [of st5 s "DefinedSecrets g"] sc
    by simp_all
  show thesis
  proof (rule that [OF gw ps sq rd])
    show "xids st1 \<le> xids st'" "xids st2 \<le> xids st'" "xids st3 \<le> xids st'"
      "xids st4 \<le> xids st'"
      using x by simp_all
  qed (simp_all add: e0 g1 g2 g3 g4 g5 g6)
qed

subsection \<open>Gateways\<close>

lemma getOrCreate_fresh: "rid x \<notin> rid ` set xs \<Longrightarrow> getOrCreate rid x xs = xs @ [x]"
  by (simp add: getOrCreate_def)

lemma rid_at_eq_iff: "rid_at s j = rid_at s k \<longleftrightarrow> xid_New s j = xid_New s k"
  by (simp add: rid_at_def)

lemma rid_at_fresh:
  assumes "inj_on (xid_New s) {..<n}" and "k < n" and "R \<subseteq> rid_at s ` {..<k}"
  shows "rid_at s k \<notin> R"
proof
  assume "rid_at s k \<in> R"
  with assms(3) obtain j where j: "j < k" "rid_at s k = rid_at s j" by auto
  with assms(1,2) have "k = j"
    by (auto simp: rid_at_eq_iff dest!: inj_onD [of "xid_New s" "{..<n}" k j])
  with j show False by simp
qed

lemma init_gateways_loop_result:
  assumes "init_gateways_loop s g gws st = Inr st'"
    and "inj_on (xid_New s) {..<xids st'}"
    and "Gateway_Rid ` set (Infra_gateways (infra st)) \<subseteq> rid_at s ` {..<xids st}"
  shows "\<exists>cors. (gws = [] \<or> GlobalCORS (app g) = Inr cors)
         \<and> map (\<lambda>gw. (Gateway_EncoreName gw, Gateway_Cors gw)) (Infra_gateways (infra st'))
             = map (\<lambda>gw. (Gateway_EncoreName gw, Gateway_Cors gw)) (Infra_gateways (infra st))
               @ map (\<lambda>gw. (mGateway_EncoreName gw, gateway_cors cors)) gws"
  using assms
proof (induction gws arbitrary: st)
  case Nil
  then show ?case by simp
next
  case (Cons gw gws)
  from Cons.prems(1) obtain cors where cors: "GlobalCORS (app g) = Inr cors"
    by (cases "GlobalCORS (app g)") auto
  let ?gw = "\<lparr>Gateway_Rid = rid_at s (xids st),
       Gateway_EncoreName = mGateway_EncoreName gw,
       Gateway_BaseUrl = BaseURL (GatewayConfig_of g (mGateway_EncoreName gw)),
       Gateway_Hostnames = Hostnames (GatewayConfig_of g (mGateway_EncoreName gw)),
       Gateway_Cors = gateway_cors cors\<rparr>"
  let ?st1 = "with_infra (Infra_Gateway ?gw) (st\<lparr>xids := Suc (xids st)\<rparr>)"
  from Cons.prems(1) cors have rest: "init_gateways_loop s g gws ?st1 = Inr st'"
    by (simp add: newRid_eq rid_at_def)
  from init_gateways_loop_frame [OF rest] have lt: "xids st < xids st'"
    by simp
  from rid_at_fresh [OF Cons.prems(2) lt Cons.prems(3)]
  have gws1: "Infra_gateways (Infra_Gateway ?gw (infra st)) = Infra_gateways (infra st) @ [?gw]"
    by (simp add: Infra_Gateway_def getOrCreate_fresh)
  have "Gateway_Rid ` set (Infra_gateways (infra ?st1)) \<subseteq> rid_at s ` {..<xids ?st1}"
    using Cons.prems(3) by (auto simp: gws1 lessThan_Suc)
  from Cons.IH [OF rest Cons.prems(2) this] cors show ?case
    by (auto simp: gws1)
qed

lemma gateways_of_initialize:
  assumes "initialize_body s g st = Inr st'"
    and "inj_on (xid_New s) {..<xids st'}"
  shows "\<exists>cors. (mGateways (md g) = [] \<or> GlobalCORS (app g) = Inr cors)
    \<and> map (\<lambda>gw. (Gateway_EncoreName gw, Gateway_Cors gw)) (Infra_gateways (infra st'))
        = map (\<lambda>gw. (mGateway_EncoreName gw, gateway_cors cors)) (mGateways (md g))"
proof -
  from assms(1) obtain st0 st1 where
    gw: "init_gateways_loop s g (mGateways (md g)) st0 = Inr st1"
    and e0: "Infra_gateways (infra st0) = []"
    and fin: "Infra_gateways (infra st') = Infra_gateways (infra st1)"
    and le: "xids st1 \<le> xids st'"
    by (rule initialize_body_fields)
  from assms(2) le have "inj_on (xid_New s) {..<xids st1}"
    by (auto intro: inj_on_subset)
  from init_gateways_loop_result [OF gw this] e0 fin show ?thesis
    by simp
qed

lemma demo_xid_nth: "j < 20 \<Longrightarrow> demo_xid k ! j = (if j < k then CHR ''1'' else CHR ''0'')"
  by (simp add: demo_xid_def nth_append)

lemma demo_xid_inj: "inj_on demo_xid {..<21}"
proof (rule inj_onI)
  fix j k :: nat
  assume j: "j \<in> {..<21}" and k: "k \<in> {..<21}" and eq: "demo_xid j = demo_xid k"
  show "j = k"
  proof (rule ccontr)
    assume ne: "j \<noteq> k"
    define m where "m = min j k"
    from ne j k have m: "m < 20" "(m < j) \<noteq> (m < k)"
      by (auto simp: m_def min_def)
    from demo_xid_nth [OF m(1), of j] demo_xid_nth [OF m(1), of k] m(2)
    have "demo_xid j ! m \<noteq> demo_xid k ! m"
      by auto
    with eq show False by simp
  qed
qed

lemma demo_xid_length: "k \<le> 20 \<Longrightarrow> length (demo_xid k) = 20"
  by (simp add: demo_xid_def)

lemma demo_initialize:
  "\<exists>st. initialize_body demo_sys (demo_gen PubSubTopic_AT_LEAST_ONCE) demo_state = Inr st
      \<and> xids st = 18"
  by (simp add: init_unfold demo_unfold)

section \<open>The CORS policy of the gateways\<close>

lemma demo_gateways:
  "\<exists>st. initialize_body demo_sys (demo_gen PubSubTopic_AT_LEAST_ONCE) demo_state = Inr st
     \<and> map (\<lambda>gw. (Gateway_EncoreName gw, Gateway_Cors gw)) (Infra_gateways (infra st))
         = [(''api'', gateway_cors demo_cors)]"
proof -
  let ?g = "demo_gen PubSubTopic_AT_LEAST_ONCE"
  from demo_initialize obtain st where
    st: "initialize_body demo_sys ?g demo_state = Inr st" "xids st = 18"
    by auto
  have "inj_on (xid_New demo_sys) {..<xids st}"
    using demo_xid_inj by (auto simp: st(2) demo_sys_def intro: inj_on_subset)
  from gateways_of_initialize [OF st(1) this]
  have m: "map (\<lambda>gw. (Gateway_EncoreName gw, Gateway_Cors gw)) (Infra_gateways (infra st))
      = [(''api'', gateway_cors demo_cors)]"
    by (simp add: demo_gen_def demo_md_def demo_app_def)
  show ?thesis
  proof (intro exI conjI)
    show "initialize_body demo_sys ?g demo_state = Inr st" by (fact st(1))
    show "map (\<lambda>gw. (Gateway_EncoreName gw, Gateway_Cors gw)) (Infra_gateways (infra st))
      = [(''api'', gateway_cors demo_cors)]" by (fact m)
  qed
qed

text \<open>
  Claim C1 as stated fails: the application file of the concrete application lists an
  explicit origin that may send credentials, and the policy of its gateway is nevertheless
  the unsafe mode that allows all origins with credentials; the listed origin is not in it.
\<close>

theorem gateway_cors_unsafe_despite_origins:
  "map_sum id
     (\<lambda>st. map (\<lambda>gw. (Gateway_EncoreName gw, AllowedOriginsWithCredentials (Gateway_Cors gw)))
              (Infra_gateways (infra st)))
     (initialize_body demo_sys (demo_gen PubSubTopic_AT_LEAST_ONCE) demo_state)
   = Inr [(''api'', Gateway_CORS_UnsafeAllowAllOriginsWithCredentials True)]
   \<and> map_sum id CORS_AllowOriginsWithCredentials
       (GlobalCORS (app (demo_gen PubSubTopic_AT_LEAST_ONCE)))
     = Inr [''https://app.example.com'']"
proof -
  from demo_gateways obtain st where
    "initialize_body demo_sys (demo_gen PubSubTopic_AT_LEAST_ONCE) demo_state = Inr st"
    "map (\<lambda>gw. (Gateway_EncoreName gw, Gateway_Cors gw)) (Infra_gateways (infra st))
       = [(''api'', gateway_cors demo_cors)]"
    by auto
  then show ?thesis
    by (auto simp: gateway_cors_def demo_gen_def demo_app_def demo_cors_def)
qed

text \<open>
  Claim C1, as the code has it. When the initialization succeeds and the identifiers it drew
  are distinct, the graph holds exactly one gateway for each declared gateway, in order, and
  its one CORS policy takes the debug flag and the extra allowed and exposed headers from the
  result of \<^verbatim>\<open>GlobalCORS\<close>. Whatever origins that declaration lists, the policy allows all
  origins with credentials (the unsafe mode), the origin \<^verbatim>\<open>*\<close> without credentials, and
  private network access.
\<close>

theorem initialize_gateway_cors:
  assumes "initialize_body s g st = Inr st'"
    and "inj_on (xid_New s) {..<xids st'}"
  shows "\<exists>cors. (mGateways (md g) = [] \<or> GlobalCORS (app g) = Inr cors)
    \<and> map (\<lambda>gw. (Gateway_EncoreName gw, Gateway_Cors gw)) (Infra_gateways (infra st'))
        = map (\<lambda>gw. (mGateway_EncoreName gw,
                 \<lparr>Debug = CORS_Debug cors,
                  DisableCredentials = False,
                  ExtraAllowedHeaders = CORS_AllowHeaders cors,
                  ExtraExposedHeaders = CORS_ExposeHeaders cors,
                  AllowedOriginsWithCredentials =
                    Gateway_CORS_UnsafeAllowAllOriginsWithCredentials True,
                  AllowedOriginsWithoutCredentials = Some [''*''],
                  AllowPrivateNetworkAccess = True\<rparr>)) (mGateways (md g))"
  using gateways_of_initialize [OF assms] by (simp add: gateway_cors_def)

theorem initialize_gateway_cors_witness:
  "map_sum id
     (\<lambda>st. map (\<lambda>gw. (Gateway_EncoreName gw, Gateway_Cors gw)) (Infra_gateways (infra st)))
     (initialize_body demo_sys (demo_gen PubSubTopic_AT_LEAST_ONCE) demo_state)
   = Inr [(''api'',
           \<lparr>Debug = False, DisableCredentials = False, ExtraAllowedHeaders = [''X-Trace''],
            ExtraExposedHeaders = [],
            AllowedOriginsWithCredentials =
              Gateway_CORS_UnsafeAllowAllOriginsWithCredentials True,
            AllowedOriginsWithoutCredentials = Some [''*''],
            AllowPrivateNetworkAccess = True\<rparr>)]
   \<and> inj_on (xid_New demo_sys) {..<18}"
proof -
  let ?g = "demo_gen PubSubTopic_AT_LEAST_ONCE"
  from demo_initialize obtain st where
    st: "initialize_body demo_sys ?g demo_state = Inr st" "xids st = 18"
    by auto
  have inj: "inj_on (xid_New demo_sys) {..<18}"
    using demo_xid_inj by (auto simp: demo_sys_def intro: inj_on_subset)
  then have inj': "inj_on (xid_New demo_sys) {..<xids st}"
    by (simp add: st(2))
  from initialize_gateway_cors [OF st(1) inj']
  have "map (\<lambda>gw. (Gateway_EncoreName gw, Gateway_Cors gw)) (Infra_gateways (infra st))
      = [(''api'',
           \<lparr>Debug = False, DisableCredentials = False, ExtraAllowedHeaders = [''X-Trace''],
            ExtraExposedHeaders = [],
            AllowedOriginsWithCredentials =
              Gateway_CORS_UnsafeAllowAllOriginsWithCredentials True,
            AllowedOriginsWithoutCredentials = Some [''*''],
            AllowPrivateNetworkAccess = True\<rparr>)]"
    by (simp add: demo_gen_def demo_md_def demo_app_def demo_cors_def)
  with st(1) inj show ?thesis by simp
qed


section \<open>The delivery guarantee of the topics\<close>

lemma init_subscriptions_loop_cluster:
  assumes "Infra_pubsubClusters (infra st) = [c]" and "PubSubCluster_Rid c = crid"
  shows "\<exists>c'. Infra_pubsubClusters (infra (init_subscriptions_loop s crid topic subs st)) = [c']
      \<and> PubSubCluster_Rid c' = crid \<and> PubSubCluster_Topics c' = PubSubCluster_Topics c"
  using assms
proof (induction subs arbitrary: st c)
  case Nil
  then show ?case by simp
next
  case (Cons sub subs)
  let ?sub = "\<lparr>PubSubSubscription_Rid = ''res_'' @ xid_New s (xids st),
        TopicEncoreName = Topic_Name topic,
        SubscriptionEncoreName = Subscription_Name sub,
        TopicCloudName = Topic_Name topic,
        SubscriptionCloudName = Subscription_Name sub,
        PushOnly = False\<rparr>"
  let ?st1 = "with_infra (PubSubCluster_PubSubSubscription crid ?sub) (st\<lparr>xids := Suc (xids st)\<rparr>)"
  let ?c1 = "c\<lparr>PubSubCluster_Subscriptions :=
                getOrCreate PubSubSubscription_Rid ?sub (PubSubCluster_Subscriptions c)\<rparr>"
  have c1: "Infra_pubsubClusters (infra ?st1) = [?c1]"
    using Cons.prems by (simp add: PubSubCluster_PubSubSubscription_def update_where_def)
  have "PubSubCluster_Rid ?c1 = crid"
    using Cons.prems by simp
  from Cons.IH [OF c1 this] show ?case
    by (simp add: newRid_eq)
qed

lemma init_topics_loop_recognized:
  "init_topics_loop s crid topics st = Inr st' \<Longrightarrow>
   \<forall>t \<in> set topics.
     Topic_DeliveryGuarantee t \<in> {PubSubTopic_AT_LEAST_ONCE, PubSubTopic_EXACTLY_ONCE}"
proof (induction topics arbitrary: st)
  case Nil
  then show ?case by simp
next
  case (Cons topic topics)
  from Cons.prems obtain st1 where
    ok: "Topic_DeliveryGuarantee topic \<in> {PubSubTopic_AT_LEAST_ONCE, PubSubTopic_EXACTLY_ONCE}"
    and rest: "init_topics_loop s crid topics st1 = Inr st'"
    by (cases "Topic_DeliveryGuarantee topic") (auto simp: newRid_eq)
  from Cons.IH [OF rest] ok show ?case by simp
qed

lemma init_topics_loop_unknown:
  assumes "\<forall>t \<in> set ts1.
      Topic_DeliveryGuarantee t \<in> {PubSubTopic_AT_LEAST_ONCE, PubSubTopic_EXACTLY_ONCE}"
    and "Topic_DeliveryGuarantee t = PubSubTopic_unrecognized n"
  shows "init_topics_loop s crid (ts1 @ t # ts2) st
     = Inl (Newf ''unknown delivery guarantee %q'' (PubSubTopic_unrecognized n))"
  using assms
proof (induction ts1 arbitrary: st)
  case Nil
  then show ?case by (simp add: newRid_eq)
next
  case (Cons a ts1)
  then show ?case
    by (cases "Topic_DeliveryGuarantee a") (auto simp: newRid_eq)
qed

lemma init_topics_loop_result:
  assumes "init_topics_loop s crid topics st = Inr st'"
    and "inj_on (xid_New s) {..<xids st'}"
    and "Infra_pubsubClusters (infra st) = [c]" and "PubSubCluster_Rid c = crid"
    and "PubSubTopic_Rid ` set (PubSubCluster_Topics c) \<subseteq> rid_at s ` {..<xids st}"
  shows "\<exists>c'. Infra_pubsubClusters (infra st') = [c'] \<and> PubSubCluster_Rid c' = crid
    \<and> map (\<lambda>t. (PubSubTopic_EncoreName t, PubSubTopic_DeliveryGuarantee t))
          (PubSubCluster_Topics c')
        = map (\<lambda>t. (PubSubTopic_EncoreName t, PubSubTopic_DeliveryGuarantee t))
            (PubSubCluster_Topics c)
          @ map (\<lambda>t. (Topic_Name t,
                   if Topic_DeliveryGuarantee t = PubSubTopic_AT_LEAST_ONCE
                   then DELIVERY_GUARANTEE_AT_LEAST_ONCE
                   else DELIVERY_GUARANTEE_EXACTLY_ONCE)) topics"
  using assms
proof (induction topics arbitrary: st c)
  case Nil
  then show ?case by simp
next
  case (Cons topic topics)
  from Cons.prems(1) obtain dg where
    dg: "deliveryGuarantee_switch (Topic_DeliveryGuarantee topic) = Inr dg"
    by (cases "deliveryGuarantee_switch (Topic_DeliveryGuarantee topic)") (auto simp: newRid_eq)
  then have dg_eq: "dg = (if Topic_DeliveryGuarantee topic = PubSubTopic_AT_LEAST_ONCE
                          then DELIVERY_GUARANTEE_AT_LEAST_ONCE
                          else DELIVERY_GUARANTEE_EXACTLY_ONCE)"
    by (cases "Topic_DeliveryGuarantee topic") auto
  let ?t = "\<lparr>PubSubTopic_Rid = rid_at s (xids st),
        PubSubTopic_EncoreName = Topic_Name topic,
        PubSubTopic_CloudName = Topic_Name topic,
        PubSubTopic_DeliveryGuarantee = dg,
        PubSubTopic_OrderingAttr = ptrOrNil (Topic_OrderingKey topic)\<rparr>"
  let ?st1 = "with_infra (PubSubCluster_PubSubTopic crid ?t) (st\<lparr>xids := Suc (xids st)\<rparr>)"
  let ?st2 = "init_subscriptions_loop s crid topic (Topic_Subscriptions topic) ?st1"
  from Cons.prems(1) dg have rest: "init_topics_loop s crid topics ?st2 = Inr st'"
    by (simp add: newRid_eq rid_at_def)
  have le2: "Suc (xids st) \<le> xids ?st2"
    using init_subscriptions_loop_frame [of ?st1 s crid topic "Topic_Subscriptions topic"]
    by simp
  with init_topics_loop_frame [OF rest] have lt: "xids st < xids st'"
    by simp
  let ?c1 = "c\<lparr>PubSubCluster_Topics := PubSubCluster_Topics c @ [?t]\<rparr>"
  from rid_at_fresh [OF Cons.prems(2) lt Cons.prems(5)]
  have c1: "Infra_pubsubClusters (infra ?st1) = [?c1]"
    using Cons.prems(3,4)
    by (simp add: PubSubCluster_PubSubTopic_def update_where_def getOrCreate_fresh)
  have rid1: "PubSubCluster_Rid ?c1 = crid"
    using Cons.prems(4) by simp
  from init_subscriptions_loop_cluster [OF c1 rid1, of s topic "Topic_Subscriptions topic"]
  obtain c2 where c2: "Infra_pubsubClusters (infra ?st2) = [c2]" "PubSubCluster_Rid c2 = crid"
    "PubSubCluster_Topics c2 = PubSubCluster_Topics c @ [?t]"
    by auto
  have "PubSubTopic_Rid ` set (PubSubCluster_Topics c2) \<subseteq> rid_at s ` {..<xids ?st2}"
  proof -
    have "PubSubTopic_Rid ` set (PubSubCluster_Topics c2) \<subseteq> rid_at s ` {..<Suc (xids st)}"
      using Cons.prems(5) by (auto simp: c2(3) lessThan_Suc)
    also have "\<dots> \<subseteq> rid_at s ` {..<xids ?st2}"
      using le2 by (intro image_mono) auto
    finally show ?thesis .
  qed
  from Cons.IH [OF rest Cons.prems(2) c2(1,2) this] show ?case
    by (simp add: c2(3) dg_eq)
qed

lemma init_gateways_loop_total:
  "gws = [] \<or> GlobalCORS (app g) = Inr cors \<Longrightarrow> \<exists>st'. init_gateways_loop s g gws st = Inr st'"
  by (induction gws arbitrary: st) (auto simp: newRid_eq)

lemma topics_of_initialize:
  assumes "initialize_body s g st = Inr st'"
    and "inj_on (xid_New s) {..<xids st'}"
    and "PubsubTopics (md g) \<noteq> []"
  shows "\<exists>c. Infra_pubsubClusters (infra st') = [c]
    \<and> map (\<lambda>t. (PubSubTopic_EncoreName t, PubSubTopic_DeliveryGuarantee t))
          (PubSubCluster_Topics c)
        = map (\<lambda>t. (Topic_Name t,
                 if Topic_DeliveryGuarantee t = PubSubTopic_AT_LEAST_ONCE
                 then DELIVERY_GUARANTEE_AT_LEAST_ONCE
                 else DELIVERY_GUARANTEE_EXACTLY_ONCE)) (PubsubTopics (md g))"
proof -
  from assms(1) obtain st1 st2 where
    ps: "init_pubsub s g st1 = Inr st2"
    and e1: "Infra_pubsubClusters (infra st1) = []"
    and fin: "Infra_pubsubClusters (infra st') = Infra_pubsubClusters (infra st2)"
    and le: "xids st2 \<le> xids st'"
    by (rule initialize_body_fields)
  from assms(2) le have inj: "inj_on (xid_New s) {..<xids st2}"
    by (auto intro: inj_on_subset)
  from ps assms(3) obtain pc where pc: "PubSubProviderConfig (infraManager g) = Inr pc"
    by (cases "PubSubProviderConfig (infraManager g)") (auto simp: init_pubsub_def)
  let ?c = "\<lparr>PubSubCluster_Rid = rid_at s (xids st1), Nsq_Hosts = [NSQ_Host pc],
            PubSubCluster_Topics = [], PubSubCluster_Subscriptions = []\<rparr>"
  let ?st = "with_infra (Infra_PubSubCluster ?c) (st1\<lparr>xids := Suc (xids st1)\<rparr>)"
  from ps assms(3) pc have
    loop: "init_topics_loop s (rid_at s (xids st1)) (PubsubTopics (md g)) ?st = Inr st2"
    by (simp add: init_pubsub_def newRid_eq rid_at_def)
  have c: "Infra_pubsubClusters (infra ?st) = [?c]"
    by (simp add: Infra_PubSubCluster_def getOrCreate_def e1)
  from init_topics_loop_result [OF loop inj c] fin show ?thesis
    by auto
qed

lemma initialize_body_unknown_guarantee:
  assumes "PubsubTopics (md g) = ts1 @ t # ts2"
    and "\<forall>t' \<in> set ts1.
      Topic_DeliveryGuarantee t' \<in> {PubSubTopic_AT_LEAST_ONCE, PubSubTopic_EXACTLY_ONCE}"
    and "Topic_DeliveryGuarantee t = PubSubTopic_unrecognized n"
    and "AppFile (app g) = Inr appFile"
    and "mGateways (md g) = [] \<or> GlobalCORS (app g) = Inr cors"
    and "PubSubProviderConfig (infraManager g) = Inr pc"
  shows "initialize_body s g st
     = Inl (Newf ''unknown delivery guarantee %q'' (PubSubTopic_unrecognized n))"
proof -
  let ?st0 = "init_defaults (init_services_loop appFile (Svcs (md g))
                (init_tracing s g (init_env s g st)))"
  from init_gateways_loop_total [OF assms(5), of s ?st0] obtain st1 where
    gw: "init_gateways_loop s g (mGateways (md g)) ?st0 = Inr st1"
    by blast
  have "init_pubsub s g st1
      = Inl (Newf ''unknown delivery guarantee %q'' (PubSubTopic_unrecognized n))"
    using assms(1,6) init_topics_loop_unknown [OF assms(2,3)]
    by (simp add: init_pubsub_def newRid_eq)
  with gw assms(4) show ?thesis
    by (simp add: initialize_body_def Let_def)
qed

lemma initialize_body_recognized:
  assumes "initialize_body s g st = Inr st'"
  shows "\<forall>t \<in> set (PubsubTopics (md g)).
     Topic_DeliveryGuarantee t \<in> {PubSubTopic_AT_LEAST_ONCE, PubSubTopic_EXACTLY_ONCE}"
proof (cases "PubsubTopics (md g) = []")
  case True
  then show ?thesis by simp
next
  case False
  from assms obtain st1 st2 where ps: "init_pubsub s g st1 = Inr st2"
    by (rule initialize_body_fields)
  from ps False obtain pc where pc: "PubSubProviderConfig (infraManager g) = Inr pc"
    by (cases "PubSubProviderConfig (infraManager g)") (auto simp: init_pubsub_def)
  from ps False pc obtain crid st0 where
    "init_topics_loop s crid (PubsubTopics (md g)) st0 = Inr st2"
    by (auto simp: init_pubsub_def newRid_eq)
  then show ?thesis
    by (rule init_topics_loop_recognized)
qed

text \<open>
  Claim C5. When the initialization succeeds (and the identifiers it drew are distinct), the
  one pub/sub cluster holds the declared topics in order, a topic declared \<^verbatim>\<open>AT_LEAST_ONCE\<close>
  with the at-least-once value and a topic declared \<^verbatim>\<open>EXACTLY_ONCE\<close> with the exactly-once
  value, and no topic has another guarantee. When some topic has another guarantee, the
  initialization returns an error; when the application file, the CORS declaration and the
  pub/sub provider are available, so that the topics are reached, that error is
  \<^verbatim>\<open>unknown delivery guarantee %q\<close> with the guarantee of the first such topic.
\<close>

theorem initialize_delivery_guarantee:
  "(initialize_body s g st = Inr st' \<and> inj_on (xid_New s) {..<xids st'}
      \<and> PubsubTopics (md g) \<noteq> [] \<longrightarrow>
      (\<exists>c. Infra_pubsubClusters (infra st') = [c]
         \<and> map (\<lambda>t. (PubSubTopic_EncoreName t, PubSubTopic_DeliveryGuarantee t))
               (PubSubCluster_Topics c)
             = map (\<lambda>t. (Topic_Name t,
                      if Topic_DeliveryGuarantee t = PubSubTopic_AT_LEAST_ONCE
                      then DELIVERY_GUARANTEE_AT_LEAST_ONCE
                      else DELIVERY_GUARANTEE_EXACTLY_ONCE)) (PubsubTopics (md g)))
      \<and> (\<forall>t \<in> set (PubsubTopics (md g)).
            Topic_DeliveryGuarantee t \<in> {PubSubTopic_AT_LEAST_ONCE, PubSubTopic_EXACTLY_ONCE}))
   \<and> ((\<exists>t \<in> set (PubsubTopics (md g)). \<exists>n. Topic_DeliveryGuarantee t = PubSubTopic_unrecognized n)
        \<longrightarrow> (\<exists>err. initialize_body s g st = Inl err))
   \<and> (PubsubTopics (md g) = ts1 @ t # ts2
        \<and> (\<forall>t' \<in> set ts1.
              Topic_DeliveryGuarantee t' \<in> {PubSubTopic_AT_LEAST_ONCE, PubSubTopic_EXACTLY_ONCE})
        \<and> Topic_DeliveryGuarantee t = PubSubTopic_unrecognized n
        \<and> AppFile (app g) = Inr appFile
        \<and> (mGateways (md g) = [] \<or> GlobalCORS (app g) = Inr cors)
        \<and> PubSubProviderConfig (infraManager g) = Inr pc
        \<longrightarrow> initialize_body s g st
              = Inl (Newf ''unknown delivery guarantee %q'' (PubSubTopic_unrecognized n)))"
proof (intro conjI impI)
  assume a: "initialize_body s g st = Inr st' \<and> inj_on (xid_New s) {..<xids st'}
      \<and> PubsubTopics (md g) \<noteq> []"
  then have a1: "initialize_body s g st = Inr st'"
    and a2: "inj_on (xid_New s) {..<xids st'}" and a3: "PubsubTopics (md g) \<noteq> []"
    by simp_all
  show "\<exists>c. Infra_pubsubClusters (infra st') = [c]
         \<and> map (\<lambda>t. (PubSubTopic_EncoreName t, PubSubTopic_DeliveryGuarantee t))
               (PubSubCluster_Topics c)
             = map (\<lambda>t. (Topic_Name t,
                      if Topic_DeliveryGuarantee t = PubSubTopic_AT_LEAST_ONCE
                      then DELIVERY_GUARANTEE_AT_LEAST_ONCE
                      else DELIVERY_GUARANTEE_EXACTLY_ONCE)) (PubsubTopics (md g))"
    by (rule topics_of_initialize [OF a1 a2 a3])
  show "\<forall>t \<in> set (PubsubTopics (md g)).
      Topic_DeliveryGuarantee t \<in> {PubSubTopic_AT_LEAST_ONCE, PubSubTopic_EXACTLY_ONCE}"
    by (rule initialize_body_recognized [OF a1])
next
  assume "\<exists>t \<in> set (PubsubTopics (md g)). \<exists>n. Topic_DeliveryGuarantee t = PubSubTopic_unrecognized n"
  then obtain t n where t: "t \<in> set (PubsubTopics (md g))"
    "Topic_DeliveryGuarantee t = PubSubTopic_unrecognized n"
    by auto
  show "\<exists>err. initialize_body s g st = Inl err"
  proof (cases "initialize_body s g st")
    case (Inl err)
    then show ?thesis by simp
  next
    case (Inr st2)
    from initialize_body_recognized [OF Inr] t show ?thesis by auto
  qed
next
  assume "PubsubTopics (md g) = ts1 @ t # ts2
        \<and> (\<forall>t' \<in> set ts1.
              Topic_DeliveryGuarantee t' \<in> {PubSubTopic_AT_LEAST_ONCE, PubSubTopic_EXACTLY_ONCE})
        \<and> Topic_DeliveryGuarantee t = PubSubTopic_unrecognized n
        \<and> AppFile (app g) = Inr appFile
        \<and> (mGateways (md g) = [] \<or> GlobalCORS (app g) = Inr cors)
        \<and> PubSubProviderConfig (infraManager g) = Inr pc"
  then have b: "PubsubTopics (md g) = ts1 @ t # ts2"
    "\<forall>t' \<in> set ts1.
       Topic_DeliveryGuarantee t' \<in> {PubSubTopic_AT_LEAST_ONCE, PubSubTopic_EXACTLY_ONCE}"
    "Topic_DeliveryGuarantee t = PubSubTopic_unrecognized n"
    "AppFile (app g) = Inr appFile"
    "mGateways (md g) = [] \<or> GlobalCORS (app g) = Inr cors"
    "PubSubProviderConfig (infraManager g) = Inr pc"
    by simp_all
  show "initialize_body s g st
      = Inl (Newf ''unknown delivery guarantee %q'' (PubSubTopic_unrecognized n))"
    by (rule initialize_body_unknown_guarantee [OF b])
qed

theorem initialize_delivery_guarantee_witness:
  "map_sum id
     (\<lambda>st. map (\<lambda>c. map (\<lambda>t. (PubSubTopic_EncoreName t, PubSubTopic_DeliveryGuarantee t))
                       (PubSubCluster_Topics c)) (Infra_pubsubClusters (infra st)))
     (initialize_body demo_sys (demo_gen PubSubTopic_AT_LEAST_ONCE) demo_state)
   = Inr [[(''t'', DELIVERY_GUARANTEE_AT_LEAST_ONCE)]]
   \<and> initialize_body demo_sys (demo_gen (PubSubTopic_unrecognized 7)) demo_state
     = Inl (Newf ''unknown delivery guarantee %q'' (PubSubTopic_unrecognized 7))"
proof -
  let ?g = "demo_gen PubSubTopic_AT_LEAST_ONCE"
  let ?b = "demo_gen (PubSubTopic_unrecognized 7)"
  from demo_initialize obtain st where
    st: "initialize_body demo_sys ?g demo_state = Inr st" "xids st = 18"
    by auto
  have inj: "inj_on (xid_New demo_sys) {..<xids st}"
    using demo_xid_inj by (auto simp: st(2) demo_sys_def intro: inj_on_subset)
  have ne: "PubsubTopics (md ?g) \<noteq> []"
    by (simp add: demo_gen_def demo_md_def)
  from initialize_delivery_guarantee [of demo_sys ?g demo_state st, THEN conjunct1, rule_format,
      OF conjI [OF st(1) conjI [OF inj ne]], THEN conjunct1]
  obtain c where "Infra_pubsubClusters (infra st) = [c]"
    "map (\<lambda>t. (PubSubTopic_EncoreName t, PubSubTopic_DeliveryGuarantee t))
        (PubSubCluster_Topics c)
      = map (\<lambda>t. (Topic_Name t,
               if Topic_DeliveryGuarantee t = PubSubTopic_AT_LEAST_ONCE
               then DELIVERY_GUARANTEE_AT_LEAST_ONCE
               else DELIVERY_GUARANTEE_EXACTLY_ONCE)) (PubsubTopics (md ?g))"
    by auto
  then have good: "map (\<lambda>c. map (\<lambda>t. (PubSubTopic_EncoreName t, PubSubTopic_DeliveryGuarantee t))
                       (PubSubCluster_Topics c)) (Infra_pubsubClusters (infra st))
      = [[(''t'', DELIVERY_GUARANTEE_AT_LEAST_ONCE)]]"
    by (simp add: demo_gen_def demo_md_def demo_topic_def)
  have h: "PubsubTopics (md ?b) = [] @ demo_topic (PubSubTopic_unrecognized 7) # []"
    "\<forall>t' \<in> set []. Topic_DeliveryGuarantee t'
        \<in> {PubSubTopic_AT_LEAST_ONCE, PubSubTopic_EXACTLY_ONCE}"
    "Topic_DeliveryGuarantee (demo_topic (PubSubTopic_unrecognized 7)) = PubSubTopic_unrecognized 7"
    "AppFile (app ?b) = Inr \<lparr>LogLevel = [], Build = \<lparr>WorkerPooling = False\<rparr>\<rparr>"
    "mGateways (md ?b) = [] \<or> GlobalCORS (app ?b) = Inr demo_cors"
    "PubSubProviderConfig (infraManager ?b) = Inr \<lparr>NSQ_Host = ''localhost:4150''\<rparr>"
    by (simp_all add: demo_gen_def demo_md_def demo_topic_def demo_app_def demo_im_def)
  have hh: "PubsubTopics (md ?b) = [] @ demo_topic (PubSubTopic_unrecognized 7) # []
      \<and> (\<forall>t' \<in> set []. Topic_DeliveryGuarantee t'
            \<in> {PubSubTopic_AT_LEAST_ONCE, PubSubTopic_EXACTLY_ONCE})
      \<and> Topic_DeliveryGuarantee (demo_topic (PubSubTopic_unrecognized 7))
          = PubSubTopic_unrecognized 7
      \<and> AppFile (app ?b) = Inr \<lparr>LogLevel = [], Build = \<lparr>WorkerPooling = False\<rparr>\<rparr>
      \<and> (mGateways (md ?b) = [] \<or> GlobalCORS (app ?b) = Inr demo_cors)
      \<and> PubSubProviderConfig (infraManager ?b) = Inr \<lparr>NSQ_Host = ''localhost:4150''\<rparr>"
    by (intro conjI; fact h)
  have bad: "initialize_body demo_sys ?b demo_state
      = Inl (Newf ''unknown delivery guarantee %q'' (PubSubTopic_unrecognized 7))"
    by (rule initialize_delivery_guarantee [of demo_sys ?b demo_state st "[]"
      "demo_topic (PubSubTopic_unrecognized 7)" "[]" 7
      "\<lparr>LogLevel = [], Build = \<lparr>WorkerPooling = False\<rparr>\<rparr>" demo_cors
      "\<lparr>NSQ_Host = ''localhost:4150''\<rparr>", THEN conjunct2, THEN conjunct2, rule_format, OF hh])
  from st(1) good bad show ?thesis by simp
qed

section \<open>Roles and the pools that reference them\<close>

lemma role_rid_inject:
  "length c = length c' \<Longrightarrow> role_rid c u = role_rid c' u' \<longleftrightarrow> c = c' \<and> u = u'"
  by (auto simp: role_rid_def)

lemma set_getOrCreate_sub: "set (getOrCreate rid x xs) \<subseteq> insert x (set xs)"
  by (auto simp: getOrCreate_def)

lemma set_getOrCreate_sup: "set xs \<subseteq> set (getOrCreate rid x xs)"
  by (auto simp: getOrCreate_def)

lemma rid_getOrCreate: "rid ` set (getOrCreate rid x xs) = insert (rid x) (rid ` set xs)"
  by (auto simp: getOrCreate_def)

lemma rid_in_getOrCreate: "\<exists>y \<in> set (getOrCreate rid x xs). rid y = rid x"
  by (auto simp: getOrCreate_def)

lemma distinct_getOrCreate:
  "distinct (map rid xs) \<Longrightarrow> distinct (map rid (getOrCreate rid x xs))"
  by (auto simp: getOrCreate_def)

lemma rid_update_where:
  assumes "\<And>x. rid (f x) = rid x"
  shows "rid ` set (update_where rid key f xs) = rid ` set xs"
  by (induction xs) (auto simp: update_where_def assms)

lemma UN_update_where_eq:
  assumes "\<And>x. F (f x) = F x"
  shows "(\<Union>x \<in> set (update_where rid key f xs). F x) = (\<Union>x \<in> set xs. F x)"
  by (induction xs) (auto simp: update_where_def assms)

lemma UN_update_where_sub:
  assumes "\<And>x. rid x = key \<Longrightarrow> F (f x) \<subseteq> A \<union> F x"
  shows "(\<Union>x \<in> set (update_where rid key f xs). F x) \<subseteq> A \<union> (\<Union>x \<in> set xs. F x)"
proof (induction xs)
  case Nil
  then show ?case by (simp add: update_where_def)
next
  case (Cons x xs)
  have step: "F (if rid x = key then f x else x) \<subseteq> A \<union> F x"
    using assms [of x] by auto
  have "(\<Union>y \<in> set (update_where rid key f (x # xs)). F y)
      = F (if rid x = key then f x else x) \<union> (\<Union>y \<in> set (update_where rid key f xs). F y)"
    by (simp add: update_where_def)
  also have "\<dots> \<subseteq> (A \<union> F x) \<union> (A \<union> (\<Union>y \<in> set xs. F y))"
    using step Cons.IH by (rule Un_mono)
  finally show ?case by auto
qed

subsection \<open>The operations of the builder on the views\<close>

lemma sql_views_SQLCluster:
  "SQLCluster_Databases c = [] \<Longrightarrow>
   sql_cluster_rids (Infra_SQLCluster c i) = insert (SQLCluster_Rid c) (sql_cluster_rids i)
   \<and> sql_pool_refs (Infra_SQLCluster c i) = sql_pool_refs i
   \<and> Infra_sqlRoles (Infra_SQLCluster c i) = Infra_sqlRoles i"
  by (auto simp: sql_cluster_rids_def sql_pool_refs_def sql_pool_rids_def Infra_SQLCluster_def
      getOrCreate_def)

lemma sql_views_SQLServer:
  "sql_cluster_rids (SQLCluster_SQLServer crid srv i) = sql_cluster_rids i
   \<and> sql_pool_refs (SQLCluster_SQLServer crid srv i) = sql_pool_refs i
   \<and> Infra_sqlRoles (SQLCluster_SQLServer crid srv i) = Infra_sqlRoles i"
  by (simp add: sql_cluster_rids_def sql_pool_refs_def SQLCluster_SQLServer_def rid_update_where
      UN_update_where_eq)

lemma sql_views_SQLRole:
  "sql_cluster_rids (Infra_SQLRole r i) = sql_cluster_rids i
   \<and> sql_pool_refs (Infra_SQLRole r i) = sql_pool_refs i
   \<and> Infra_sqlRoles (Infra_SQLRole r i) = getOrCreate SQLRole_Rid r (Infra_sqlRoles i)"
  by (simp add: sql_cluster_rids_def sql_pool_refs_def Infra_SQLRole_def)

lemma sql_pool_rids_getOrCreate:
  "SQLDatabase_ConnPools db = [] \<Longrightarrow>
   sql_pool_rids (getOrCreate SQLDatabase_Rid db ds) = sql_pool_rids ds"
  by (auto simp: sql_pool_rids_def getOrCreate_def)

lemma sql_views_SQLDatabase:
  "SQLDatabase_ConnPools db = [] \<Longrightarrow>
   sql_cluster_rids (SQLCluster_SQLDatabase crid db i) = sql_cluster_rids i
   \<and> sql_pool_refs (SQLCluster_SQLDatabase crid db i) = sql_pool_refs i
   \<and> Infra_sqlRoles (SQLCluster_SQLDatabase crid db i) = Infra_sqlRoles i"
  by (simp add: sql_cluster_rids_def sql_pool_refs_def SQLCluster_SQLDatabase_def rid_update_where
      UN_update_where_eq sql_pool_rids_getOrCreate)

lemma sql_pool_rids_add:
  "sql_pool_rids (update_where SQLDatabase_Rid drid
      (\<lambda>d. d\<lparr>SQLDatabase_ConnPools := SQLDatabase_ConnPools d @ [pool]\<rparr>) ds)
     \<subseteq> {RoleRid pool} \<union> sql_pool_rids ds"
  unfolding sql_pool_rids_def
  by (rule UN_update_where_sub) auto

lemma sql_views_AddConnectionPool:
  "sql_cluster_rids (SQLDatabase_AddConnectionPool crid drid pool i) = sql_cluster_rids i
   \<and> sql_pool_refs (SQLDatabase_AddConnectionPool crid drid pool i)
       \<subseteq> {(crid, RoleRid pool)} \<union> sql_pool_refs i
   \<and> Infra_sqlRoles (SQLDatabase_AddConnectionPool crid drid pool i) = Infra_sqlRoles i"
proof -
  let ?g = "\<lambda>c. c\<lparr>SQLCluster_Databases := update_where SQLDatabase_Rid drid
               (\<lambda>d. d\<lparr>SQLDatabase_ConnPools := SQLDatabase_ConnPools d @ [pool]\<rparr>)
               (SQLCluster_Databases c)\<rparr>"
  let ?G = "\<lambda>c. {SQLCluster_Rid c} \<times> sql_pool_rids (SQLCluster_Databases c)"
  have "(\<Union>c \<in> set (update_where SQLCluster_Rid crid ?g (Infra_sqlClusters i)). ?G c)
      \<subseteq> {(crid, RoleRid pool)} \<union> (\<Union>c \<in> set (Infra_sqlClusters i). ?G c)"
  proof (rule UN_update_where_sub)
    fix c
    assume "SQLCluster_Rid c = crid"
    with sql_pool_rids_add [of drid pool "SQLCluster_Databases c"]
    show "?G (?g c) \<subseteq> {(crid, RoleRid pool)} \<union> ?G c"
      by auto
  qed
  then have "sql_pool_refs (SQLDatabase_AddConnectionPool crid drid pool i)
       \<subseteq> {(crid, RoleRid pool)} \<union> sql_pool_refs i"
    by (simp add: sql_pool_refs_def SQLDatabase_AddConnectionPool_def)
  then show ?thesis
    by (simp add: sql_cluster_rids_def SQLDatabase_AddConnectionPool_def rid_update_where)
qed

subsection \<open>The invariant of the SQL stage\<close>

lemma sql_roles_invD:
  assumes "sql_roles_inv i"
  shows "distinct (map SQLRole_Rid (Infra_sqlRoles i))"
    and "\<And>c. c \<in> sql_cluster_rids i \<Longrightarrow> length c = 24"
    and "\<And>r. r \<in> set (Infra_sqlRoles i) \<Longrightarrow>
           \<exists>c \<in> sql_cluster_rids i. SQLRole_Rid r = role_rid c (SQLRole_Username r)"
    and "\<And>c rr. (c, rr) \<in> sql_pool_refs i \<Longrightarrow> c \<in> sql_cluster_rids i"
    and "\<And>c rr. (c, rr) \<in> sql_pool_refs i \<Longrightarrow>
           \<exists>r \<in> set (Infra_sqlRoles i). SQLRole_Rid r = rr \<and> rr = role_rid c (SQLRole_Username r)"
  using assms unfolding sql_roles_inv_def by simp_all

lemma sql_roles_invI:
  assumes "distinct (map SQLRole_Rid (Infra_sqlRoles i))"
    and "\<And>c. c \<in> sql_cluster_rids i \<Longrightarrow> length c = 24"
    and "\<And>r. r \<in> set (Infra_sqlRoles i) \<Longrightarrow>
           \<exists>c \<in> sql_cluster_rids i. SQLRole_Rid r = role_rid c (SQLRole_Username r)"
    and "\<And>c rr. (c, rr) \<in> sql_pool_refs i \<Longrightarrow> c \<in> sql_cluster_rids i"
    and "\<And>c rr. (c, rr) \<in> sql_pool_refs i \<Longrightarrow>
           \<exists>r \<in> set (Infra_sqlRoles i). SQLRole_Rid r = rr \<and> rr = role_rid c (SQLRole_Username r)"
  shows "sql_roles_inv i"
  unfolding sql_roles_inv_def using assms by simp

lemma sql_roles_inv_views:
  assumes inv: "sql_roles_inv i"
    and rids: "sql_cluster_rids i' = sql_cluster_rids i \<or>
               (\<exists>crid. length crid = 24 \<and> sql_cluster_rids i' = insert crid (sql_cluster_rids i))"
    and refs: "sql_pool_refs i' \<subseteq> sql_pool_refs i"
    and roles: "Infra_sqlRoles i' = Infra_sqlRoles i"
  shows "sql_roles_inv i'"
proof (rule sql_roles_invI)
  from rids have sub: "sql_cluster_rids i \<subseteq> sql_cluster_rids i'"
    by auto
  show "distinct (map SQLRole_Rid (Infra_sqlRoles i'))"
    using sql_roles_invD(1) [OF inv] by (simp add: roles)
  show "length c = 24" if "c \<in> sql_cluster_rids i'" for c
    using rids that sql_roles_invD(2) [OF inv, of c] by auto
  show "\<exists>c \<in> sql_cluster_rids i'. SQLRole_Rid r = role_rid c (SQLRole_Username r)"
    if "r \<in> set (Infra_sqlRoles i')" for r
  proof -
    from that have "r \<in> set (Infra_sqlRoles i)" by (simp add: roles)
    from sql_roles_invD(3) [OF inv this] sub show ?thesis by auto
  qed
  show "c \<in> sql_cluster_rids i'" if "(c, rr) \<in> sql_pool_refs i'" for c rr
  proof -
    from that refs have "(c, rr) \<in> sql_pool_refs i" by auto
    from sql_roles_invD(4) [OF inv this] sub show ?thesis by auto
  qed
  show "\<exists>r \<in> set (Infra_sqlRoles i'). SQLRole_Rid r = rr \<and> rr = role_rid c (SQLRole_Username r)"
    if "(c, rr) \<in> sql_pool_refs i'" for c rr
  proof -
    from that refs have "(c, rr) \<in> sql_pool_refs i" by auto
    from sql_roles_invD(5) [OF inv this] show ?thesis by (simp add: roles)
  qed
qed

lemma sql_roles_inv_pool:
  assumes inv: "sql_roles_inv i" and crid: "crid \<in> sql_cluster_rids i"
    and r: "SQLRole_Rid r = role_rid crid u" "SQLRole_Username r = u"
    and db: "SQLDatabase_ConnPools db = []"
    and pool: "RoleRid pool = role_rid crid u"
  shows "sql_roles_inv (SQLDatabase_AddConnectionPool crid drid pool
           (SQLCluster_SQLDatabase crid db (Infra_SQLRole r i)))"
    (is "sql_roles_inv ?i3")
proof (rule sql_roles_invI)
  let ?roles = "getOrCreate SQLRole_Rid r (Infra_sqlRoles i)"
  have rids3: "sql_cluster_rids ?i3 = sql_cluster_rids i"
    and roles3: "Infra_sqlRoles ?i3 = ?roles"
    and refs3: "sql_pool_refs ?i3 \<subseteq> {(crid, role_rid crid u)} \<union> sql_pool_refs i"
    using sql_views_AddConnectionPool [of crid drid pool
        "SQLCluster_SQLDatabase crid db (Infra_SQLRole r i)"]
      sql_views_SQLDatabase [OF db, of crid "Infra_SQLRole r i"] sql_views_SQLRole [of r i]
    by (simp_all add: pool)
  have sup: "set (Infra_sqlRoles i) \<subseteq> set ?roles"
    by (rule set_getOrCreate_sup)
  have ro3: "\<exists>c \<in> sql_cluster_rids i. SQLRole_Rid r' = role_rid c (SQLRole_Username r')"
    if "r' \<in> set ?roles" for r'
  proof (cases "r' = r")
    case True
    with crid r show ?thesis by auto
  next
    case False
    with that set_getOrCreate_sub [of SQLRole_Rid r "Infra_sqlRoles i"]
    have "r' \<in> set (Infra_sqlRoles i)" by auto
    from sql_roles_invD(3) [OF inv this] show ?thesis .
  qed
  have new: "\<exists>r' \<in> set ?roles. SQLRole_Rid r' = role_rid crid u
      \<and> role_rid crid u = role_rid crid (SQLRole_Username r')"
  proof -
    from rid_in_getOrCreate [of SQLRole_Rid r "Infra_sqlRoles i"] obtain y where
      y: "y \<in> set ?roles" "SQLRole_Rid y = role_rid crid u"
      by (auto simp: r)
    from ro3 [OF y(1)] obtain c where
      c: "c \<in> sql_cluster_rids i" "SQLRole_Rid y = role_rid c (SQLRole_Username y)"
      by auto
    from sql_roles_invD(2) [OF inv c(1)] sql_roles_invD(2) [OF inv crid]
    have "length c = length crid" by simp
    with c(2) y(2) have "SQLRole_Username y = u"
      by (simp add: role_rid_inject)
    with y show ?thesis by auto
  qed
  show "distinct (map SQLRole_Rid (Infra_sqlRoles ?i3))"
    unfolding roles3 by (rule distinct_getOrCreate [OF sql_roles_invD(1) [OF inv]])
  show "length c = 24" if "c \<in> sql_cluster_rids ?i3" for c
    using that sql_roles_invD(2) [OF inv, of c] by (simp add: rids3)
  show "\<exists>c \<in> sql_cluster_rids ?i3. SQLRole_Rid r' = role_rid c (SQLRole_Username r')"
    if "r' \<in> set (Infra_sqlRoles ?i3)" for r'
    using that ro3 [of r'] by (simp only: rids3 roles3)
  show "c \<in> sql_cluster_rids ?i3" if "(c, rr) \<in> sql_pool_refs ?i3" for c rr
  proof (cases "(c, rr) \<in> sql_pool_refs i")
    case True
    from sql_roles_invD(4) [OF inv this] show ?thesis by (simp only: rids3)
  next
    case False
    with that refs3 have "c = crid" by auto
    with crid show ?thesis by (simp only: rids3)
  qed
  show "\<exists>r' \<in> set (Infra_sqlRoles ?i3). SQLRole_Rid r' = rr
      \<and> rr = role_rid c (SQLRole_Username r')"
    if "(c, rr) \<in> sql_pool_refs ?i3" for c rr
  proof (cases "(c, rr) \<in> sql_pool_refs i")
    case True
    from sql_roles_invD(5) [OF inv this] sup show ?thesis
      unfolding roles3 by auto
  next
    case False
    with that refs3 have "c = crid" "rr = role_rid crid u" by auto
    with new show ?thesis
      unfolding roles3 by simp
  qed
qed

lemma sql_roles_inv_cluster:
  assumes "sql_roles_inv i" and "length crid = 24"
  shows "sql_roles_inv (SQLCluster_SQLServer crid srv
           (Infra_SQLCluster \<lparr>SQLCluster_Rid = crid, SQLCluster_Servers = [],
                              SQLCluster_Databases = []\<rparr> i))"
    and "crid \<in> sql_cluster_rids (SQLCluster_SQLServer crid srv
           (Infra_SQLCluster \<lparr>SQLCluster_Rid = crid, SQLCluster_Servers = [],
                              SQLCluster_Databases = []\<rparr> i))"
proof -
  let ?c = "\<lparr>SQLCluster_Rid = crid, SQLCluster_Servers = [], SQLCluster_Databases = []\<rparr>"
  let ?i = "SQLCluster_SQLServer crid srv (Infra_SQLCluster ?c i)"
  have v: "sql_cluster_rids ?i = insert crid (sql_cluster_rids i)"
    "sql_pool_refs ?i = sql_pool_refs i" "Infra_sqlRoles ?i = Infra_sqlRoles i"
    using sql_views_SQLServer [of crid srv "Infra_SQLCluster ?c i"]
      sql_views_SQLCluster [of ?c i]
    by simp_all
  from v(1) show "crid \<in> sql_cluster_rids ?i" by simp
  show "sql_roles_inv ?i"
    by (rule sql_roles_inv_views [OF assms(1)]) (use v assms(2) in auto)
qed

lemma sql_roles_inv_external:
  assumes "sql_roles_inv i" and "length crid = 24"
  shows "sql_roles_inv (external_infra crid srid drid db pCfg i)"
    and "sql_cluster_rids i \<subseteq> sql_cluster_rids (external_infra crid srid drid db pCfg i)"
proof -
  let ?srv = "\<lparr>SQLServer_Rid = srid, SQLServer_Kind = SERVER_KIND_PRIMARY,
      SQLServer_Host = pgx_Host pCfg,
      SQLServer_TlsConfig = Some \<lparr>ServerCaCert = None, DisableCaValidation = True\<rparr>\<rparr>"
  let ?i1 = "SQLCluster_SQLServer crid ?srv
      (Infra_SQLCluster \<lparr>SQLCluster_Rid = crid, SQLCluster_Servers = [],
                         SQLCluster_Databases = []\<rparr> i)"
  note c = sql_roles_inv_cluster [OF assms, of ?srv]
  show "sql_roles_inv (external_infra crid srid drid db pCfg i)"
    unfolding external_infra_def
    by (rule sql_roles_inv_pool [OF c(1) c(2)]) simp_all
  have "sql_cluster_rids (external_infra crid srid drid db pCfg i) = sql_cluster_rids ?i1"
    unfolding external_infra_def
    by (simp add: sql_views_AddConnectionPool sql_views_SQLDatabase sql_views_SQLRole)
  also have "\<dots> = insert crid (sql_cluster_rids i)"
    by (simp add: sql_views_SQLServer sql_views_SQLCluster)
  finally show "sql_cluster_rids i \<subseteq> sql_cluster_rids (external_infra crid srid drid db pCfg i)"
    by auto
qed

lemma sql_roles_inv_managed:
  assumes "sql_roles_inv i" and "crid \<in> sql_cluster_rids i"
  shows "sql_roles_inv (managed_infra crid drid dbConfig i)"
    and "sql_cluster_rids (managed_infra crid drid dbConfig i) = sql_cluster_rids i"
proof -
  show "sql_roles_inv (managed_infra crid drid dbConfig i)"
    unfolding managed_infra_def
    by (rule sql_roles_inv_pool [OF assms]) simp_all
  show "sql_cluster_rids (managed_infra crid drid dbConfig i) = sql_cluster_rids i"
    unfolding managed_infra_def
    by (simp add: sql_views_AddConnectionPool sql_views_SQLDatabase sql_views_SQLRole)
qed

lemma rid_at_length: "length (xid_New s k) = 20 \<Longrightarrow> length (rid_at s k) = 24"
  by (simp add: rid_at_def)

lemma init_databases_loop_inv:
  assumes "init_databases_loop s g crid dbs st = Inr st'"
    and "\<forall>k < xids st'. length (xid_New s k) = 20"
    and "sql_roles_inv (infra st)" and "crid \<in> sql_cluster_rids (infra st)"
  shows "sql_roles_inv (infra st')"
  using assms
proof (induction dbs arbitrary: st)
  case Nil
  then show ?case by simp
next
  case (Cons db dbs)
  from Cons.prems(1) obtain st1 where
    step: "init_database s g crid db st = Inr st1"
    and rest: "init_databases_loop s g crid dbs st1 = Inr st'"
    by (cases "init_database s g crid db st") auto
  from init_databases_loop_frame [OF rest] have le: "xids st1 \<le> xids st'" by simp
  have "sql_roles_inv (infra st1) \<and> crid \<in> sql_cluster_rids (infra st1)"
  proof (cases "map_of (DefinedSecrets g) (''sqldb::'' @ mSQLDatabase_Name db)")
    case None
    with step have "init_managed_database s g crid db st = Inr st1"
      by (simp add: init_database_def)
    then show ?thesis
      using sql_roles_inv_managed [OF Cons.prems(3,4)] Cons.prems(4)
      by (elim init_managed_database_Inr) simp
  next
    case (Some externalDB)
    with step have "init_external_database s db externalDB st = Inr st1"
      by (simp add: init_database_def)
    then show ?thesis
    proof (rule init_external_database_Inr)
      fix cs pCfg
      assume x: "xids st1 = xids st + 3"
        and i: "infra st1 = external_infra (rid_at s (xids st)) (rid_at s (Suc (xids st)))
                   (rid_at s (Suc (Suc (xids st)))) db pCfg (infra st)"
      from x le Cons.prems(2) have "length (rid_at s (xids st)) = 24"
        by (intro rid_at_length) simp
      from sql_roles_inv_external [OF Cons.prems(3) this] Cons.prems(4) show ?thesis
        unfolding i by blast
    qed
  qed
  with Cons.IH [OF rest Cons.prems(2)] show ?case by simp
qed

lemma sql_roles_inv_initialize:
  assumes "initialize_body s g st = Inr st'"
    and "\<forall>k < xids st'. length (xid_New s k) = 20"
  shows "sql_roles_inv (infra st')"
proof -
  from assms(1) obtain st2 st3 where
    sq: "init_sql s g st2 = Inr st3"
    and e: "Infra_sqlClusters (infra st2) = []" "Infra_sqlRoles (infra st2) = []"
    and fin: "Infra_sqlClusters (infra st') = Infra_sqlClusters (infra st3)"
      "Infra_sqlRoles (infra st') = Infra_sqlRoles (infra st3)"
    and le: "xids st3 \<le> xids st'"
    by (rule initialize_body_fields)
  have inv2: "sql_roles_inv (infra st2)"
    by (simp add: sql_roles_inv_def sql_cluster_rids_def sql_pool_refs_def e)
  have "sql_roles_inv (infra st3)"
  proof (cases "SqlDatabases (md g) = []")
    case True
    with sq inv2 show ?thesis by (simp add: init_sql_def)
  next
    case False
    from sq False show ?thesis
    proof (rule init_sql_Inr)
      fix srvConfig :: config_SQLServer
      let ?srv = "\<lparr>SQLServer_Rid = rid_at s (Suc (xids st2)),
           SQLServer_Kind = SERVER_KIND_PRIMARY,
           SQLServer_Host = cSQLServer_Host srvConfig,
           SQLServer_TlsConfig =
             (if cSQLServer_ServerCACert srvConfig \<noteq> []
              then Some \<lparr>ServerCaCert = Some (cSQLServer_ServerCACert srvConfig),
                         DisableCaValidation = False\<rparr>
              else None)\<rparr>"
      let ?st = "with_infra (SQLCluster_SQLServer (rid_at s (xids st2)) ?srv)
        (with_infra (Infra_SQLCluster
           \<lparr>SQLCluster_Rid = rid_at s (xids st2), SQLCluster_Servers = [],
            SQLCluster_Databases = []\<rparr>) (st2\<lparr>xids := Suc (Suc (xids st2))\<rparr>))"
      assume loop: "init_databases_loop s g (rid_at s (xids st2)) (SqlDatabases (md g)) ?st
          = Inr st3"
      from init_databases_loop_frame [OF loop] have "xids st2 < xids st3" by simp
      with le assms(2) have len: "length (rid_at s (xids st2)) = 24"
        by (intro rid_at_length) simp
      from assms(2) le have len3: "\<forall>k < xids st3. length (xid_New s k) = 20" by simp
      note c = sql_roles_inv_cluster [OF inv2 len, of ?srv]
      show ?thesis
        by (rule init_databases_loop_inv [OF loop len3]) (use c in simp_all)
    qed
  qed
  then show ?thesis
    by (simp add: sql_roles_inv_def sql_cluster_rids_def sql_pool_refs_def fin)
qed

subsection \<open>The invariant of the cache stage\<close>















subsection \<open>The graph of the concrete application\<close>



subsection \<open>The cache clusters after the initialization\<close>

lemma update_where_fresh: "key \<notin> rid ` set xs \<Longrightarrow> update_where rid key f xs = xs"
  by (induction xs) (auto simp: update_where_def)

lemma update_where_append:
  "update_where rid key f (xs @ ys) = update_where rid key f xs @ update_where rid key f ys"
  by (simp add: update_where_def)

lemma update_where_Cons_hit:
  "rid x = key \<Longrightarrow> key \<notin> rid ` set xs \<Longrightarrow> update_where rid key f (x # xs) = f x # xs"
  using update_where_fresh [of key rid xs f] by (simp add: update_where_def)

lemma update_where_single: "rid x = key \<Longrightarrow> update_where rid key f [x] = [f x]"
  by (simp add: update_where_def)

lemma rid_at_mono: "j \<le> k \<Longrightarrow> rid_at s ` {..<j} \<subseteq> rid_at s ` {..<k}"
  by auto




subsection \<open>The role of a pool\<close>

lemma sql_pool_refs_member:
  "c \<in> set (Infra_sqlClusters i) \<Longrightarrow> d \<in> set (SQLCluster_Databases c) \<Longrightarrow>
   p \<in> set (SQLDatabase_ConnPools d) \<Longrightarrow> (SQLCluster_Rid c, RoleRid p) \<in> sql_pool_refs i"
  by (auto simp: sql_pool_refs_def sql_pool_rids_def)




lemma sql_pool_role:
  assumes inv: "sql_roles_inv i"
    and c: "c \<in> set (Infra_sqlClusters i)" and d: "d \<in> set (SQLCluster_Databases c)"
    and p: "p \<in> set (SQLDatabase_ConnPools d)"
  shows "\<exists>r \<in> set (Infra_sqlRoles i). SQLRole_Rid r = RoleRid p
      \<and> RoleRid p = ''role:'' @ SQLCluster_Rid c @ '':'' @ SQLRole_Username r"
  using sql_roles_invD(5) [OF inv sql_pool_refs_member [OF c d p]]
  by (simp add: role_rid_def)



section \<open>External databases\<close>

subsection \<open>The clusters after one database\<close>

lemma external_infra_clusters:
  assumes "crid \<notin> sql_cluster_rids i"
  shows "Infra_sqlClusters (external_infra crid srid drid db pCfg i)
     = Infra_sqlClusters i @ [external_cluster crid srid drid db pCfg]"
proof -
  from assms have f: "crid \<notin> SQLCluster_Rid ` set (Infra_sqlClusters i)"
    by (simp add: sql_cluster_rids_def)
  show ?thesis
    by (simp add: external_infra_def SQLDatabase_AddConnectionPool_def SQLCluster_SQLDatabase_def
        Infra_SQLRole_def SQLCluster_SQLServer_def Infra_SQLCluster_def getOrCreate_fresh f
        update_where_append update_where_fresh update_where_single external_cluster_def
        getOrCreate_def [of _ _ "[]"])
qed

lemma managed_infra_clusters:
  assumes "Infra_sqlClusters i = m # rest" and "SQLCluster_Rid m = crid"
    and "crid \<notin> SQLCluster_Rid ` set rest"
    and "drid \<notin> SQLDatabase_Rid ` set (SQLCluster_Databases m)"
  shows "Infra_sqlClusters (managed_infra crid drid dbConfig i)
     = m\<lparr>SQLCluster_Databases :=
           SQLCluster_Databases m @ [managed_database crid drid dbConfig]\<rparr> # rest"
  using assms
  by (simp add: managed_infra_def SQLDatabase_AddConnectionPool_def SQLCluster_SQLDatabase_def
      Infra_SQLRole_def update_where_Cons_hit getOrCreate_fresh update_where_append
      update_where_fresh update_where_single managed_database_def)

subsection \<open>The clusters after the loop over the databases\<close>

lemma init_database_external:
  assumes "init_database s g crid db st = Inr st'" and "sqldb_secret g db = Some blob"
  obtains cs pCfg where
    "json_Unmarshal s blob = Inr cs" "pgx_ParseConfig s cs = Inr pCfg"
    "xids st' = xids st + 3"
    "infra st' = external_infra (rid_at s (xids st)) (rid_at s (Suc (xids st)))
                   (rid_at s (Suc (Suc (xids st)))) db pCfg (infra st)"
proof -
  from assms have "init_external_database s db blob st = Inr st'"
    by (simp add: init_database_def sqldb_secret_def)
  then show thesis
    by (rule init_external_database_Inr) (rule that)
qed

lemma init_database_managed:
  assumes "init_database s g crid db st = Inr st'" and "sqldb_secret g db = None"
  obtains dbConfig where
    "SQLDatabaseConfig (infraManager g) db = Inr dbConfig"
    "xids st' = xids st + 1"
    "infra st' = managed_infra crid (rid_at s (xids st)) dbConfig (infra st)"
proof -
  from assms have "init_managed_database s g crid db st = Inr st'"
    by (simp add: init_database_def sqldb_secret_def)
  then show thesis
    by (rule init_managed_database_Inr) (rule that)
qed

lemma init_databases_loop_clusters:
  assumes "init_databases_loop s g crid dbs st = Inr st'"
    and "inj_on (xid_New s) {..<xids st'}"
    and "Infra_sqlClusters (infra st) = m # rest" and "SQLCluster_Rid m = crid"
    and "distinct (map SQLCluster_Rid (m # rest))"
    and "SQLCluster_Rid ` set (m # rest) \<subseteq> rid_at s ` {..<xids st}"
    and "SQLDatabase_Rid ` set (SQLCluster_Databases m) \<subseteq> rid_at s ` {..<xids st}"
  shows "\<exists>m' exts. Infra_sqlClusters (infra st') = m' # rest @ exts
     \<and> SQLCluster_Rid m' = crid \<and> SQLCluster_Servers m' = SQLCluster_Servers m
     \<and> length (SQLCluster_Databases m')
         = length (SQLCluster_Databases m) + length (filter (\<lambda>db. sqldb_secret g db = None) dbs)
     \<and> length exts = length (filter (\<lambda>db. sqldb_secret g db \<noteq> None) dbs)
     \<and> crid \<notin> SQLCluster_Rid ` set exts
     \<and> (\<forall>db \<in> set dbs. \<forall>blob. sqldb_secret g db = Some blob \<longrightarrow>
           (\<exists>cs pCfg k. json_Unmarshal s blob = Inr cs \<and> pgx_ParseConfig s cs = Inr pCfg
              \<and> external_cluster (rid_at s k) (rid_at s (Suc k)) (rid_at s (Suc (Suc k))) db pCfg
                  \<in> set exts))"
  using assms
proof (induction dbs arbitrary: st m rest)
  case Nil
  then show ?case by simp
next
  case (Cons db dbs)
  from Cons.prems(1) obtain st1 where
    step: "init_database s g crid db st = Inr st1"
    and loop: "init_databases_loop s g crid dbs st1 = Inr st'"
    by (cases "init_database s g crid db st") auto
  from init_databases_loop_frame [OF loop] have le: "xids st1 \<le> xids st'" by simp
  note inj = Cons.prems(2)
  note cl = Cons.prems(3)
  note m = Cons.prems(4)
  note dist = Cons.prems(5)
  note old = Cons.prems(6)
  note oldd = Cons.prems(7)
  show ?case
  proof (cases "sqldb_secret g db")
    case None
    from step None obtain dbConfig where
      x: "xids st1 = xids st + 1"
      and i: "infra st1 = managed_infra crid (rid_at s (xids st)) dbConfig (infra st)"
      by (rule init_database_managed)
    let ?d = "managed_database crid (rid_at s (xids st)) dbConfig"
    let ?m1 = "m\<lparr>SQLCluster_Databases := SQLCluster_Databases m @ [?d]\<rparr>"
    from x le have lt: "xids st < xids st'" by simp
    have fresh: "rid_at s (xids st) \<notin> SQLDatabase_Rid ` set (SQLCluster_Databases m)"
      by (rule rid_at_fresh [OF inj lt oldd])
    from dist m have nr: "crid \<notin> SQLCluster_Rid ` set rest" by auto
    have cl1: "Infra_sqlClusters (infra st1) = ?m1 # rest"
      unfolding i by (rule managed_infra_clusters [OF cl m nr fresh])
    have m1: "SQLCluster_Rid ?m1 = crid" using m by simp
    have dist1: "distinct (map SQLCluster_Rid (?m1 # rest))" using dist by simp
    have sub: "rid_at s ` {..<xids st} \<subseteq> rid_at s ` {..<xids st1}"
      by (rule rid_at_mono) (simp add: x)
    have "SQLCluster_Rid ` set (?m1 # rest) = SQLCluster_Rid ` set (m # rest)"
      by simp
    with order_trans [OF old sub]
    have old1: "SQLCluster_Rid ` set (?m1 # rest) \<subseteq> rid_at s ` {..<xids st1}"
      by simp
    have here: "rid_at s (xids st) \<in> rid_at s ` {..<xids st1}"
      by (simp add: x)
    have "SQLDatabase_Rid ` set (SQLCluster_Databases ?m1)
        = insert (rid_at s (xids st)) (SQLDatabase_Rid ` set (SQLCluster_Databases m))"
      by (simp add: managed_database_def)
    with order_trans [OF oldd sub] here
    have oldd1: "SQLDatabase_Rid ` set (SQLCluster_Databases ?m1) \<subseteq> rid_at s ` {..<xids st1}"
      by simp
    from Cons.IH [OF loop inj cl1 m1 dist1 old1 oldd1] obtain m' exts where
      r: "Infra_sqlClusters (infra st') = m' # rest @ exts"
        "SQLCluster_Rid m' = crid" "SQLCluster_Servers m' = SQLCluster_Servers ?m1"
        "length (SQLCluster_Databases m')
           = length (SQLCluster_Databases ?m1)
             + length (filter (\<lambda>db. sqldb_secret g db = None) dbs)"
        "length exts = length (filter (\<lambda>db. sqldb_secret g db \<noteq> None) dbs)"
        "crid \<notin> SQLCluster_Rid ` set exts"
        "\<forall>db \<in> set dbs. \<forall>blob. sqldb_secret g db = Some blob \<longrightarrow>
           (\<exists>cs pCfg k. json_Unmarshal s blob = Inr cs \<and> pgx_ParseConfig s cs = Inr pCfg
              \<and> external_cluster (rid_at s k) (rid_at s (Suc k)) (rid_at s (Suc (Suc k))) db pCfg
                  \<in> set exts)"
      by auto
    show ?thesis
    proof (intro exI conjI)
      show "Infra_sqlClusters (infra st') = m' # rest @ exts" by (fact r(1))
      show "SQLCluster_Rid m' = crid" by (fact r(2))
      show "SQLCluster_Servers m' = SQLCluster_Servers m" using r(3) by simp
      show "length (SQLCluster_Databases m')
         = length (SQLCluster_Databases m)
           + length (filter (\<lambda>db. sqldb_secret g db = None) (db # dbs))"
        using r(4) None by simp
      show "length exts = length (filter (\<lambda>db. sqldb_secret g db \<noteq> None) (db # dbs))"
        using r(5) None by simp
      show "crid \<notin> SQLCluster_Rid ` set exts" by (fact r(6))
      show "\<forall>db \<in> set (db # dbs). \<forall>blob. sqldb_secret g db = Some blob \<longrightarrow>
           (\<exists>cs pCfg k. json_Unmarshal s blob = Inr cs \<and> pgx_ParseConfig s cs = Inr pCfg
              \<and> external_cluster (rid_at s k) (rid_at s (Suc k)) (rid_at s (Suc (Suc k))) db pCfg
                  \<in> set exts)"
        using r(7) None by simp
    qed
  next
    case (Some blob)
    from step Some obtain cs pCfg where
      js: "json_Unmarshal s blob = Inr cs" and pg: "pgx_ParseConfig s cs = Inr pCfg"
      and x: "xids st1 = xids st + 3"
      and i: "infra st1 = external_infra (rid_at s (xids st)) (rid_at s (Suc (xids st)))
                   (rid_at s (Suc (Suc (xids st)))) db pCfg (infra st)"
      by (rule init_database_external)
    let ?k = "xids st"
    let ?e = "external_cluster (rid_at s ?k) (rid_at s (Suc ?k)) (rid_at s (Suc (Suc ?k))) db pCfg"
    from x le have lt: "xids st < xids st'" by simp
    have fresh: "rid_at s ?k \<notin> SQLCluster_Rid ` set (m # rest)"
      by (rule rid_at_fresh [OF inj lt old])
    then have fresh': "rid_at s ?k \<notin> sql_cluster_rids (infra st)"
      by (simp add: sql_cluster_rids_def cl)
    have cl1: "Infra_sqlClusters (infra st1) = m # (rest @ [?e])"
      unfolding i external_infra_clusters [OF fresh'] by (simp add: cl)
    have e: "SQLCluster_Rid ?e = rid_at s ?k"
      by (simp add: external_cluster_def)
    have dist1: "distinct (map SQLCluster_Rid (m # (rest @ [?e])))"
      using dist fresh by (auto simp: e)
    have sub: "rid_at s ` {..<xids st} \<subseteq> rid_at s ` {..<xids st1}"
      by (rule rid_at_mono) (simp add: x)
    have new: "rid_at s ?k \<in> rid_at s ` {..<xids st1}"
      by (simp add: x)
    have "SQLCluster_Rid ` set (m # (rest @ [?e]))
        = insert (rid_at s ?k) (SQLCluster_Rid ` set (m # rest))"
      by (auto simp: e)
    with order_trans [OF old sub] new
    have old1: "SQLCluster_Rid ` set (m # (rest @ [?e])) \<subseteq> rid_at s ` {..<xids st1}"
      by simp
    note oldd1 = order_trans [OF oldd sub]
    from Cons.IH [OF loop inj cl1 m dist1 old1 oldd1] obtain m' exts where
      r: "Infra_sqlClusters (infra st') = m' # (rest @ [?e]) @ exts"
        "SQLCluster_Rid m' = crid" "SQLCluster_Servers m' = SQLCluster_Servers m"
        "length (SQLCluster_Databases m')
           = length (SQLCluster_Databases m)
             + length (filter (\<lambda>db. sqldb_secret g db = None) dbs)"
        "length exts = length (filter (\<lambda>db. sqldb_secret g db \<noteq> None) dbs)"
        "crid \<notin> SQLCluster_Rid ` set exts"
        "\<forall>db \<in> set dbs. \<forall>blob. sqldb_secret g db = Some blob \<longrightarrow>
           (\<exists>cs pCfg k. json_Unmarshal s blob = Inr cs \<and> pgx_ParseConfig s cs = Inr pCfg
              \<and> external_cluster (rid_at s k) (rid_at s (Suc k)) (rid_at s (Suc (Suc k))) db pCfg
                  \<in> set exts)"
      by auto
    from fresh m have ne: "rid_at s ?k \<noteq> crid" by auto
    have here: "\<exists>cs pCfg k. json_Unmarshal s blob = Inr cs \<and> pgx_ParseConfig s cs = Inr pCfg
        \<and> external_cluster (rid_at s k) (rid_at s (Suc k)) (rid_at s (Suc (Suc k))) db pCfg
            \<in> set (?e # exts)"
    proof (intro exI conjI)
      show "json_Unmarshal s blob = Inr cs" by (fact js)
      show "pgx_ParseConfig s cs = Inr pCfg" by (fact pg)
      show "?e \<in> set (?e # exts)" by simp
    qed
    show ?thesis
    proof (intro exI conjI)
      show "Infra_sqlClusters (infra st') = m' # rest @ (?e # exts)" using r(1) by simp
      show "SQLCluster_Rid m' = crid" by (fact r(2))
      show "SQLCluster_Servers m' = SQLCluster_Servers m" by (fact r(3))
      show "length (SQLCluster_Databases m')
         = length (SQLCluster_Databases m)
           + length (filter (\<lambda>db. sqldb_secret g db = None) (db # dbs))"
        using r(4) Some by simp
      show "length (?e # exts) = length (filter (\<lambda>db. sqldb_secret g db \<noteq> None) (db # dbs))"
        using r(5) Some by simp
      show "crid \<notin> SQLCluster_Rid ` set (?e # exts)" using r(6) ne by (simp add: e)
      show "\<forall>db \<in> set (db # dbs). \<forall>blob. sqldb_secret g db = Some blob \<longrightarrow>
           (\<exists>cs pCfg k. json_Unmarshal s blob = Inr cs \<and> pgx_ParseConfig s cs = Inr pCfg
              \<and> external_cluster (rid_at s k) (rid_at s (Suc k)) (rid_at s (Suc (Suc k))) db pCfg
                  \<in> set (?e # exts))"
      proof (intro ballI allI impI)
        fix db' blob'
        assume mem: "db' \<in> set (db # dbs)" and sec: "sqldb_secret g db' = Some blob'"
        show "\<exists>cs pCfg k. json_Unmarshal s blob' = Inr cs \<and> pgx_ParseConfig s cs = Inr pCfg
              \<and> external_cluster (rid_at s k) (rid_at s (Suc k)) (rid_at s (Suc (Suc k))) db' pCfg
                  \<in> set (?e # exts)"
        proof (cases "db' = db")
          case True
          with sec Some have "blob' = blob" by simp
          with here True show ?thesis by simp
        next
          case False
          with mem have "db' \<in> set dbs" by simp
          from r(7) [rule_format, OF this sec] obtain cs' pCfg' k where
            "json_Unmarshal s blob' = Inr cs'" "pgx_ParseConfig s cs' = Inr pCfg'"
            "external_cluster (rid_at s k) (rid_at s (Suc k)) (rid_at s (Suc (Suc k))) db' pCfg'
                  \<in> set exts"
            by auto
          then show ?thesis by auto
        qed
      qed
    qed
  qed
qed

subsection \<open>The clusters after the initialization\<close>

lemma init_sql_clusters:
  assumes sq: "init_sql s g st = Inr st'" and ne: "SqlDatabases (md g) \<noteq> []"
    and inj: "inj_on (xid_New s) {..<xids st'}"
    and e: "Infra_sqlClusters (infra st) = []"
  shows "\<exists>srvConfig m exts. SQLServerConfig (infraManager g) = Inr srvConfig
     \<and> Infra_sqlClusters (infra st') = m # exts
     \<and> map SQLServer_Host (SQLCluster_Servers m) = [cSQLServer_Host srvConfig]
     \<and> length (SQLCluster_Databases m)
         = length (filter (\<lambda>db. sqldb_secret g db = None) (SqlDatabases (md g)))
     \<and> length exts = length (filter (\<lambda>db. sqldb_secret g db \<noteq> None) (SqlDatabases (md g)))
     \<and> SQLCluster_Rid m \<notin> SQLCluster_Rid ` set exts
     \<and> (\<forall>db \<in> set (SqlDatabases (md g)). \<forall>blob. sqldb_secret g db = Some blob \<longrightarrow>
           (\<exists>cs pCfg k. json_Unmarshal s blob = Inr cs \<and> pgx_ParseConfig s cs = Inr pCfg
              \<and> external_cluster (rid_at s k) (rid_at s (Suc k)) (rid_at s (Suc (Suc k))) db pCfg
                  \<in> set exts))"
  using sq ne
proof (rule init_sql_Inr)
  fix srvConfig :: config_SQLServer
  let ?crid = "rid_at s (xids st)"
  let ?srv = "\<lparr>SQLServer_Rid = rid_at s (Suc (xids st)),
       SQLServer_Kind = SERVER_KIND_PRIMARY,
       SQLServer_Host = cSQLServer_Host srvConfig,
       SQLServer_TlsConfig =
         (if cSQLServer_ServerCACert srvConfig \<noteq> []
          then Some \<lparr>ServerCaCert = Some (cSQLServer_ServerCACert srvConfig),
                     DisableCaValidation = False\<rparr>
          else None)\<rparr>"
  let ?st = "with_infra (SQLCluster_SQLServer ?crid ?srv)
    (with_infra (Infra_SQLCluster
       \<lparr>SQLCluster_Rid = ?crid, SQLCluster_Servers = [],
        SQLCluster_Databases = []\<rparr>) (st\<lparr>xids := Suc (Suc (xids st))\<rparr>))"
  let ?m = "\<lparr>SQLCluster_Rid = ?crid, SQLCluster_Servers = [?srv], SQLCluster_Databases = []\<rparr>"
  assume cfg: "SQLServerConfig (infraManager g) = Inr srvConfig"
    and loop: "init_databases_loop s g ?crid (SqlDatabases (md g)) ?st = Inr st'"
  have cl: "Infra_sqlClusters (infra ?st) = ?m # []"
    by (simp add: SQLCluster_SQLServer_def Infra_SQLCluster_def e getOrCreate_def
        update_where_def)
  have m: "SQLCluster_Rid ?m = ?crid" by simp
  have dist: "distinct (map SQLCluster_Rid (?m # []))" by simp
  have old: "SQLCluster_Rid ` set (?m # []) \<subseteq> rid_at s ` {..<xids ?st}" by simp
  have oldd: "SQLDatabase_Rid ` set (SQLCluster_Databases ?m) \<subseteq> rid_at s ` {..<xids ?st}"
    by simp
  from init_databases_loop_clusters [OF loop inj cl m dist old oldd] obtain m' exts where
    r: "Infra_sqlClusters (infra st') = m' # [] @ exts"
      "SQLCluster_Rid m' = ?crid" "SQLCluster_Servers m' = SQLCluster_Servers ?m"
      "length (SQLCluster_Databases m')
         = length (SQLCluster_Databases ?m)
           + length (filter (\<lambda>db. sqldb_secret g db = None) (SqlDatabases (md g)))"
      "length exts = length (filter (\<lambda>db. sqldb_secret g db \<noteq> None) (SqlDatabases (md g)))"
      "?crid \<notin> SQLCluster_Rid ` set exts"
      "\<forall>db \<in> set (SqlDatabases (md g)). \<forall>blob. sqldb_secret g db = Some blob \<longrightarrow>
         (\<exists>cs pCfg k. json_Unmarshal s blob = Inr cs \<and> pgx_ParseConfig s cs = Inr pCfg
            \<and> external_cluster (rid_at s k) (rid_at s (Suc k)) (rid_at s (Suc (Suc k))) db pCfg
                \<in> set exts)"
    by auto
  show ?thesis
  proof (intro exI conjI)
    show "SQLServerConfig (infraManager g) = Inr srvConfig" by (fact cfg)
    show "Infra_sqlClusters (infra st') = m' # exts" using r(1) by simp
    show "map SQLServer_Host (SQLCluster_Servers m') = [cSQLServer_Host srvConfig]"
      using r(3) by simp
    show "length (SQLCluster_Databases m')
         = length (filter (\<lambda>db. sqldb_secret g db = None) (SqlDatabases (md g)))"
      using r(4) by simp
    show "length exts = length (filter (\<lambda>db. sqldb_secret g db \<noteq> None) (SqlDatabases (md g)))"
      by (fact r(5))
    show "SQLCluster_Rid m' \<notin> SQLCluster_Rid ` set exts"
      using r(2,6) by simp
    show "\<forall>db \<in> set (SqlDatabases (md g)). \<forall>blob. sqldb_secret g db = Some blob \<longrightarrow>
         (\<exists>cs pCfg k. json_Unmarshal s blob = Inr cs \<and> pgx_ParseConfig s cs = Inr pCfg
            \<and> external_cluster (rid_at s k) (rid_at s (Suc k)) (rid_at s (Suc (Suc k))) db pCfg
                \<in> set exts)"
      by (fact r(7))
  qed
qed

lemma external_database_of_initialize:
  assumes init: "initialize_body s g st = Inr st'"
    and inj: "inj_on (xid_New s) {..<xids st'}"
    and len: "\<forall>k < xids st'. length (xid_New s k) = 20"
    and db: "db \<in> set (SqlDatabases (md g))"
    and sec: "sqldb_secret g db = Some blob"
  shows "\<exists>cs pCfg srvConfig m exts crid srid drid.
       json_Unmarshal s blob = Inr cs \<and> pgx_ParseConfig s cs = Inr pCfg
     \<and> SQLServerConfig (infraManager g) = Inr srvConfig
     \<and> Infra_sqlClusters (infra st') = m # exts
     \<and> map SQLServer_Host (SQLCluster_Servers m) = [cSQLServer_Host srvConfig]
     \<and> length (SQLCluster_Databases m)
         = length (filter (\<lambda>db. sqldb_secret g db = None) (SqlDatabases (md g)))
     \<and> length exts = length (filter (\<lambda>db. sqldb_secret g db \<noteq> None) (SqlDatabases (md g)))
     \<and> external_cluster crid srid drid db pCfg \<in> set exts
     \<and> crid \<noteq> SQLCluster_Rid m
     \<and> (\<exists>r \<in> set (Infra_sqlRoles (infra st')).
           SQLRole_Rid r = role_rid crid (pgx_User pCfg)
           \<and> SQLRole_Username r = pgx_User pCfg)"
proof -
  from init obtain st2 st3 where
    sq: "init_sql s g st2 = Inr st3"
    and e: "Infra_sqlClusters (infra st2) = []"
    and fin: "Infra_sqlClusters (infra st') = Infra_sqlClusters (infra st3)"
    and le: "xids st3 \<le> xids st'"
    by (rule initialize_body_fields)
  from db have ne: "SqlDatabases (md g) \<noteq> []" by auto
  from le have "{..<xids st3} \<subseteq> {..<xids st'}" by auto
  with inj have inj3: "inj_on (xid_New s) {..<xids st3}"
    by (rule inj_on_subset)
  from init_sql_clusters [OF sq ne inj3 e] obtain srvConfig m exts where
    r: "SQLServerConfig (infraManager g) = Inr srvConfig"
      "Infra_sqlClusters (infra st3) = m # exts"
      "map SQLServer_Host (SQLCluster_Servers m) = [cSQLServer_Host srvConfig]"
      "length (SQLCluster_Databases m)
         = length (filter (\<lambda>db. sqldb_secret g db = None) (SqlDatabases (md g)))"
      "length exts = length (filter (\<lambda>db. sqldb_secret g db \<noteq> None) (SqlDatabases (md g)))"
      "SQLCluster_Rid m \<notin> SQLCluster_Rid ` set exts"
      "\<forall>db \<in> set (SqlDatabases (md g)). \<forall>blob. sqldb_secret g db = Some blob \<longrightarrow>
         (\<exists>cs pCfg k. json_Unmarshal s blob = Inr cs \<and> pgx_ParseConfig s cs = Inr pCfg
            \<and> external_cluster (rid_at s k) (rid_at s (Suc k)) (rid_at s (Suc (Suc k))) db pCfg
                \<in> set exts)"
    by auto
  from r(7) [rule_format, OF db sec] obtain cs pCfg k where
    p: "json_Unmarshal s blob = Inr cs" "pgx_ParseConfig s cs = Inr pCfg"
      "external_cluster (rid_at s k) (rid_at s (Suc k)) (rid_at s (Suc (Suc k))) db pCfg
         \<in> set exts"
    by auto
  let ?c = "external_cluster (rid_at s k) (rid_at s (Suc k)) (rid_at s (Suc (Suc k))) db pCfg"
  let ?d = "\<lparr>SQLDatabase_Rid = rid_at s (Suc (Suc k)),
      SQLDatabase_EncoreName = mSQLDatabase_Name db,
      SQLDatabase_CloudName = pgx_Database pCfg,
      SQLDatabase_ConnPools =
        [\<lparr>IsReadonly = False, RoleRid = role_rid (rid_at s k) (pgx_User pCfg),
          MinConnections = 0, MaxConnections = 0\<rparr>]\<rparr>"
  let ?p = "\<lparr>IsReadonly = False, RoleRid = role_rid (rid_at s k) (pgx_User pCfg),
          MinConnections = 0, MaxConnections = 0\<rparr>"
  have rc: "SQLCluster_Rid ?c = rid_at s k" by (simp add: external_cluster_def)
  from imageI [OF p(3), of SQLCluster_Rid] have "rid_at s k \<in> SQLCluster_Rid ` set exts"
    unfolding rc .
  with r(6) have nm: "rid_at s k \<noteq> SQLCluster_Rid m"
    by metis
  from p(3) have c: "?c \<in> set (Infra_sqlClusters (infra st'))"
    by (simp add: fin r(2))
  have d: "?d \<in> set (SQLCluster_Databases ?c)" by (simp add: external_cluster_def)
  have pp: "?p \<in> set (SQLDatabase_ConnPools ?d)" by simp
  from sql_pool_role [OF sql_roles_inv_initialize [OF init len] c d pp] obtain r where
    role: "r \<in> set (Infra_sqlRoles (infra st'))"
      "SQLRole_Rid r = role_rid (rid_at s k) (pgx_User pCfg)"
      "pgx_User pCfg = SQLRole_Username r"
    by (auto simp: role_rid_def rc)
  have ex: "\<exists>r \<in> set (Infra_sqlRoles (infra st')).
           SQLRole_Rid r = role_rid (rid_at s k) (pgx_User pCfg)
           \<and> SQLRole_Username r = pgx_User pCfg"
    using role by auto
  show ?thesis
  proof (intro exI conjI)
    show "json_Unmarshal s blob = Inr cs" by (fact p(1))
    show "pgx_ParseConfig s cs = Inr pCfg" by (fact p(2))
    show "SQLServerConfig (infraManager g) = Inr srvConfig" by (fact r(1))
    show "Infra_sqlClusters (infra st') = m # exts" by (simp add: fin r(2))
    show "map SQLServer_Host (SQLCluster_Servers m) = [cSQLServer_Host srvConfig]" by (fact r(3))
    show "length (SQLCluster_Databases m)
         = length (filter (\<lambda>db. sqldb_secret g db = None) (SqlDatabases (md g)))"
      by (fact r(4))
    show "length exts = length (filter (\<lambda>db. sqldb_secret g db \<noteq> None) (SqlDatabases (md g)))"
      by (fact r(5))
    show "?c \<in> set exts" by (fact p(3))
    show "rid_at s k \<noteq> SQLCluster_Rid m" by (fact nm)
    show "\<exists>r \<in> set (Infra_sqlRoles (infra st')).
           SQLRole_Rid r = role_rid (rid_at s k) (pgx_User pCfg)
           \<and> SQLRole_Username r = pgx_User pCfg"
      by (fact ex)
  qed
qed

subsection \<open>Malformed configurations\<close>

lemma init_database_malformed:
  assumes "sqldb_secret g db = Some blob"
  shows "json_Unmarshal s blob = Inl err \<Longrightarrow>
      init_database s g crid db st
        = Inl (Wrapf err ''failed to unmarshal external DB config for %q'' (mSQLDatabase_Name db))"
    and "json_Unmarshal s blob = Inr cs \<Longrightarrow> pgx_ParseConfig s cs = Inl err \<Longrightarrow>
      init_database s g crid db st
        = Inl (Wrapf err ''failed to parse external DB connection string for %q''
                 (mSQLDatabase_Name db))"
  using assms
  by (simp_all add: init_database_def init_external_database_def sqldb_secret_def)

lemma init_databases_loop_parsed:
  "init_databases_loop s g crid dbs st = Inr st' \<Longrightarrow> db \<in> set dbs \<Longrightarrow>
   sqldb_secret g db = Some blob \<Longrightarrow>
   \<exists>cs pCfg. json_Unmarshal s blob = Inr cs \<and> pgx_ParseConfig s cs = Inr pCfg"
proof (induction dbs arbitrary: st)
  case Nil
  then show ?case by simp
next
  case (Cons a dbs)
  from Cons.prems(1) obtain st1 where
    step: "init_database s g crid a st = Inr st1"
    and loop: "init_databases_loop s g crid dbs st1 = Inr st'"
    by (cases "init_database s g crid a st") auto
  show ?case
  proof (cases "db = a")
    case True
    from step Cons.prems(3) show ?thesis
      unfolding True by (rule init_database_external) auto
  next
    case False
    with Cons.prems(2) have "db \<in> set dbs" by simp
    from Cons.IH [OF loop this Cons.prems(3)] show ?thesis .
  qed
qed

lemma initialize_body_parsed:
  assumes "initialize_body s g st = Inr st'" and "db \<in> set (SqlDatabases (md g))"
    and "sqldb_secret g db = Some blob"
  shows "\<exists>cs pCfg. json_Unmarshal s blob = Inr cs \<and> pgx_ParseConfig s cs = Inr pCfg"
proof -
  from assms(1) obtain st2 st3 where sq: "init_sql s g st2 = Inr st3"
    by (rule initialize_body_fields)
  from assms(2) have ne: "SqlDatabases (md g) \<noteq> []" by auto
  from sq ne show ?thesis
  proof (rule init_sql_Inr)
    fix srvConfig :: config_SQLServer
    let ?st = "with_infra (SQLCluster_SQLServer (rid_at s (xids st2))
          \<lparr>SQLServer_Rid = rid_at s (Suc (xids st2)),
           SQLServer_Kind = SERVER_KIND_PRIMARY,
           SQLServer_Host = cSQLServer_Host srvConfig,
           SQLServer_TlsConfig =
             (if cSQLServer_ServerCACert srvConfig \<noteq> []
              then Some \<lparr>ServerCaCert = Some (cSQLServer_ServerCACert srvConfig),
                         DisableCaValidation = False\<rparr>
              else None)\<rparr>)
        (with_infra (Infra_SQLCluster
           \<lparr>SQLCluster_Rid = rid_at s (xids st2), SQLCluster_Servers = [],
            SQLCluster_Databases = []\<rparr>) (st2\<lparr>xids := Suc (Suc (xids st2))\<rparr>))"
    assume "init_databases_loop s g (rid_at s (xids st2)) (SqlDatabases (md g)) ?st = Inr st3"
    from init_databases_loop_parsed [OF this assms(2,3)] show ?thesis .
  qed
qed

lemma init_database_total:
  assumes "case sqldb_secret g db of
      Some b \<Rightarrow> \<exists>cs pCfg. json_Unmarshal s b = Inr cs \<and> pgx_ParseConfig s cs = Inr pCfg
    | None \<Rightarrow> \<exists>dbConfig. SQLDatabaseConfig (infraManager g) db = Inr dbConfig"
  shows "\<exists>st'. init_database s g crid db st = Inr st'"
  using assms
  by (auto simp: init_database_def init_external_database_def init_managed_database_def
      sqldb_secret_def newRid_eq Let_def split: option.splits)

lemma init_databases_loop_error:
  assumes "\<forall>db' \<in> set dbs1. case sqldb_secret g db' of
      Some b \<Rightarrow> \<exists>cs pCfg. json_Unmarshal s b = Inr cs \<and> pgx_ParseConfig s cs = Inr pCfg
    | None \<Rightarrow> \<exists>dbConfig. SQLDatabaseConfig (infraManager g) db' = Inr dbConfig"
    and "\<And>st. init_database s g crid db st = Inl e"
  shows "init_databases_loop s g crid (dbs1 @ db # dbs2) st = Inl e"
  using assms(1)
proof (induction dbs1 arbitrary: st)
  case Nil
  then show ?case by (simp add: assms(2))
next
  case (Cons a dbs1)
  from Cons.prems have "case sqldb_secret g a of
      Some b \<Rightarrow> \<exists>cs pCfg. json_Unmarshal s b = Inr cs \<and> pgx_ParseConfig s cs = Inr pCfg
    | None \<Rightarrow> \<exists>dbConfig. SQLDatabaseConfig (infraManager g) a = Inr dbConfig"
    by simp
  from init_database_total [OF this, of crid st] obtain st1 where
    "init_database s g crid a st = Inr st1" by auto
  with Cons.IH [of st1] Cons.prems show ?case by simp
qed

lemma init_topics_loop_total:
  "\<forall>t \<in> set topics.
     Topic_DeliveryGuarantee t \<in> {PubSubTopic_AT_LEAST_ONCE, PubSubTopic_EXACTLY_ONCE} \<Longrightarrow>
   \<exists>st'. init_topics_loop s crid topics st = Inr st'"
  by (induction topics arbitrary: st) (auto simp: newRid_eq)

lemma init_pubsub_total:
  assumes "PubsubTopics (md g) = [] \<or>
      PubSubProviderConfig (infraManager g) = Inr pc
      \<and> (\<forall>t \<in> set (PubsubTopics (md g)).
            Topic_DeliveryGuarantee t \<in> {PubSubTopic_AT_LEAST_ONCE, PubSubTopic_EXACTLY_ONCE})"
  shows "\<exists>st'. init_pubsub s g st = Inr st'"
proof (cases "PubsubTopics (md g) = []")
  case True
  then show ?thesis by (simp add: init_pubsub_def)
next
  case False
  with assms have pc: "PubSubProviderConfig (infraManager g) = Inr pc"
    and ok: "\<forall>t \<in> set (PubsubTopics (md g)).
            Topic_DeliveryGuarantee t \<in> {PubSubTopic_AT_LEAST_ONCE, PubSubTopic_EXACTLY_ONCE}"
    by auto
  from False pc init_topics_loop_total [OF ok] show ?thesis
    by (simp add: init_pubsub_def newRid_eq)
qed

lemma initialize_body_database_error:
  assumes af: "AppFile (app g) = Inr appFile"
    and gw: "mGateways (md g) = [] \<or> GlobalCORS (app g) = Inr cors"
    and ps: "PubsubTopics (md g) = [] \<or>
      PubSubProviderConfig (infraManager g) = Inr pc
      \<and> (\<forall>t \<in> set (PubsubTopics (md g)).
            Topic_DeliveryGuarantee t \<in> {PubSubTopic_AT_LEAST_ONCE, PubSubTopic_EXACTLY_ONCE})"
    and srv: "SQLServerConfig (infraManager g) = Inr srvConfig"
    and dbs: "SqlDatabases (md g) = dbs1 @ db # dbs2"
    and ok: "\<forall>db' \<in> set dbs1. case sqldb_secret g db' of
        Some b \<Rightarrow> \<exists>cs pCfg. json_Unmarshal s b = Inr cs \<and> pgx_ParseConfig s cs = Inr pCfg
      | None \<Rightarrow> \<exists>dbConfig. SQLDatabaseConfig (infraManager g) db' = Inr dbConfig"
    and err: "\<And>crid st. init_database s g crid db st = Inl e"
  shows "initialize_body s g st = Inl e"
proof -
  let ?st0 = "init_defaults (init_services_loop appFile (Svcs (md g))
                (init_tracing s g (init_env s g st)))"
  from init_gateways_loop_total [OF gw, of s ?st0] obtain st1 where
    g1: "init_gateways_loop s g (mGateways (md g)) ?st0 = Inr st1"
    by blast
  from init_pubsub_total [OF ps, of s st1] obtain st2 where
    p2: "init_pubsub s g st1 = Inr st2"
    by blast
  have "init_sql s g st2 = Inl e"
    using srv dbs init_databases_loop_error [OF ok err]
    by (simp add: init_sql_def newRid_eq Let_def)
  with g1 p2 af show ?thesis
    by (simp add: initialize_body_def Let_def)
qed

text \<open>
  Claim C4. Let a declared SQL database have a secret under \<^verbatim>\<open>sqldb::\<close> and its name. When the
  initialization succeeds (with distinct identifiers of twenty characters), the secret
  decodes to a connection string that parses, and the graph holds, behind the managed
  cluster, which comes first and keeps the one server of the managed configuration, a
  cluster of its own for the database: one primary server with the host of the connection
  string and certificate validation disabled, one database with the declared name and the
  database of the connection string as cloud name, and one pool that references a role of
  the graph with the user of the connection string, whose Rid is built from the Rid of this
  cluster. The managed cluster has one database for each declared database without such a
  secret, and there is one further cluster for each declared database with one. When the
  secret does not decode or the connection string does not parse, the initialization
  returns an error; when the stages and the databases before this one succeed, that error
  is the error of the decoder or of the parser, wrapped with the message of the failed step
  and the name of the database.
\<close>

theorem initialize_external_database:
  "(initialize_body s g st = Inr st' \<and> inj_on (xid_New s) {..<xids st'}
      \<and> (\<forall>k < xids st'. length (xid_New s k) = 20)
      \<and> db \<in> set (SqlDatabases (md g)) \<and> sqldb_secret g db = Some blob \<longrightarrow>
      (\<exists>cs pCfg srvConfig m exts crid srid drid.
           json_Unmarshal s blob = Inr cs \<and> pgx_ParseConfig s cs = Inr pCfg
         \<and> SQLServerConfig (infraManager g) = Inr srvConfig
         \<and> Infra_sqlClusters (infra st') = m # exts
         \<and> map SQLServer_Host (SQLCluster_Servers m) = [cSQLServer_Host srvConfig]
         \<and> length (SQLCluster_Databases m)
             = length (filter (\<lambda>db. sqldb_secret g db = None) (SqlDatabases (md g)))
         \<and> length exts
             = length (filter (\<lambda>db. sqldb_secret g db \<noteq> None) (SqlDatabases (md g)))
         \<and> external_cluster crid srid drid db pCfg \<in> set exts
         \<and> crid \<noteq> SQLCluster_Rid m
         \<and> (\<exists>r \<in> set (Infra_sqlRoles (infra st')).
               SQLRole_Rid r = role_rid crid (pgx_User pCfg)
               \<and> SQLRole_Username r = pgx_User pCfg)))
   \<and> (db \<in> set (SqlDatabases (md g)) \<and> sqldb_secret g db = Some blob
        \<and> (\<forall>cs pCfg. json_Unmarshal s blob = Inr cs \<longrightarrow> pgx_ParseConfig s cs \<noteq> Inr pCfg)
        \<longrightarrow> (\<exists>err. initialize_body s g st = Inl err))
   \<and> (AppFile (app g) = Inr appFile
        \<and> (mGateways (md g) = [] \<or> GlobalCORS (app g) = Inr cors)
        \<and> (PubsubTopics (md g) = [] \<or>
             PubSubProviderConfig (infraManager g) = Inr pc
             \<and> (\<forall>t \<in> set (PubsubTopics (md g)).
                   Topic_DeliveryGuarantee t
                     \<in> {PubSubTopic_AT_LEAST_ONCE, PubSubTopic_EXACTLY_ONCE}))
        \<and> SQLServerConfig (infraManager g) = Inr srvConfig
        \<and> SqlDatabases (md g) = dbs1 @ db # dbs2
        \<and> (\<forall>db' \<in> set dbs1. case sqldb_secret g db' of
               Some b \<Rightarrow> \<exists>cs pCfg. json_Unmarshal s b = Inr cs \<and> pgx_ParseConfig s cs = Inr pCfg
             | None \<Rightarrow> \<exists>dbConfig. SQLDatabaseConfig (infraManager g) db' = Inr dbConfig)
        \<and> sqldb_secret g db = Some blob
        \<and> (json_Unmarshal s blob = Inl err
              \<and> e = Wrapf err ''failed to unmarshal external DB config for %q''
                      (mSQLDatabase_Name db)
            \<or> json_Unmarshal s blob = Inr cs \<and> pgx_ParseConfig s cs = Inl err
              \<and> e = Wrapf err ''failed to parse external DB connection string for %q''
                      (mSQLDatabase_Name db))
        \<longrightarrow> initialize_body s g st = Inl e)"
proof (intro conjI impI)
  assume "initialize_body s g st = Inr st' \<and> inj_on (xid_New s) {..<xids st'}
      \<and> (\<forall>k < xids st'. length (xid_New s k) = 20)
      \<and> db \<in> set (SqlDatabases (md g)) \<and> sqldb_secret g db = Some blob"
  then have a: "initialize_body s g st = Inr st'" "inj_on (xid_New s) {..<xids st'}"
    "\<forall>k < xids st'. length (xid_New s k) = 20"
    "db \<in> set (SqlDatabases (md g))" "sqldb_secret g db = Some blob"
    by simp_all
  show "\<exists>cs pCfg srvConfig m exts crid srid drid.
           json_Unmarshal s blob = Inr cs \<and> pgx_ParseConfig s cs = Inr pCfg
         \<and> SQLServerConfig (infraManager g) = Inr srvConfig
         \<and> Infra_sqlClusters (infra st') = m # exts
         \<and> map SQLServer_Host (SQLCluster_Servers m) = [cSQLServer_Host srvConfig]
         \<and> length (SQLCluster_Databases m)
             = length (filter (\<lambda>db. sqldb_secret g db = None) (SqlDatabases (md g)))
         \<and> length exts
             = length (filter (\<lambda>db. sqldb_secret g db \<noteq> None) (SqlDatabases (md g)))
         \<and> external_cluster crid srid drid db pCfg \<in> set exts
         \<and> crid \<noteq> SQLCluster_Rid m
         \<and> (\<exists>r \<in> set (Infra_sqlRoles (infra st')).
               SQLRole_Rid r = role_rid crid (pgx_User pCfg)
               \<and> SQLRole_Username r = pgx_User pCfg)"
    by (rule external_database_of_initialize [OF a])
next
  assume "db \<in> set (SqlDatabases (md g)) \<and> sqldb_secret g db = Some blob
        \<and> (\<forall>cs pCfg. json_Unmarshal s blob = Inr cs \<longrightarrow> pgx_ParseConfig s cs \<noteq> Inr pCfg)"
  then have b: "db \<in> set (SqlDatabases (md g))" "sqldb_secret g db = Some blob"
    "\<forall>cs pCfg. json_Unmarshal s blob = Inr cs \<longrightarrow> pgx_ParseConfig s cs \<noteq> Inr pCfg"
    by simp_all
  show "\<exists>err. initialize_body s g st = Inl err"
  proof (cases "initialize_body s g st")
    case (Inl err)
    then show ?thesis by simp
  next
    case (Inr st2)
    from initialize_body_parsed [OF Inr b(1,2)] b(3) show ?thesis by auto
  qed
next
  assume "AppFile (app g) = Inr appFile
        \<and> (mGateways (md g) = [] \<or> GlobalCORS (app g) = Inr cors)
        \<and> (PubsubTopics (md g) = [] \<or>
             PubSubProviderConfig (infraManager g) = Inr pc
             \<and> (\<forall>t \<in> set (PubsubTopics (md g)).
                   Topic_DeliveryGuarantee t
                     \<in> {PubSubTopic_AT_LEAST_ONCE, PubSubTopic_EXACTLY_ONCE}))
        \<and> SQLServerConfig (infraManager g) = Inr srvConfig
        \<and> SqlDatabases (md g) = dbs1 @ db # dbs2
        \<and> (\<forall>db' \<in> set dbs1. case sqldb_secret g db' of
               Some b \<Rightarrow> \<exists>cs pCfg. json_Unmarshal s b = Inr cs \<and> pgx_ParseConfig s cs = Inr pCfg
             | None \<Rightarrow> \<exists>dbConfig. SQLDatabaseConfig (infraManager g) db' = Inr dbConfig)
        \<and> sqldb_secret g db = Some blob
        \<and> (json_Unmarshal s blob = Inl err
              \<and> e = Wrapf err ''failed to unmarshal external DB config for %q''
                      (mSQLDatabase_Name db)
            \<or> json_Unmarshal s blob = Inr cs \<and> pgx_ParseConfig s cs = Inl err
              \<and> e = Wrapf err ''failed to parse external DB connection string for %q''
                      (mSQLDatabase_Name db))"
  then have c: "AppFile (app g) = Inr appFile"
    "mGateways (md g) = [] \<or> GlobalCORS (app g) = Inr cors"
    "PubsubTopics (md g) = [] \<or>
       PubSubProviderConfig (infraManager g) = Inr pc
       \<and> (\<forall>t \<in> set (PubsubTopics (md g)).
             Topic_DeliveryGuarantee t \<in> {PubSubTopic_AT_LEAST_ONCE, PubSubTopic_EXACTLY_ONCE})"
    "SQLServerConfig (infraManager g) = Inr srvConfig"
    "SqlDatabases (md g) = dbs1 @ db # dbs2"
    "\<forall>db' \<in> set dbs1. case sqldb_secret g db' of
        Some b \<Rightarrow> \<exists>cs pCfg. json_Unmarshal s b = Inr cs \<and> pgx_ParseConfig s cs = Inr pCfg
      | None \<Rightarrow> \<exists>dbConfig. SQLDatabaseConfig (infraManager g) db' = Inr dbConfig"
    and sec: "sqldb_secret g db = Some blob"
    and bad: "json_Unmarshal s blob = Inl err
              \<and> e = Wrapf err ''failed to unmarshal external DB config for %q''
                      (mSQLDatabase_Name db)
            \<or> json_Unmarshal s blob = Inr cs \<and> pgx_ParseConfig s cs = Inl err
              \<and> e = Wrapf err ''failed to parse external DB connection string for %q''
                      (mSQLDatabase_Name db)"
    by simp_all
  have "init_database s g crid db st0 = Inl e" for crid st0
    using bad init_database_malformed [OF sec, of s] by auto
  then show "initialize_body s g st = Inl e"
    by (rule initialize_body_database_error [OF c])
qed

theorem initialize_external_database_witness:
  "(\<exists>st crid srid drid.
      initialize_body demo_sys (demo_gen PubSubTopic_AT_LEAST_ONCE) demo_state = Inr st
      \<and> external_cluster crid srid drid \<lparr>mSQLDatabase_Name = ''ext''\<rparr>
          \<lparr>pgx_Host = ''host'', pgx_User = ''u'', pgx_Password = ''p'', pgx_Database = ''db''\<rparr>
          \<in> set (tl (Infra_sqlClusters (infra st)))
      \<and> length (Infra_sqlClusters (infra st)) = 2
      \<and> length (SQLCluster_Databases (hd (Infra_sqlClusters (infra st)))) = 2
      \<and> (\<exists>r \<in> set (Infra_sqlRoles (infra st)).
            SQLRole_Rid r = role_rid crid ''u'' \<and> SQLRole_Username r = ''u''))
   \<and> initialize_body demo_sys
       ((demo_gen PubSubTopic_AT_LEAST_ONCE)
          \<lparr>DefinedSecrets := [(''sqldb::ext'', demo_blob), (''sqldb::a'', ''{'')]\<rparr>) demo_state
     = Inl (Wrapf (External ''unexpected end of JSON input'')
              ''failed to unmarshal external DB config for %q'' ''a'')
   \<and> initialize_body demo_sys
       ((demo_gen PubSubTopic_AT_LEAST_ONCE)
          \<lparr>DefinedSecrets := [(''sqldb::ext'', demo_blob_port)]\<rparr>) demo_state
     = Inl (Wrapf (External ''invalid port'')
              ''failed to parse external DB connection string for %q'' ''ext'')"
proof (intro conjI)
  let ?g = "demo_gen PubSubTopic_AT_LEAST_ONCE"
  let ?ext = "\<lparr>mSQLDatabase_Name = ''ext''\<rparr>"
  let ?a = "\<lparr>mSQLDatabase_Name = ''a''\<rparr>"
  let ?b = "\<lparr>mSQLDatabase_Name = ''b''\<rparr>"
  let ?af = "\<lparr>LogLevel = [], Build = \<lparr>WorkerPooling = False\<rparr>\<rparr>"
  let ?pc = "\<lparr>NSQ_Host = ''localhost:4150''\<rparr>"
  let ?srv = "\<lparr>cSQLServer_Host = ''localhost:5432'', cSQLServer_ServerCACert = []\<rparr>"
  let ?p = "\<lparr>pgx_Host = ''host'', pgx_User = ''u'', pgx_Password = ''p'', pgx_Database = ''db''\<rparr>"
  from demo_initialize obtain st where
    st: "initialize_body demo_sys ?g demo_state = Inr st" "xids st = 18"
    by auto
  have inj: "inj_on (xid_New demo_sys) {..<xids st}"
    using demo_xid_inj by (auto simp: st(2) demo_sys_def intro: inj_on_subset)
  have len: "\<forall>k < xids st. length (xid_New demo_sys k) = 20"
    by (simp add: st(2) demo_sys_def demo_xid_length)
  have db: "?ext \<in> set (SqlDatabases (md ?g))"
    by (simp add: demo_gen_def demo_md_def)
  have sec: "sqldb_secret ?g ?ext = Some demo_blob"
    by (simp add: demo_gen_def sqldb_secret_def)
  have none: "filter (\<lambda>db. sqldb_secret ?g db = None) (SqlDatabases (md ?g)) = [?a, ?b]"
    "filter (\<lambda>db. sqldb_secret ?g db \<noteq> None) (SqlDatabases (md ?g)) = [?ext]"
    by (simp_all add: demo_gen_def demo_md_def sqldb_secret_def)
  have hyp: "initialize_body demo_sys ?g demo_state = Inr st
      \<and> inj_on (xid_New demo_sys) {..<xids st}
      \<and> (\<forall>k < xids st. length (xid_New demo_sys k) = 20)
      \<and> ?ext \<in> set (SqlDatabases (md ?g)) \<and> sqldb_secret ?g ?ext = Some demo_blob"
    by (intro conjI) (fact st(1) inj len db sec)+
  from initialize_external_database [of demo_sys ?g demo_state st ?ext demo_blob,
      THEN conjunct1, rule_format, OF hyp]
  obtain cs pCfg srvConfig m exts crid srid drid where
    r: "json_Unmarshal demo_sys demo_blob = Inr cs" "pgx_ParseConfig demo_sys cs = Inr pCfg"
      "Infra_sqlClusters (infra st) = m # exts"
      "length (SQLCluster_Databases m)
         = length (filter (\<lambda>db. sqldb_secret ?g db = None) (SqlDatabases (md ?g)))"
      "length exts = length (filter (\<lambda>db. sqldb_secret ?g db \<noteq> None) (SqlDatabases (md ?g)))"
      "external_cluster crid srid drid ?ext pCfg \<in> set exts"
      "\<exists>r \<in> set (Infra_sqlRoles (infra st)).
         SQLRole_Rid r = role_rid crid (pgx_User pCfg) \<and> SQLRole_Username r = pgx_User pCfg"
    by blast
  from r(1,2) have p: "pCfg = ?p"
    by (auto simp: demo_sys_def split: if_splits)
  show "\<exists>st crid srid drid.
      initialize_body demo_sys ?g demo_state = Inr st
      \<and> external_cluster crid srid drid ?ext ?p \<in> set (tl (Infra_sqlClusters (infra st)))
      \<and> length (Infra_sqlClusters (infra st)) = 2
      \<and> length (SQLCluster_Databases (hd (Infra_sqlClusters (infra st)))) = 2
      \<and> (\<exists>r \<in> set (Infra_sqlRoles (infra st)).
            SQLRole_Rid r = role_rid crid ''u'' \<and> SQLRole_Username r = ''u'')"
  proof (intro exI conjI)
    show "initialize_body demo_sys ?g demo_state = Inr st" by (fact st(1))
    show "external_cluster crid srid drid ?ext ?p \<in> set (tl (Infra_sqlClusters (infra st)))"
      using r(6) by (simp add: r(3) p)
    show "length (Infra_sqlClusters (infra st)) = 2"
      using r(5) [unfolded none] by (simp add: r(3))
    show "length (SQLCluster_Databases (hd (Infra_sqlClusters (infra st)))) = 2"
      using r(4) [unfolded none] by (simp add: r(3))
    show "\<exists>r \<in> set (Infra_sqlRoles (infra st)).
            SQLRole_Rid r = role_rid crid ''u'' \<and> SQLRole_Username r = ''u''"
      using r(7) by (simp add: p)
  qed
next
  let ?g = "(demo_gen PubSubTopic_AT_LEAST_ONCE)
          \<lparr>DefinedSecrets := [(''sqldb::ext'', demo_blob), (''sqldb::a'', ''{'')]\<rparr>"
  let ?ext = "\<lparr>mSQLDatabase_Name = ''ext''\<rparr>"
  let ?a = "\<lparr>mSQLDatabase_Name = ''a''\<rparr>"
  let ?b = "\<lparr>mSQLDatabase_Name = ''b''\<rparr>"
  let ?af = "\<lparr>LogLevel = [], Build = \<lparr>WorkerPooling = False\<rparr>\<rparr>"
  let ?pc = "\<lparr>NSQ_Host = ''localhost:4150''\<rparr>"
  let ?srv = "\<lparr>cSQLServer_Host = ''localhost:5432'', cSQLServer_ServerCACert = []\<rparr>"
  let ?e = "Wrapf (External ''unexpected end of JSON input'')
              ''failed to unmarshal external DB config for %q'' ''a''"
  have h: "AppFile (app ?g) = Inr ?af"
    "mGateways (md ?g) = [] \<or> GlobalCORS (app ?g) = Inr demo_cors"
    "PubsubTopics (md ?g) = [] \<or>
       PubSubProviderConfig (infraManager ?g) = Inr ?pc
       \<and> (\<forall>t \<in> set (PubsubTopics (md ?g)).
             Topic_DeliveryGuarantee t \<in> {PubSubTopic_AT_LEAST_ONCE, PubSubTopic_EXACTLY_ONCE})"
    "SQLServerConfig (infraManager ?g) = Inr ?srv"
    "SqlDatabases (md ?g) = [?ext] @ ?a # [?b]"
    "\<forall>db' \<in> set [?ext]. case sqldb_secret ?g db' of
        Some b \<Rightarrow> \<exists>cs pCfg. json_Unmarshal demo_sys b = Inr cs
                     \<and> pgx_ParseConfig demo_sys cs = Inr pCfg
      | None \<Rightarrow> \<exists>dbConfig. SQLDatabaseConfig (infraManager ?g) db' = Inr dbConfig"
    "sqldb_secret ?g ?a = Some ''{''"
    "json_Unmarshal demo_sys ''{'' = Inl (External ''unexpected end of JSON input'')
       \<and> ?e = Wrapf (External ''unexpected end of JSON input'')
                ''failed to unmarshal external DB config for %q'' (mSQLDatabase_Name ?a)
     \<or> json_Unmarshal demo_sys ''{'' = Inr []
       \<and> pgx_ParseConfig demo_sys [] = Inl (External ''unexpected end of JSON input'')
       \<and> ?e = Wrapf (External ''unexpected end of JSON input'')
                ''failed to parse external DB connection string for %q'' (mSQLDatabase_Name ?a)"
    by (simp_all add: demo_gen_def demo_md_def demo_topic_def demo_app_def demo_im_def
        sqldb_secret_def demo_sys_def demo_blob_def demo_blob_port_def)
  have hh: "AppFile (app ?g) = Inr ?af
    \<and> (mGateways (md ?g) = [] \<or> GlobalCORS (app ?g) = Inr demo_cors)
    \<and> (PubsubTopics (md ?g) = [] \<or>
       PubSubProviderConfig (infraManager ?g) = Inr ?pc
       \<and> (\<forall>t \<in> set (PubsubTopics (md ?g)).
             Topic_DeliveryGuarantee t \<in> {PubSubTopic_AT_LEAST_ONCE, PubSubTopic_EXACTLY_ONCE}))
    \<and> SQLServerConfig (infraManager ?g) = Inr ?srv
    \<and> SqlDatabases (md ?g) = [?ext] @ ?a # [?b]
    \<and> (\<forall>db' \<in> set [?ext]. case sqldb_secret ?g db' of
        Some b \<Rightarrow> \<exists>cs pCfg. json_Unmarshal demo_sys b = Inr cs
                     \<and> pgx_ParseConfig demo_sys cs = Inr pCfg
      | None \<Rightarrow> \<exists>dbConfig. SQLDatabaseConfig (infraManager ?g) db' = Inr dbConfig)
    \<and> sqldb_secret ?g ?a = Some ''{''
    \<and> (json_Unmarshal demo_sys ''{'' = Inl (External ''unexpected end of JSON input'')
       \<and> ?e = Wrapf (External ''unexpected end of JSON input'')
                ''failed to unmarshal external DB config for %q'' (mSQLDatabase_Name ?a)
     \<or> json_Unmarshal demo_sys ''{'' = Inr []
       \<and> pgx_ParseConfig demo_sys [] = Inl (External ''unexpected end of JSON input'')
       \<and> ?e = Wrapf (External ''unexpected end of JSON input'')
                ''failed to parse external DB connection string for %q'' (mSQLDatabase_Name ?a))"
    by (intro conjI; fact h)
  show "initialize_body demo_sys ?g demo_state = Inl ?e"
    by (rule initialize_external_database [of demo_sys ?g demo_state demo_state ?a "''{''"
        ?af demo_cors ?pc ?srv "[?ext]" "[?b]" "External ''unexpected end of JSON input''" ?e "[]",
        THEN conjunct2, THEN conjunct2, rule_format, OF hh])
next
  let ?s = demo_sys
  let ?g = "(demo_gen PubSubTopic_AT_LEAST_ONCE)
          \<lparr>DefinedSecrets := [(''sqldb::ext'', demo_blob_port)]\<rparr>"
  let ?cs = "''postgres://u:p@host:abc/db''"
  let ?ext = "\<lparr>mSQLDatabase_Name = ''ext''\<rparr>"
  let ?a = "\<lparr>mSQLDatabase_Name = ''a''\<rparr>"
  let ?b = "\<lparr>mSQLDatabase_Name = ''b''\<rparr>"
  let ?af = "\<lparr>LogLevel = [], Build = \<lparr>WorkerPooling = False\<rparr>\<rparr>"
  let ?pc = "\<lparr>NSQ_Host = ''localhost:4150''\<rparr>"
  let ?srv = "\<lparr>cSQLServer_Host = ''localhost:5432'', cSQLServer_ServerCACert = []\<rparr>"
  let ?e = "Wrapf (External ''invalid port'')
              ''failed to parse external DB connection string for %q'' ''ext''"
  have h: "AppFile (app ?g) = Inr ?af"
    "mGateways (md ?g) = [] \<or> GlobalCORS (app ?g) = Inr demo_cors"
    "PubsubTopics (md ?g) = [] \<or>
       PubSubProviderConfig (infraManager ?g) = Inr ?pc
       \<and> (\<forall>t \<in> set (PubsubTopics (md ?g)).
             Topic_DeliveryGuarantee t \<in> {PubSubTopic_AT_LEAST_ONCE, PubSubTopic_EXACTLY_ONCE})"
    "SQLServerConfig (infraManager ?g) = Inr ?srv"
    "SqlDatabases (md ?g) = [] @ ?ext # [?a, ?b]"
    "\<forall>db' \<in> set []. case sqldb_secret ?g db' of
        Some b \<Rightarrow> \<exists>cs pCfg. json_Unmarshal ?s b = Inr cs \<and> pgx_ParseConfig ?s cs = Inr pCfg
      | None \<Rightarrow> \<exists>dbConfig. SQLDatabaseConfig (infraManager ?g) db' = Inr dbConfig"
    "sqldb_secret ?g ?ext = Some demo_blob_port"
    "json_Unmarshal ?s demo_blob_port = Inl (External ''invalid port'')
       \<and> ?e = Wrapf (External ''invalid port'')
                ''failed to unmarshal external DB config for %q'' (mSQLDatabase_Name ?ext)
     \<or> json_Unmarshal ?s demo_blob_port = Inr ?cs
       \<and> pgx_ParseConfig ?s ?cs = Inl (External ''invalid port'')
       \<and> ?e = Wrapf (External ''invalid port'')
                ''failed to parse external DB connection string for %q'' (mSQLDatabase_Name ?ext)"
    by (simp_all add: demo_gen_def demo_md_def demo_topic_def demo_app_def demo_im_def
        sqldb_secret_def demo_sys_def demo_blob_def demo_blob_port_def)
  have hh: "AppFile (app ?g) = Inr ?af
    \<and> (mGateways (md ?g) = [] \<or> GlobalCORS (app ?g) = Inr demo_cors)
    \<and> (PubsubTopics (md ?g) = [] \<or>
       PubSubProviderConfig (infraManager ?g) = Inr ?pc
       \<and> (\<forall>t \<in> set (PubsubTopics (md ?g)).
             Topic_DeliveryGuarantee t \<in> {PubSubTopic_AT_LEAST_ONCE, PubSubTopic_EXACTLY_ONCE}))
    \<and> SQLServerConfig (infraManager ?g) = Inr ?srv
    \<and> SqlDatabases (md ?g) = [] @ ?ext # [?a, ?b]
    \<and> (\<forall>db' \<in> set []. case sqldb_secret ?g db' of
        Some b \<Rightarrow> \<exists>cs pCfg. json_Unmarshal ?s b = Inr cs \<and> pgx_ParseConfig ?s cs = Inr pCfg
      | None \<Rightarrow> \<exists>dbConfig. SQLDatabaseConfig (infraManager ?g) db' = Inr dbConfig)
    \<and> sqldb_secret ?g ?ext = Some demo_blob_port
    \<and> (json_Unmarshal ?s demo_blob_port = Inl (External ''invalid port'')
       \<and> ?e = Wrapf (External ''invalid port'')
                ''failed to unmarshal external DB config for %q'' (mSQLDatabase_Name ?ext)
     \<or> json_Unmarshal ?s demo_blob_port = Inr ?cs
       \<and> pgx_ParseConfig ?s ?cs = Inl (External ''invalid port'')
       \<and> ?e = Wrapf (External ''invalid port'')
                ''failed to parse external DB connection string for %q''
                (mSQLDatabase_Name ?ext))"
    by (intro conjI; fact h)
  show "initialize_body ?s ?g demo_state = Inl ?e"
    by (rule initialize_external_database [of ?s ?g demo_state demo_state ?ext demo_blob_port
        ?af demo_cors ?pc ?srv "[]" "[?a, ?b]" "External ''invalid port''" ?e ?cs,
        THEN conjunct2, THEN conjunct2, rule_format, OF hh])
qed

end
